(* ===== verification/Prelude.thy ===== *)
theory Prelude
  imports Main "HOL-Library.Word"
begin

text \<open>
  Shared vocabulary of the development. A JavaScript string is a sequence of
  UTF-16 code units, so it is modelled as a list of 16-bit words; \<open>str\<close>
  turns an ASCII literal of the source (\<open>'companyName'\<close>) into that
  representation. The collection \<open>js_eval\<close> gathers the equations that
  evaluate the model on concrete strings, so witnesses are proved by
  \<open>simp add: js_eval\<close>.
\<close>

type_synonym code_unit = "16 word"
type_synonym jsstr = "code_unit list"

named_theorems js_eval "equations that evaluate the model on concrete inputs"

definition str :: "string \<Rightarrow> jsstr" where
  "str s = map (\<lambda>c. of_nat (of_char c)) s"

lemma str_Nil [simp, js_eval]: "str [] = []"
  by (simp add: str_def)

lemma str_Cons [simp, js_eval]: "str (c # cs) = of_nat (of_char c) # str cs"
  by (simp add: str_def)

lemma str_append [simp]: "str (xs @ ys) = str xs @ str ys"
  by (simp add: str_def)

lemma length_str [simp]: "length (str s) = length s"
  by (simp add: str_def)

lemma str_eq_Nil_iff [simp]: "str s = [] \<longleftrightarrow> s = []"
  by (simp add: str_def)

text \<open>ASCII characters keep their value as code units.\<close>

lemma unat_of_char [simp]: "unat (of_nat (of_char c) :: code_unit) = of_char c"
proof -
  have "of_char c < (2::nat) ^ LENGTH(16)"
    by (rule less_trans [OF nat_of_char_less_256]) simp
  then show ?thesis by (rule of_nat_inverse [OF refl])
qed

lemma map_unat_str: "map unat (str s) = map of_char s"
  by (simp add: str_def)

lemma str_inj: "str s = str t \<longleftrightarrow> s = t"
proof
  assume "str s = str t"
  then have "map of_char s = map (of_char :: char \<Rightarrow> nat) t"
    by (metis map_unat_str)
  moreover have "inj (of_char :: char \<Rightarrow> nat)"
    by (rule injI) (metis char_of_char)
  ultimately show "s = t"
    by (simp add: inj_map_eq_map)
qed simp

subsection \<open>Lists\<close>

text \<open>Splitting a list at the first element that fails a test.\<close>

lemma takeWhile_dropWhile_split:
  "xs = takeWhile P xs @ dropWhile P xs"
  by simp

lemma dropWhile_hd_not:
  "dropWhile P xs = y # ys \<Longrightarrow> \<not> P y"
  using hd_dropWhile [of P xs] by (metis list.distinct(1) list.sel(1))

lemma dropWhile_eq_Nil_iff': "dropWhile P xs = [] \<longleftrightarrow> list_all P xs"
  by (simp add: list_all_iff)

lemma dropWhile_append_all:
  "list_all P xs \<Longrightarrow> dropWhile P (xs @ ys) = dropWhile P ys"
  by (induction xs) auto

lemma dropWhile_Cons_not [simp]:
  "\<not> P y \<Longrightarrow> dropWhile P (y # ys) = y # ys"
  by simp

text \<open>Splitting a non-empty prefix off a list that starts with a known element.\<close>

lemma ex_Cons_prefix_nonempty:
  "(\<exists>u w. c # r = u @ w \<and> u \<noteq> [] \<and> P u w) \<longleftrightarrow> (\<exists>u w. r = u @ w \<and> P (c # u) w)"
proof
  assume "\<exists>u w. c # r = u @ w \<and> u \<noteq> [] \<and> P u w"
  then obtain u w where "c # r = u @ w" "u \<noteq> []" "P u w" by blast
  then show "\<exists>u w. r = u @ w \<and> P (c # u) w" by (cases u) auto
next
  assume "\<exists>u w. r = u @ w \<and> P (c # u) w"
  then obtain u w where "r = u @ w" "P (c # u) w" by blast
  then have "c # r = (c # u) @ w \<and> c # u \<noteq> [] \<and> P (c # u) w" by simp
  then show "\<exists>u w. c # r = u @ w \<and> u \<noteq> [] \<and> P u w" by blast
qed

lemma ex_Cons_prefix:
  "(\<exists>u w. c # r = u @ w \<and> P u w) \<longleftrightarrow> P [] (c # r) \<or> (\<exists>u w. r = u @ w \<and> P (c # u) w)"
proof
  assume "\<exists>u w. c # r = u @ w \<and> P u w"
  then obtain u w where "c # r = u @ w" "P u w" by blast
  then show "P [] (c # r) \<or> (\<exists>u w. r = u @ w \<and> P (c # u) w)" by (cases u) auto
next
  assume "P [] (c # r) \<or> (\<exists>u w. r = u @ w \<and> P (c # u) w)"
  then show "\<exists>u w. c # r = u @ w \<and> P u w"
  proof
    assume "\<exists>u w. r = u @ w \<and> P (c # u) w"
    then obtain u w where "r = u @ w" "P (c # u) w" by blast
    then have "c # r = (c # u) @ w \<and> P (c # u) w" by simp
    then show ?thesis by blast
  qed auto
qed

end
