(* ===== verification/Json.thy ===== *)
theory Json
  imports Prelude
begin

text \<open>
  \<open>JSON.stringify(data)\<close> (\<open>main.js\<close> lines 122 and 187) on the flat objects the
  page sends: every property is a string or \<open>null\<close> (\<open>formData.get\<close> of a
  missing field). SerializeJSONObject writes \<open>{\<close>, the properties in insertion
  order as \<open>"key":value\<close> separated by commas, and \<open>}\<close>, with no white space.
  QuoteJSONString (ECMA-262 since 2019) writes a string between double quotes,
  escaping the quote and the backslash, the control characters below \<open>0x20\<close>
  (\<open>\b \t \n \f \r\<close> by name, the others as \<open>\u00xx\<close>) and every surrogate
  that is not part of a pair (\<open>\udxxx\<close>, lower-case hex); a surrogate pair is
  written as it is. The parser is the receiving side's \<open>JSON.parse\<close> on the
  same grammar (strings with all of JSON's escapes, \<open>null\<close>, flat objects).
\<close>

datatype jval = JNull | JStr jsstr

type_synonym jobject = "(jsstr \<times> jval) list"

subsection \<open>QuoteJSONString\<close>

definition is_lead :: "code_unit \<Rightarrow> bool" where
  "is_lead c \<longleftrightarrow> 0xD800 \<le> c \<and> c \<le> 0xDBFF"

definition is_trail :: "code_unit \<Rightarrow> bool" where
  "is_trail c \<longleftrightarrow> 0xDC00 \<le> c \<and> c \<le> 0xDFFF"

definition hex_digit :: "nat \<Rightarrow> code_unit" where
  "hex_digit n = of_nat (if n < 10 then 0x30 + n else 0x57 + n)"

text \<open>UnicodeEscape: \<open>\u\<close> and four lower-case hex digits.\<close>

definition unicode_escape :: "code_unit \<Rightarrow> jsstr" where
  "unicode_escape c =
     [0x5C, 0x75, hex_digit (unat c div 4096), hex_digit (unat c div 256 mod 16),
      hex_digit (unat c div 16 mod 16), hex_digit (unat c mod 16)]"

text \<open>The escape of one code unit that is not part of a surrogate pair.\<close>

definition escape_unit :: "code_unit \<Rightarrow> jsstr" where
  "escape_unit c =
     (if c = 0x08 then [0x5C, 0x62]
      else if c = 0x09 then [0x5C, 0x74]
      else if c = 0x0A then [0x5C, 0x6E]
      else if c = 0x0C then [0x5C, 0x66]
      else if c = 0x0D then [0x5C, 0x72]
      else if c = 0x22 then [0x5C, 0x22]
      else if c = 0x5C then [0x5C, 0x5C]
      else if c < 0x20 \<or> is_lead c \<or> is_trail c then unicode_escape c
      else [c])"

fun quote_units :: "jsstr \<Rightarrow> jsstr" where
  "quote_units [] = []"
| "quote_units [c] = escape_unit c"
| "quote_units (c # d # cs) =
     (if is_lead c \<and> is_trail d then c # d # quote_units cs else escape_unit c @ quote_units (d # cs))"

definition quote_json_string :: "jsstr \<Rightarrow> jsstr" where
  "quote_json_string s = [0x22] @ quote_units s @ [0x22]"

subsection \<open>SerializeJSONObject\<close>

fun stringify_jval :: "jval \<Rightarrow> jsstr" where
  "stringify_jval JNull = str ''null''"
| "stringify_jval (JStr s) = quote_json_string s"

fun stringify_members :: "jobject \<Rightarrow> jsstr" where
  "stringify_members [] = []"
| "stringify_members [(k, v)] = quote_json_string k @ [0x3A] @ stringify_jval v"
| "stringify_members ((k, v) # m # ms) =
     quote_json_string k @ [0x3A] @ stringify_jval v @ [0x2C] @ stringify_members (m # ms)"

definition json_stringify :: "jobject \<Rightarrow> jsstr" where
  "json_stringify ms = [0x7B] @ stringify_members ms @ [0x7D]"

subsection \<open>The parser\<close>

definition hex_value :: "code_unit \<Rightarrow> nat option" where
  "hex_value c =
     (if 0x30 \<le> c \<and> c \<le> 0x39 then Some (unat c - 0x30)
      else if 0x61 \<le> c \<and> c \<le> 0x66 then Some (unat c - 0x57)
      else if 0x41 \<le> c \<and> c \<le> 0x46 then Some (unat c - 0x37) else None)"

definition hex4 :: "code_unit \<Rightarrow> code_unit \<Rightarrow> code_unit \<Rightarrow> code_unit \<Rightarrow> code_unit option" where
  "hex4 a b c d =
     (case (hex_value a, hex_value b, hex_value c, hex_value d) of
        (Some w, Some x, Some y, Some z) \<Rightarrow> Some (of_nat (((w * 16 + x) * 16 + y) * 16 + z))
      | _ \<Rightarrow> None)"

definition simple_escape :: "code_unit \<Rightarrow> code_unit option" where
  "simple_escape e =
     (if e = 0x22 then Some 0x22 else if e = 0x5C then Some 0x5C else if e = 0x2F then Some 0x2F
      else if e = 0x62 then Some 0x08 else if e = 0x66 then Some 0x0C
      else if e = 0x6E then Some 0x0A else if e = 0x72 then Some 0x0D
      else if e = 0x74 then Some 0x09 else None)"

definition cons_fst :: "code_unit \<Rightarrow> (jsstr \<times> jsstr) option \<Rightarrow> (jsstr \<times> jsstr) option" where
  "cons_fst c r = map_option (\<lambda>(s, rest). (c # s, rest)) r"

text \<open>The characters of a string after its opening quote, up to the closing
  quote; the rest of the input after it.\<close>

fun parse_chars :: "jsstr \<Rightarrow> (jsstr \<times> jsstr) option" where
  "parse_chars [] = None"
| "parse_chars (c # cs) =
     (if c = 0x22 then Some ([], cs)
      else if c = 0x5C then
        (case cs of
           [] \<Rightarrow> None
         | e # r \<Rightarrow>
             if e = 0x75 then
               (case r of
                  h1 # h2 # h3 # h4 # r' \<Rightarrow>
                    (case hex4 h1 h2 h3 h4 of Some u \<Rightarrow> cons_fst u (parse_chars r') | None \<Rightarrow> None)
                | _ \<Rightarrow> None)
             else (case simple_escape e of Some u \<Rightarrow> cons_fst u (parse_chars r) | None \<Rightarrow> None))
      else if c < 0x20 then None
      else cons_fst c (parse_chars cs))"

definition parse_jval :: "jsstr \<Rightarrow> (jval \<times> jsstr) option" where
  "parse_jval r =
     (case r of
        [] \<Rightarrow> None
      | c # r' \<Rightarrow>
          if c = 0x22 then map_option (\<lambda>(s, rest). (JStr s, rest)) (parse_chars r')
          else if take 4 r = str ''null'' then Some (JNull, drop 4 r) else None)"

lemma parse_chars_shorter: "parse_chars xs = Some (s, r) \<Longrightarrow> length r < length xs"
proof (induction xs arbitrary: s rule: parse_chars.induct)
  case (2 c cs)
  then show ?case
    by (auto simp: cons_fst_def split: if_splits list.splits option.splits) fastforce+
qed simp

lemma parse_jval_shorter: "parse_jval xs = Some (v, r) \<Longrightarrow> length r < length xs"
  by (auto simp: parse_jval_def split: list.splits if_splits dest!: parse_chars_shorter)

text \<open>The members of an object after its opening brace, through the closing
  brace, which must end the input.\<close>

function parse_members :: "jsstr \<Rightarrow> jobject option" where
  "parse_members r =
     (case r of
        [] \<Rightarrow> None
      | q # r1 \<Rightarrow>
          if q \<noteq> 0x22 then None
          else
            (case parse_chars r1 of
               None \<Rightarrow> None
             | Some (k, r2) \<Rightarrow>
                 (case r2 of
                    [] \<Rightarrow> None
                  | c # r3 \<Rightarrow>
                      if c \<noteq> 0x3A then None
                      else
                        (case parse_jval r3 of
                           None \<Rightarrow> None
                         | Some (v, r4) \<Rightarrow>
                             (case r4 of
                                [] \<Rightarrow> None
                              | d # r5 \<Rightarrow>
                                  if d = 0x2C then map_option (Cons (k, v)) (parse_members r5)
                                  else if d = 0x7D \<and> r5 = [] then Some [(k, v)] else None)))))"
  by pat_completeness auto
termination
  by (relation "measure length")
     (auto dest!: parse_chars_shorter parse_jval_shorter)

definition json_parse :: "jsstr \<Rightarrow> jobject option" where
  "json_parse s =
     (case s of
        [] \<Rightarrow> None
      | c # r \<Rightarrow> if c \<noteq> 0x7B then None else if r = [0x7D] then Some [] else parse_members r)"

text \<open>Well-formed UTF-16: every surrogate is part of a lead-trail pair.
  \<open>xhr.send\<close> converts its string argument to a scalar value string and encodes
  it as UTF-8; on a well-formed string nothing is replaced.\<close>

fun wf_utf16 :: "jsstr \<Rightarrow> bool" where
  "wf_utf16 [] = True"
| "wf_utf16 [c] = (\<not> is_lead c \<and> \<not> is_trail c)"
| "wf_utf16 (c # d # cs) =
     (if is_lead c \<and> is_trail d then wf_utf16 cs else \<not> is_lead c \<and> \<not> is_trail c \<and> wf_utf16 (d # cs))"

subsection \<open>Parsing what stringify writes\<close>

lemma hex_value_digit: "n < 16 \<Longrightarrow> hex_value (hex_digit n) = Some n"
proof -
  assume n: "n < 16"
  show ?thesis
  proof (cases "n < 10")
    case True
    then have "unat (hex_digit n) = 48 + n" by (simp add: hex_digit_def unat_of_nat del: of_nat_add)
    with True show ?thesis by (simp add: hex_value_def word_le_nat_alt)
  next
    case False
    then have "unat (hex_digit n) = 87 + n" using n by (simp add: hex_digit_def unat_of_nat del: of_nat_add)
    with False n show ?thesis by (simp add: hex_value_def word_le_nat_alt)
  qed
qed

lemma hex_digits_value:
  "(((n div 4096) * 16 + n div 256 mod 16) * 16 + n div 16 mod 16) * 16 + n mod 16 = (n::nat)"
proof -
  have a: "n div 16 div 16 = n div 256" by (simp add: div_mult2_eq [symmetric])
  have b: "n div 256 div 16 = n div 4096" by (simp add: div_mult2_eq [symmetric])
  have "n div 256 = n div 4096 * 16 + n div 256 mod 16" using div_mult_mod_eq [of "n div 256" 16] b by simp
  moreover have "n div 16 = n div 256 * 16 + n div 16 mod 16" using div_mult_mod_eq [of "n div 16" 16] a by simp
  moreover have "n = n div 16 * 16 + n mod 16" by simp
  ultimately show ?thesis by simp
qed

lemma hex4_escape:
  "hex4 (hex_digit (unat c div 4096)) (hex_digit (unat c div 256 mod 16))
        (hex_digit (unat c div 16 mod 16)) (hex_digit (unat c mod 16)) = Some c"
proof -
  have "unat c < 65536" using unsigned_less [of c] by simp
  then have "unat c div 4096 < 16" by simp
  then have "hex4 (hex_digit (unat c div 4096)) (hex_digit (unat c div 256 mod 16))
        (hex_digit (unat c div 16 mod 16)) (hex_digit (unat c mod 16)) =
      Some (of_nat ((((unat c div 4096) * 16 + unat c div 256 mod 16) * 16 + unat c div 16 mod 16) * 16
        + unat c mod 16))"
    by (simp add: hex4_def hex_value_digit del: of_nat_add of_nat_mult)
  then show ?thesis by (simp only: hex_digits_value of_nat_unat ucast_id)
qed

lemma surrogate_plain:
  "is_lead c \<or> is_trail c \<Longrightarrow> c \<noteq> 0x22 \<and> c \<noteq> 0x5C \<and> \<not> c < 0x20"
  by (auto simp: is_lead_def is_trail_def word_le_nat_alt word_less_nat_alt)

lemma parse_escape_unit: "parse_chars (escape_unit c @ xs) = cons_fst c (parse_chars xs)"
  by (simp add: escape_unit_def unicode_escape_def hex4_escape simple_escape_def)

lemma parse_quote_units: "parse_chars (quote_units s @ 0x22 # rest) = Some (s, rest)"
proof (induction s rule: quote_units.induct)
  case (3 c d cs)
  then show ?case
    using surrogate_plain [of c] surrogate_plain [of d] by (simp add: parse_escape_unit cons_fst_def)
qed (simp_all add: parse_escape_unit cons_fst_def)

lemma parse_jval_stringify: "parse_jval (stringify_jval v @ rest) = Some (v, rest)"
  by (cases v) (simp_all add: parse_jval_def quote_json_string_def parse_quote_units)

lemma parse_members_stringify:
  "ms \<noteq> [] \<Longrightarrow> parse_members (stringify_members ms @ [0x7D]) = Some ms"
proof (induction ms rule: stringify_members.induct)
  case (2 k v)
  show ?case
    using parse_quote_units [of k "0x3A # stringify_jval v @ [0x7D]"]
      parse_jval_stringify [of v "[0x7D]"]
    by (simp add: quote_json_string_def)
next
  case (3 k v m ms)
  show ?case
    using parse_quote_units [of k "0x3A # stringify_jval v @ 0x2C # stringify_members (m # ms) @ [0x7D]"]
      parse_jval_stringify [of v "0x2C # stringify_members (m # ms) @ [0x7D]"] 3
    by (simp add: quote_json_string_def)
qed simp

lemma json_parse_stringify: "json_parse (json_stringify ms) = Some ms"
proof (cases ms)
  case (Cons m ms')
  then have "stringify_members ms \<noteq> [0x7D] \<and> stringify_members ms \<noteq> []"
    by (cases m; cases ms') (simp_all add: quote_json_string_def)
  then show ?thesis using Cons parse_members_stringify [of ms]
    by (simp add: json_parse_def json_stringify_def)
qed (simp add: json_parse_def json_stringify_def)

subsection \<open>What stringify writes is well-formed\<close>

definition plain_unit :: "code_unit \<Rightarrow> bool" where
  "plain_unit c \<longleftrightarrow> 0x20 \<le> c \<and> \<not> is_lead c \<and> \<not> is_trail c"

definition clean_units :: "jsstr \<Rightarrow> bool" where
  "clean_units xs \<longleftrightarrow> wf_utf16 xs \<and> list_all (\<lambda>c. 0x20 \<le> c) xs"

lemma wf_utf16_Cons_plain: "\<not> is_lead c \<and> \<not> is_trail c \<Longrightarrow> wf_utf16 (c # cs) = wf_utf16 cs"
  by (cases cs) simp_all

lemma wf_utf16_append: "wf_utf16 xs \<Longrightarrow> wf_utf16 ys \<Longrightarrow> wf_utf16 (xs @ ys)"
  by (induction xs rule: wf_utf16.induct) (simp_all add: wf_utf16_Cons_plain split: if_splits)

lemma wf_utf16_plain: "list_all plain_unit xs \<Longrightarrow> wf_utf16 xs"
  by (induction xs) (simp_all add: plain_unit_def wf_utf16_Cons_plain)

lemma plain_hex_digit: "n < 16 \<Longrightarrow> plain_unit (hex_digit n)"
proof -
  assume n: "n < 16"
  then have "unat (hex_digit n) \<le> 102" and "48 \<le> unat (hex_digit n)"
    by (simp_all add: hex_digit_def unat_of_nat del: of_nat_add)
  then show ?thesis by (simp add: plain_unit_def is_lead_def is_trail_def word_le_nat_alt)
qed

lemma plain_escape_unit: "list_all plain_unit (escape_unit c)"
proof -
  have "unat c < 65536" using unsigned_less [of c] by simp
  then have "unat c div 4096 < 16" by simp
  then have "list_all plain_unit (unicode_escape c)"
    by (simp add: unicode_escape_def plain_hex_digit) (simp add: plain_unit_def is_lead_def is_trail_def)
  then show ?thesis
    by (auto simp: escape_unit_def plain_unit_def is_lead_def is_trail_def not_less)
qed

lemma clean_append [intro]: "clean_units xs \<Longrightarrow> clean_units ys \<Longrightarrow> clean_units (xs @ ys)"
  by (simp add: clean_units_def wf_utf16_append)

lemma clean_plain [intro]: "list_all plain_unit xs \<Longrightarrow> clean_units xs"
  by (simp add: clean_units_def wf_utf16_plain list_all_iff plain_unit_def)

lemma clean_Cons_plain [intro]: "plain_unit c \<Longrightarrow> clean_units ys \<Longrightarrow> clean_units (c # ys)"
  using clean_append [of "[c]" ys] clean_plain [of "[c]"] by simp

lemma clean_Nil [intro]: "clean_units []"
  by (simp add: clean_units_def)

lemma plain_ascii [simp]:
  "plain_unit 0x22" "plain_unit 0x2C" "plain_unit 0x3A" "plain_unit 0x7B" "plain_unit 0x7D"
  by (simp_all add: plain_unit_def is_lead_def is_trail_def)

lemma surrogate_pair_clean:
  "is_lead c \<Longrightarrow> is_trail d \<Longrightarrow> clean_units cs \<Longrightarrow> clean_units (c # d # cs)"
  by (auto simp: clean_units_def is_lead_def is_trail_def word_le_nat_alt)

lemma clean_quote_units: "clean_units (quote_units s)"
proof (induction s rule: quote_units.induct)
  case (3 c d cs)
  show ?case
  proof (cases "is_lead c \<and> is_trail d")
    case True
    then show ?thesis using 3(1) by (simp add: surrogate_pair_clean)
  next
    case False
    then show ?thesis using 3(2) plain_escape_unit [of c] by auto
  qed
qed (auto intro: plain_escape_unit)

lemma clean_quote: "clean_units (quote_json_string s)"
  unfolding quote_json_string_def
  by (simp, intro clean_Cons_plain clean_append clean_quote_units clean_plain) simp_all

lemma clean_jval: "clean_units (stringify_jval v)"
  by (cases v) (auto simp: clean_quote plain_unit_def is_lead_def is_trail_def)

lemma clean_members: "clean_units (stringify_members ms)"
proof (induction ms rule: stringify_members.induct)
  case (2 k v)
  show ?case by (simp, intro clean_append clean_Cons_plain clean_quote clean_jval) simp
next
  case (3 k v m ms)
  then show ?case by (simp, intro clean_append clean_Cons_plain clean_quote clean_jval) simp_all
qed (simp add: clean_Nil)

text \<open>
  C18: the JSON text \<open>JSON.stringify\<close> writes for a flat object is well-formed
  UTF-16, every surrogate in a pair, and has no code unit below \<open>0x20\<close>: the
  UTF-8 encoding \<open>xhr.send\<close> applies to it replaces nothing, and the text holds
  no raw control character.
\<close>

theorem json_stringify_clean:
  "wf_utf16 (json_stringify ms) \<and> list_all (\<lambda>c. 0x20 \<le> c) (json_stringify ms)"
proof -
  have "clean_units (json_stringify ms)"
    unfolding json_stringify_def by (simp, intro clean_Cons_plain clean_append clean_members clean_plain) simp_all
  then show ?thesis by (simp add: clean_units_def)
qed

end
