(* ===== verification/JsString.thy ===== *)
theory JsString
  imports Prelude
begin

text \<open>
  The string built-ins the page controller calls: \<open>String.prototype.trim\<close>
  (\<open>main.js\<close> line 52) and the white-space class that \<open>trim\<close>, the
  \<open>\s\<close> escape of regular expressions and the string-to-number conversion
  share (ECMA-262, WhiteSpace and LineTerminator). Code units are 16-bit words;
  every white-space code point of the standard lies in the basic multilingual
  plane, so the class is a test on single code units.
\<close>

definition is_js_whitespace :: "code_unit \<Rightarrow> bool" where
  "is_js_whitespace c \<longleftrightarrow>
     c = 0x09 \<or> c = 0x0B \<or> c = 0x0C \<or> c = 0xFEFF \<comment> \<open>TAB, VT, FF, ZWNBSP\<close>
   \<or> c = 0x20 \<or> c = 0xA0 \<or> c = 0x1680 \<or> (0x2000 \<le> c \<and> c \<le> 0x200A)
   \<or> c = 0x202F \<or> c = 0x205F \<or> c = 0x3000 \<comment> \<open>category Zs\<close>
   \<or> c = 0x0A \<or> c = 0x0D \<or> c = 0x2028 \<or> c = 0x2029 \<comment> \<open>LineTerminator\<close>"

definition trim_start :: "jsstr \<Rightarrow> jsstr" where
  "trim_start s = dropWhile is_js_whitespace s"

definition trim_end :: "jsstr \<Rightarrow> jsstr" where
  "trim_end s = rev (dropWhile is_js_whitespace (rev s))"

text \<open>\<open>TrimString(S, start+end)\<close>: leading, then trailing white space removed.\<close>

definition js_trim :: "jsstr \<Rightarrow> jsstr" where
  "js_trim s = trim_end (trim_start s)"

lemmas js_trim_defs [js_eval] = js_trim_def trim_start_def trim_end_def is_js_whitespace_def

subsection \<open>Properties of trim\<close>

lemma js_trim_Nil [simp]: "js_trim [] = []"
  by (simp add: js_trim_def trim_start_def trim_end_def)

lemma trim_start_no_ws: "trim_start s = c # r \<Longrightarrow> \<not> is_js_whitespace c"
  unfolding trim_start_def by (rule dropWhile_hd_not)

lemma trim_end_Nil_iff: "trim_end s = [] \<longleftrightarrow> list_all is_js_whitespace s"
  by (simp add: trim_end_def list_all_iff)

lemma trim_start_Nil_iff: "trim_start s = [] \<longleftrightarrow> list_all is_js_whitespace s"
  by (simp add: trim_start_def list_all_iff)

lemma list_all_trim_start:
  "list_all is_js_whitespace (trim_start s) \<longleftrightarrow> list_all is_js_whitespace s"
  by (induction s) (auto simp: trim_start_def)

lemma js_trim_Nil_iff: "js_trim s = [] \<longleftrightarrow> list_all is_js_whitespace s"
  by (simp add: js_trim_def trim_end_Nil_iff list_all_trim_start)

text \<open>
  The input splits into the white space \<open>trim\<close> removes at each end and the
  result, which neither starts nor ends with white space.
\<close>

lemma trim_start_split:
  "\<exists>p. s = p @ trim_start s \<and> list_all is_js_whitespace p"
  by (rule exI [of _ "takeWhile is_js_whitespace s"])
     (auto simp: trim_start_def list_all_iff dest: set_takeWhileD)

lemma trim_end_split:
  "\<exists>q. s = trim_end s @ q \<and> list_all is_js_whitespace q"
proof -
  define p where "p = takeWhile is_js_whitespace (rev s)"
  have "rev s = p @ dropWhile is_js_whitespace (rev s)" and "list_all is_js_whitespace p"
    by (auto simp: p_def list_all_iff dest: set_takeWhileD)
  then have "s = trim_end s @ rev p"
    by (metis rev_append rev_rev_ident trim_end_def)
  with \<open>list_all is_js_whitespace p\<close> show ?thesis by auto
qed

lemma js_trim_split:
  "\<exists>p q. s = p @ js_trim s @ q \<and> list_all is_js_whitespace p \<and> list_all is_js_whitespace q"
proof -
  obtain p where p: "s = p @ trim_start s" "list_all is_js_whitespace p"
    using trim_start_split by blast
  obtain q where q: "trim_start s = trim_end (trim_start s) @ q" "list_all is_js_whitespace q"
    using trim_end_split by blast
  from p q show ?thesis unfolding js_trim_def by metis
qed

lemma trim_end_last_not_ws:
  "trim_end s = r @ [c] \<Longrightarrow> \<not> is_js_whitespace c"
  unfolding trim_end_def
  by (metis dropWhile_hd_not rev_eq_Cons_iff rev_rev_ident)

lemma js_trim_ends:
  assumes "js_trim s = c # r"
  shows "\<not> is_js_whitespace c" and "\<not> is_js_whitespace (last (c # r))"
proof -
  obtain q where q: "trim_start s = js_trim s @ q"
    using trim_end_split [of "trim_start s"] by (auto simp: js_trim_def)
  with assms have "trim_start s = c # (r @ q)" by simp
  then show "\<not> is_js_whitespace c" by (rule trim_start_no_ws)
  have "js_trim s = butlast (c # r) @ [last (c # r)]" using assms by simp
  then show "\<not> is_js_whitespace (last (c # r))"
    unfolding js_trim_def by (rule trim_end_last_not_ws)
qed

text \<open>Trimming removes exactly white space padding around a string that starts and ends
  with other code units.\<close>

lemma trim_start_pad:
  "list_all is_js_whitespace p \<Longrightarrow> \<not> is_js_whitespace c \<Longrightarrow> trim_start (p @ c # r) = c # r"
  by (induction p) (simp_all add: trim_start_def)

lemma trim_end_pad:
  "list_all is_js_whitespace q \<Longrightarrow> \<not> is_js_whitespace c \<Longrightarrow> trim_end (r @ [c] @ q) = r @ [c]"
  by (simp add: trim_end_def dropWhile_append list_all_iff rev_append)

lemma js_trim_pad:
  assumes "list_all is_js_whitespace p" "list_all is_js_whitespace q" "s \<noteq> []"
    "\<not> is_js_whitespace (hd s)" "\<not> is_js_whitespace (last s)"
  shows "js_trim (p @ s @ q) = s"
proof -
  obtain c r where s: "s = c # r" using assms(3) by (cases s) auto
  obtain r' c' where s': "s = r' @ [c']" using assms(3) by (cases s rule: rev_cases) auto
  have "trim_start (p @ s @ q) = s @ q" using assms(1,4) s trim_start_pad [of p c "r @ q"] by simp
  then show ?thesis using assms(2,5) s' trim_end_pad [of q c' r'] by (simp add: js_trim_def)
qed

end
