(* ===== verification/Dom.thy ===== *)
theory Dom
  imports JsString
begin

text \<open>
  The DOM objects the page controller reads and writes. An element's
  \<open>classList\<close> is a DOMTokenList, an ordered set of tokens; \<open>add\<close>,
  \<open>remove\<close> and \<open>toggle\<close> (without the \<open>force\<close> argument) are the
  operations \<open>main.js\<close> calls on it (lines 31, 36, 104, 105, 169, 170). A form
  is its list of controls in tree order; \<open>new FormData(form)\<close> (lines 47, 132)
  lists the named controls' values, \<open>formData.get(name)\<close> returns the first
  value with that name or \<open>null\<close>, \<open>form.reset()\<close> (lines 102, 167) puts
  every control back to its default value. A submit button is its
  \<open>disabled\<close> flag and its \<open>textContent\<close>.
\<close>

subsection \<open>DOMTokenList\<close>

type_synonym token_list = "jsstr list"

definition cl_contains :: "token_list \<Rightarrow> jsstr \<Rightarrow> bool" where
  "cl_contains ts t \<longleftrightarrow> t \<in> set ts"

definition cl_add :: "token_list \<Rightarrow> jsstr \<Rightarrow> token_list" where
  "cl_add ts t = (if t \<in> set ts then ts else ts @ [t])"

definition cl_remove :: "token_list \<Rightarrow> jsstr \<Rightarrow> token_list" where
  "cl_remove ts t = filter (\<lambda>x. x \<noteq> t) ts"

definition cl_toggle :: "token_list \<Rightarrow> jsstr \<Rightarrow> token_list" where
  "cl_toggle ts t = (if t \<in> set ts then cl_remove ts t else cl_add ts t)"

abbreviation hidden_token :: jsstr where
  "hidden_token \<equiv> str ''hidden''"

definition is_hidden :: "token_list \<Rightarrow> bool" where
  "is_hidden ts \<longleftrightarrow> cl_contains ts hidden_token"

lemmas classlist_defs [js_eval] = cl_contains_def cl_add_def cl_remove_def cl_toggle_def is_hidden_def

text \<open>A token list is an ordered set: every operation keeps it duplicate-free.\<close>

lemma distinct_cl_add [simp]: "distinct ts \<Longrightarrow> distinct (cl_add ts t)"
  by (simp add: cl_add_def)

lemma distinct_cl_remove [simp]: "distinct ts \<Longrightarrow> distinct (cl_remove ts t)"
  by (simp add: cl_remove_def)

lemma distinct_cl_toggle [simp]: "distinct ts \<Longrightarrow> distinct (cl_toggle ts t)"
  by (simp add: cl_toggle_def)

lemma set_cl_add [simp]: "set (cl_add ts t) = insert t (set ts)"
  by (auto simp: cl_add_def)

lemma set_cl_remove [simp]: "set (cl_remove ts t) = set ts - {t}"
  by (auto simp: cl_remove_def)

lemma set_cl_toggle:
  "set (cl_toggle ts t) = (if t \<in> set ts then set ts - {t} else insert t (set ts))"
  by (simp add: cl_toggle_def)

lemma cl_contains_add [simp]: "cl_contains (cl_add ts t) u \<longleftrightarrow> u = t \<or> cl_contains ts u"
  by (simp add: cl_contains_def)

lemma cl_contains_remove [simp]: "cl_contains (cl_remove ts t) u \<longleftrightarrow> u \<noteq> t \<and> cl_contains ts u"
  by (auto simp: cl_contains_def)

lemma cl_contains_toggle [simp]:
  "cl_contains (cl_toggle ts t) u \<longleftrightarrow> (if u = t then \<not> cl_contains ts t else cl_contains ts u)"
  by (auto simp: cl_contains_def set_cl_toggle)

lemma is_hidden_add [simp]: "is_hidden (cl_add ts hidden_token)"
  by (simp add: is_hidden_def)

lemma is_hidden_remove [simp]: "\<not> is_hidden (cl_remove ts hidden_token)"
  by (simp add: is_hidden_def)

lemma is_hidden_toggle [simp]: "is_hidden (cl_toggle ts hidden_token) \<longleftrightarrow> \<not> is_hidden ts"
  by (simp add: is_hidden_def)

text \<open>Removing what is absent and adding what is present change nothing.\<close>

lemma cl_remove_absent: "\<not> cl_contains ts t \<Longrightarrow> cl_remove ts t = ts"
  by (simp add: cl_remove_def cl_contains_def filter_id_conv) metis

lemma cl_add_present: "cl_contains ts t \<Longrightarrow> cl_add ts t = ts"
  by (simp add: cl_add_def cl_contains_def)

subsection \<open>Forms and FormData\<close>

record control =
  ctl_name :: jsstr
  ctl_value :: jsstr
  ctl_default :: jsstr

type_synonym formdata = "(jsstr \<times> jsstr) list"

text \<open>Constructing the entry list: controls without a name are skipped.\<close>

definition construct_form_data :: "control list \<Rightarrow> formdata" where
  "construct_form_data cs = map (\<lambda>c. (ctl_name c, ctl_value c)) (filter (\<lambda>c. ctl_name c \<noteq> []) cs)"

text \<open>\<open>formData.get(name)\<close>: the first entry's value, \<open>None\<close> for \<open>null\<close>.\<close>

definition fd_get :: "formdata \<Rightarrow> jsstr \<Rightarrow> jsstr option" where
  "fd_get fd n = map_of fd n"

text \<open>\<open>v || ''\<close> for a string-or-null \<open>v\<close>: \<open>null\<close> and the empty string are falsy.\<close>

definition or_empty :: "jsstr option \<Rightarrow> jsstr" where
  "or_empty v = (case v of None \<Rightarrow> [] | Some s \<Rightarrow> s)"

definition form_reset :: "control list \<Rightarrow> control list" where
  "form_reset cs = map (\<lambda>c. c\<lparr>ctl_value := ctl_default c\<rparr>) cs"

lemmas form_defs [js_eval] = construct_form_data_def fd_get_def or_empty_def form_reset_def

lemma fd_get_Nil [simp]: "fd_get [] m = None"
  by (simp add: fd_get_def)

lemma fd_get_Cons [simp]:
  "fd_get ((n, v) # fd) m = (if m = n then Some v else fd_get fd m)"
  by (simp add: fd_get_def)

lemma or_empty_simps [simp]: "or_empty None = []" "or_empty (Some s) = s"
  by (simp_all add: or_empty_def)

lemma form_reset_idem [simp]: "form_reset (form_reset cs) = form_reset cs"
  by (simp add: form_reset_def comp_def)

lemma map_ctl_name_form_reset [simp]: "map ctl_name (form_reset cs) = map ctl_name cs"
  by (simp add: form_reset_def comp_def)

text \<open>After a reset, each name reads its control's default value.\<close>

lemma fd_get_reset:
  "fd_get (construct_form_data (form_reset cs)) n =
   map_option ctl_default (find (\<lambda>c. ctl_name c \<noteq> [] \<and> ctl_name c = n) cs)"
  by (induction cs) (auto simp: construct_form_data_def form_reset_def fd_get_def)

subsection \<open>Submit buttons\<close>

record button =
  btn_disabled :: bool
  btn_text :: jsstr

end
