(* ===== verification/Regex.thy ===== *)
theory Regex
  imports JsString
begin

text \<open>
  The regular expressions the page controller tests an e-mail address against
  (\<open>main.js\<close> lines 61 and 136). The pattern language is the fragment the
  source uses: anchors \<open>^\<close> and \<open>$\<close>, single characters, character classes
  (possibly negated, with the \<open>\s\<close> escape) and greedy \<open>+\<close> on a
  single-character atom. \<open>bt\<close>/\<open>greedy\<close> follow the backtracking matcher of
  ECMA-262 (RepeatMatcher tries one more iteration before the continuation);
  \<open>scan\<close> is the loop of RegExpBuiltinExec that retries the match at every
  start index; \<open>regexp_test\<close> is \<open>RegExp.prototype.test\<close> for a pattern with
  no flags. \<open>sem\<close> is the declarative language of a pattern, and
  \<open>bt_sem\<close>/\<open>regexp_test_sem\<close> show the matcher computes it.
\<close>

datatype class_atom = ClassEscS | ClassChar code_unit

datatype atom = AChar code_unit | AClass bool "class_atom list"

datatype rterm = AssertBegin | AssertEnd | Once atom | Plus atom

fun class_atom_match :: "class_atom \<Rightarrow> code_unit \<Rightarrow> bool" where
  "class_atom_match ClassEscS c = is_js_whitespace c"
| "class_atom_match (ClassChar d) c = (c = d)"

text \<open>\<open>AClass neg items\<close>: the class \<open>[items]\<close>, or \<open>[^items]\<close> when \<open>neg\<close>.\<close>

fun atom_match :: "atom \<Rightarrow> code_unit \<Rightarrow> bool" where
  "atom_match (AChar d) c = (c = d)"
| "atom_match (AClass neg items) c = (list_ex (\<lambda>i. class_atom_match i c) items \<noteq> neg)"

function bt :: "rterm list \<Rightarrow> jsstr \<Rightarrow> nat \<Rightarrow> bool"
  and greedy :: "atom \<Rightarrow> rterm list \<Rightarrow> jsstr \<Rightarrow> nat \<Rightarrow> bool" where
  "bt [] s i = True"
| "bt (AssertBegin # ts) s i = (i = 0 \<and> bt ts s i)"
| "bt (AssertEnd # ts) s i = (i = length s \<and> bt ts s i)"
| "bt (Once a # ts) s i =
     (if i < length s \<and> atom_match a (s ! i) then bt ts s (Suc i) else False)"
| "bt (Plus a # ts) s i =
     (if i < length s \<and> atom_match a (s ! i) then greedy a ts s (Suc i) else False)"
| "greedy a ts s i =
     ((if i < length s \<and> atom_match a (s ! i) then greedy a ts s (Suc i) else False)
      \<or> bt ts s i)"
  by pat_completeness auto
termination
  by (relation "measures
        [\<lambda>x. case x of Inl (ts, s, i) \<Rightarrow> 2 * length ts | Inr (a, ts, s, i) \<Rightarrow> Suc (2 * length ts),
         \<lambda>x. case x of Inl (ts, s, i) \<Rightarrow> length s - i | Inr (a, ts, s, i) \<Rightarrow> length s - i]") auto

declare greedy.simps [simp del]

function scan :: "rterm list \<Rightarrow> jsstr \<Rightarrow> nat \<Rightarrow> bool" where
  "scan ts s i = (if length s < i then False else bt ts s i \<or> scan ts s (Suc i))"
  by pat_completeness auto
termination
  by (relation "measure (\<lambda>(ts, s, i). Suc (length s) - i)") auto

declare scan.simps [simp del]

definition regexp_test :: "rterm list \<Rightarrow> jsstr \<Rightarrow> bool" where
  "regexp_test ts s = scan ts s 0"

subsection \<open>The pattern of the source\<close>

text \<open>\<open>[^\s@]\<close>: neither white space nor \<open>@\<close> (code unit 0x40).\<close>

definition not_ws_at :: atom where
  "not_ws_at = AClass True [ClassEscS, ClassChar 0x40]"

text \<open>\<open>/^[^\s@]+@[^\s@]+\.[^\s@]+$/\<close>; \<open>\.\<close> is the literal dot 0x2E.\<close>

definition email_pattern :: "rterm list" where
  "email_pattern =
     [AssertBegin, Plus not_ws_at, Once (AChar 0x40), Plus not_ws_at,
      Once (AChar 0x2E), Plus not_ws_at, AssertEnd]"

definition email_valid :: "jsstr \<Rightarrow> bool" where
  "email_valid s = regexp_test email_pattern s"

lemmas regex_eval [js_eval] =
  email_valid_def regexp_test_def scan.simps greedy.simps email_pattern_def not_ws_at_def

subsection \<open>Declarative semantics\<close>

text \<open>
  \<open>sem ts b w\<close>: the rest \<open>w\<close> of the input matches \<open>ts\<close>, where \<open>b\<close> says
  whether matching starts at the beginning of the input.
\<close>

fun sem :: "rterm list \<Rightarrow> bool \<Rightarrow> jsstr \<Rightarrow> bool" where
  "sem [] b w = True"
| "sem (AssertBegin # ts) b w = (b \<and> sem ts b w)"
| "sem (AssertEnd # ts) b w = (w = [] \<and> sem ts b w)"
| "sem (Once a # ts) b w = (\<exists>c w'. w = c # w' \<and> atom_match a c \<and> sem ts False w')"
| "sem (Plus a # ts) b w =
     (\<exists>u w'. w = u @ w' \<and> u \<noteq> [] \<and> list_all (atom_match a) u \<and> sem ts False w')"

text \<open>The address shape the pattern describes: \<open>local@domain.tld\<close>.\<close>

definition email_char :: "code_unit \<Rightarrow> bool" where
  "email_char c \<longleftrightarrow> \<not> is_js_whitespace c \<and> c \<noteq> 0x40"

definition email_shape :: "jsstr \<Rightarrow> bool" where
  "email_shape s \<longleftrightarrow> (\<exists>a b c. s = a @ [0x40] @ b @ [0x2E] @ c \<and>
     a \<noteq> [] \<and> b \<noteq> [] \<and> c \<noteq> [] \<and>
     list_all email_char a \<and> list_all email_char b \<and> list_all email_char c)"

text \<open>A one-pass description of the same strings: no white space, a non-empty part
  before the first \<open>@\<close>, no second \<open>@\<close>, and a dot after the \<open>@\<close> that is
  neither the first nor the last code unit after it.\<close>

definition email_simple :: "jsstr \<Rightarrow> bool" where
  "email_simple s \<longleftrightarrow>
     list_all (\<lambda>c. \<not> is_js_whitespace c) s \<and>
     (case dropWhile (\<lambda>c. c \<noteq> 0x40) s of
        [] \<Rightarrow> False
      | _ # d \<Rightarrow> takeWhile (\<lambda>c. c \<noteq> 0x40) s \<noteq> [] \<and> 0x40 \<notin> set d \<and> 0x2E \<in> set (butlast (tl d)))"

subsection \<open>The matcher computes the declarative semantics\<close>

lemma bt_greedy_sem:
  shows "i \<le> length s \<Longrightarrow> bt ts s i = sem ts (i = 0) (drop i s)"
    and "0 < i \<Longrightarrow> i \<le> length s \<Longrightarrow> greedy a ts s i =
           (\<exists>u w'. drop i s = u @ w' \<and> list_all (atom_match a) u \<and> sem ts False w')"
proof (induction ts s i and a ts s i rule: bt_greedy.induct)
  case (1 s i)
  then show ?case by simp
next
  case (2 ts s i)
  then show ?case by simp
next
  case (3 ts s i)
  then show ?case by auto
next
  case (4 a ts s i)
  show ?case
  proof (cases "i < length s")
    case True
    then have d: "drop i s = s ! i # drop (Suc i) s" by (simp add: Cons_nth_drop_Suc)
    from True "4.IH" show ?thesis by (simp add: d)
  next
    case False
    with "4.prems" show ?thesis by simp
  qed
next
  case (5 a ts s i)
  show ?case
  proof (cases "i < length s")
    case True
    then have d: "drop i s = s ! i # drop (Suc i) s" by (simp add: Cons_nth_drop_Suc)
    from True "5.IH" show ?thesis by (simp only: d sem.simps ex_Cons_prefix_nonempty) auto
  next
    case False
    with "5.prems" show ?thesis by simp
  qed
next
  case (6 a ts s i)
  have bt: "bt ts s i = sem ts False (drop i s)" using "6.IH"(2) "6.prems" by simp
  show ?case
  proof (cases "i < length s")
    case True
    then have d: "drop i s = s ! i # drop (Suc i) s" by (simp add: Cons_nth_drop_Suc)
    from True "6.IH"(1) bt show ?thesis
      by (subst greedy.simps) (simp only: d ex_Cons_prefix, auto)
  next
    case False
    with "6.prems" bt show ?thesis by (subst greedy.simps) auto
  qed
qed

lemma scan_iff: "scan ts s i \<longleftrightarrow> (\<exists>j. i \<le> j \<and> j \<le> length s \<and> bt ts s j)"
proof (induction ts s i rule: scan.induct)
  case (1 ts s i)
  show ?case
  proof (cases "length s < i")
    case True
    then show ?thesis by (simp add: scan.simps)
  next
    case False
    with "1.IH" have "scan ts s i \<longleftrightarrow> bt ts s i \<or> (\<exists>j. Suc i \<le> j \<and> j \<le> length s \<and> bt ts s j)"
      by (simp add: scan.simps [of ts s i])
    also have "\<dots> \<longleftrightarrow> (\<exists>j. i \<le> j \<and> j \<le> length s \<and> bt ts s j)" (is "?R \<longleftrightarrow> ?L")
    proof
      assume ?L
      then obtain j where "i \<le> j" "j \<le> length s" "bt ts s j" by blast
      then show ?R by (cases "j = i") auto
    next
      assume ?R
      then show ?L
      proof
        assume "bt ts s i"
        with False show ?L by auto
      next
        assume "\<exists>j. Suc i \<le> j \<and> j \<le> length s \<and> bt ts s j"
        then show ?L by (meson Suc_leD)
      qed
    qed
    finally show ?thesis .
  qed
qed

text \<open>
  C10: the backtracking matcher is correct. \<open>RegExp.prototype.test\<close>, as the
  greedy backtracking search retried at every start index, accepts a string
  exactly when some suffix of it, starting at index \<open>j\<close>, matches the pattern's
  declarative semantics (with \<open>^\<close> satisfied only at index 0).
\<close>

theorem regexp_test_sem:
  "regexp_test ts s \<longleftrightarrow> (\<exists>j \<le> length s. sem ts (j = 0) (drop j s))"
  by (auto simp: regexp_test_def scan_iff bt_greedy_sem(1))

lemma atom_match_not_ws_at [simp]: "atom_match not_ws_at = email_char"
  by (simp add: not_ws_at_def email_char_def fun_eq_iff)

lemma email_valid_sem: "email_valid s \<longleftrightarrow> sem email_pattern True s"
  by (auto simp: email_valid_def regexp_test_sem email_pattern_def)

lemma sem_email_pattern:
  "sem email_pattern True s \<longleftrightarrow>
     (\<exists>a w1. s = a @ w1 \<and> a \<noteq> [] \<and> list_all email_char a \<and>
       (\<exists>w2. w1 = 0x40 # w2 \<and>
         (\<exists>b w3. w2 = b @ w3 \<and> b \<noteq> [] \<and> list_all email_char b \<and>
           (\<exists>w4. w3 = 0x2E # w4 \<and>
             (\<exists>c. w4 = c \<and> c \<noteq> [] \<and> list_all email_char c)))))"
  by (simp add: email_pattern_def)


theorem email_valid_shape: "email_valid s \<longleftrightarrow> email_shape s"
proof
  assume "email_valid s"
  then obtain a w1 w2 b w3 w4 c where
      "s = a @ w1" "w1 = 0x40 # w2" "w2 = b @ w3" "w3 = 0x2E # w4" "w4 = c"
      and ne: "a \<noteq> []" "b \<noteq> []" "c \<noteq> []"
      and ok: "list_all email_char a" "list_all email_char b" "list_all email_char c"
    unfolding email_valid_sem sem_email_pattern by blast
  then have "s = a @ [0x40] @ b @ [0x2E] @ c" by simp
  with ne ok show "email_shape s" unfolding email_shape_def by blast
next
  assume "email_shape s"
  then obtain a b c where s: "s = a @ [0x40] @ b @ [0x2E] @ c"
      and ne: "a \<noteq> []" "b \<noteq> []" "c \<noteq> []"
      and ok: "list_all email_char a" "list_all email_char b" "list_all email_char c"
    unfolding email_shape_def by blast
  show "email_valid s"
    unfolding email_valid_sem sem_email_pattern
    using s ne ok by simp blast
qed

subsection \<open>The e-mail pattern as a one-pass check\<close>

lemma at_dot_not_ws [simp]: "\<not> is_js_whitespace 0x40" "\<not> is_js_whitespace 0x2E"
  by (simp_all add: is_js_whitespace_def)

lemma email_shape_simple_1:
  assumes "email_shape s" shows "email_simple s"
proof -
  obtain a b c where s: "s = a @ [0x40] @ b @ [0x2E] @ c"
      and ne: "a \<noteq> []" "b \<noteq> []" "c \<noteq> []"
      and ok: "list_all email_char a" "list_all email_char b" "list_all email_char c"
    using assms unfolding email_shape_def by blast
  have na: "\<forall>x \<in> set a. x \<noteq> 0x40" using ok(1) by (auto simp: list_all_iff email_char_def)
  have tw: "takeWhile (\<lambda>c. c \<noteq> 0x40) s = a" and dw: "dropWhile (\<lambda>c. c \<noteq> 0x40) s = 0x40 # b @ 0x2E # c"
    using na s by (simp_all add: takeWhile_append2 dropWhile_append2)
  obtain b0 b' where b: "b = b0 # b'" using ne(2) by (cases b) auto
  obtain c' cl where c: "c = c' @ [cl]" using ne(3) by (cases c rule: rev_cases) auto
  have "butlast (tl (b @ 0x2E # c)) = b' @ 0x2E # c'" using b c by (simp add: butlast_append)
  then show ?thesis using ok ne s tw dw
    by (auto simp: email_simple_def list_all_iff email_char_def)
qed

lemma email_shape_simple_2:
  assumes "email_simple s" shows "email_shape s"
proof -
  let ?P = "\<lambda>c::code_unit. c \<noteq> 0x40"
  obtain x d where xd: "dropWhile ?P s = x # d"
    using assms by (cases "dropWhile ?P s") (simp_all add: email_simple_def)
  have x: "x = 0x40" using dropWhile_hd_not [OF xd] by simp
  define a where "a = takeWhile ?P s"
  have s: "s = a @ 0x40 # d" using takeWhile_dropWhile_id [of ?P s] xd x by (simp add: a_def)
  have ws: "\<forall>y \<in> set s. \<not> is_js_whitespace y" and a: "a \<noteq> []" and nd: "0x40 \<notin> set d"
      and dot: "0x2E \<in> set (butlast (tl d))"
    using assms xd x by (simp_all add: email_simple_def a_def list_all_iff)
  obtain u v where uv: "butlast (tl d) = u @ 0x2E # v" using dot by (meson split_list)
  have "tl d \<noteq> []" using uv by (cases "tl d") auto
  then have td: "tl d = u @ 0x2E # v @ [last (tl d)]"
    using uv append_butlast_last_id [of "tl d"] by simp
  have "d \<noteq> []" using \<open>tl d \<noteq> []\<close> by auto
  define h where "h = hd d"
  define l where "l = last (tl d)"
  have d: "d = h # u @ 0x2E # v @ [l]"
    using \<open>d \<noteq> []\<close> td list.collapse [of d] by (simp add: h_def l_def)
  define b where "b = h # u"
  define c where "c = v @ [l]"
  have sd: "s = a @ [0x40] @ b @ [0x2E] @ c" using s d by (simp add: b_def c_def)
  have na: "\<forall>y \<in> set a. y \<noteq> 0x40" using set_takeWhileD [of _ ?P s] by (auto simp: a_def)
  have sub: "set a \<subseteq> set s" "set b \<subseteq> set d" "set c \<subseteq> set d" "set d \<subseteq> set s"
    using sd d s by (auto simp: b_def c_def)
  have "list_all email_char a" using na ws sub(1) by (auto simp: list_all_iff email_char_def)
  moreover have "list_all email_char b" using nd ws sub(2,4) by (auto simp: list_all_iff email_char_def)
  moreover have "list_all email_char c" using nd ws sub(3,4) by (auto simp: list_all_iff email_char_def)
  ultimately show ?thesis using a sd unfolding email_shape_def b_def c_def by blast
qed

text \<open>
  C17: the e-mail test of line 61 accepts a string exactly when it has no white
  space, a non-empty part before its only \<open>@\<close>, and a dot after the \<open>@\<close> with
  at least one code unit on each side of it. In particular every \<open>a@b.c\<close>
  with such parts passes, and a string without \<open>@\<close>, or without a dot after
  it, fails.
\<close>

theorem email_valid_iff_simple: "email_valid s \<longleftrightarrow> email_simple s"
  using email_valid_shape [of s] email_shape_simple_1 [of s] email_shape_simple_2 [of s] by blast

end
