(* ===== verification/JsNumber.thy ===== *)
theory JsNumber
  imports JsString Complex_Main
begin

text \<open>
  \<open>Number(value)\<close> on a string and \<open>Number.isFinite\<close>, as the resource-count
  check of the client form calls them (\<open>main.js\<close> lines 67--68). The
  conversion follows ECMA-262 StringToNumber: the string is trimmed; an empty
  result is \<open>+0\<close>; otherwise it must parse as a StrNumericLiteral (a
  \<open>0x\<close>/\<open>0o\<close>/\<open>0b\<close> integer, or a signed decimal literal with optional
  fraction and exponent, or \<open>Infinity\<close>), and anything else is \<open>NaN\<close>.
  The mathematical value of a decimal literal is \<open>M * 10^k\<close>; it is rounded
  to the nearest IEEE-754 binary64 value, ties to even, overflowing to
  \<open>Infinity\<close> (RoundMVResult; the standard lets an engine approximate past
  20 significant digits, the model rounds exactly). A finite result is kept
  as its exact rational value, so \<open>-0\<close> and \<open>+0\<close> are both \<open>Fin 0\<close>:
  nothing the page does with the number tells them apart.
\<close>

datatype jsnum = NaN | PosInf | NegInf | Fin rat

subsection \<open>Digits and literals\<close>

definition is_dec_digit :: "code_unit \<Rightarrow> bool" where
  "is_dec_digit c \<longleftrightarrow> 0x30 \<le> c \<and> c \<le> 0x39"

text \<open>Value of a digit in radix 16 or less: \<open>0-9\<close>, \<open>a-f\<close>, \<open>A-F\<close>.\<close>

definition digit_value :: "code_unit \<Rightarrow> nat" where
  "digit_value c =
     (if 0x30 \<le> c \<and> c \<le> 0x39 then unat c - 0x30
      else if 0x61 \<le> c \<and> c \<le> 0x66 then unat c - 0x61 + 10
      else if 0x41 \<le> c \<and> c \<le> 0x46 then unat c - 0x41 + 10
      else 16)"

definition is_radix_digit :: "nat \<Rightarrow> code_unit \<Rightarrow> bool" where
  "is_radix_digit radix c \<longleftrightarrow> digit_value c < radix"

definition digits_value :: "nat \<Rightarrow> jsstr \<Rightarrow> nat" where
  "digits_value radix ds = foldl (\<lambda>acc c. acc * radix + digit_value c) 0 ds"

text \<open>SignedInteger of an ExponentPart: digits with an optional sign.\<close>

definition parse_digits :: "jsstr \<Rightarrow> int option" where
  "parse_digits ds =
     (if ds \<noteq> [] \<and> list_all is_dec_digit ds then Some (int (digits_value 10 ds)) else None)"

definition parse_signed_integer :: "jsstr \<Rightarrow> int option" where
  "parse_signed_integer s =
     (case s of
        [] \<Rightarrow> None
      | c # r \<Rightarrow> if c = 0x2B then parse_digits r
                else if c = 0x2D then map_option uminus (parse_digits r)
                else parse_digits s)"

text \<open>ExponentPart, or its absence (exponent 0) at the end of the literal.\<close>

definition parse_exponent :: "jsstr \<Rightarrow> int option" where
  "parse_exponent s =
     (case s of
        [] \<Rightarrow> Some 0
      | c # r \<Rightarrow> if c = 0x65 \<or> c = 0x45 then parse_signed_integer r else None)"

text \<open>
  StrUnsignedDecimalLiteral other than \<open>Infinity\<close>: \<open>D.D? E?\<close>, \<open>.D E?\<close>
  or \<open>D E?\<close>, read as the pair \<open>(M, k)\<close> of its digits and its decimal
  exponent, so that its value is \<open>M * 10^k\<close>.
\<close>

definition parse_unsigned_decimal :: "jsstr \<Rightarrow> (nat \<times> int) option" where
  "parse_unsigned_decimal s =
     (let ip = takeWhile is_dec_digit s; r1 = dropWhile is_dec_digit s in
      case r1 of
        [] \<Rightarrow> if ip = [] then None else Some (digits_value 10 ip, 0)
      | c # r2 \<Rightarrow>
          if c = 0x2E then
            (let fp = takeWhile is_dec_digit r2; r3 = dropWhile is_dec_digit r2 in
             if ip = [] \<and> fp = [] then None
             else map_option (\<lambda>e. (digits_value 10 (ip @ fp), e - int (length fp)))
                    (parse_exponent r3))
          else if ip = [] then None
          else map_option (\<lambda>e. (digits_value 10 ip, e)) (parse_exponent r1))"

datatype numlit = LitInfinity | LitDecimal nat int

definition parse_unsigned_literal :: "jsstr \<Rightarrow> numlit option" where
  "parse_unsigned_literal s =
     (if s = str ''Infinity'' then Some LitInfinity
      else map_option (\<lambda>(m, k). LitDecimal m k) (parse_unsigned_decimal s))"

text \<open>StrDecimalLiteral: an optional sign (\<open>True\<close> for \<open>-\<close>) and the literal.\<close>

definition parse_str_decimal :: "jsstr \<Rightarrow> (bool \<times> numlit) option" where
  "parse_str_decimal s =
     (case s of
        [] \<Rightarrow> None
      | c # r \<Rightarrow> if c = 0x2B then map_option (Pair False) (parse_unsigned_literal r)
                else if c = 0x2D then map_option (Pair True) (parse_unsigned_literal r)
                else map_option (Pair False) (parse_unsigned_literal s))"

text \<open>NonDecimalIntegerLiteral: \<open>0x\<close>, \<open>0o\<close> or \<open>0b\<close> (either case), digits.\<close>

definition parse_non_decimal :: "jsstr \<Rightarrow> nat option" where
  "parse_non_decimal s =
     (case s of
        c0 # c1 # ds \<Rightarrow>
          (let radix = (if c1 = 0x78 \<or> c1 = 0x58 then 16
                        else if c1 = 0x6F \<or> c1 = 0x4F then 8
                        else if c1 = 0x62 \<or> c1 = 0x42 then 2 else 0) in
           if c0 = 0x30 \<and> radix \<noteq> 0 \<and> ds \<noteq> [] \<and> list_all (is_radix_digit radix) ds
           then Some (digits_value radix ds) else None)
      | _ \<Rightarrow> None)"

subsection \<open>Rounding to binary64\<close>

fun nbits :: "nat \<Rightarrow> nat" where
  "nbits n = (if n = 0 then 0 else Suc (nbits (n div 2)))"

declare nbits.simps [simp del]

text \<open>\<open>2 ^ e \<le> p / q\<close> in integers.\<close>

definition pow2_le :: "int \<Rightarrow> nat \<Rightarrow> nat \<Rightarrow> bool" where
  "pow2_le e p q \<longleftrightarrow> (if 0 \<le> e then 2 ^ nat e * q \<le> p else q \<le> p * 2 ^ nat (- e))"

text \<open>\<open>\<lfloor>log\<^sub>2 (p / q)\<rfloor>\<close> for \<open>p, q > 0\<close>: the bit lengths give it up to one.\<close>

definition flog2 :: "nat \<Rightarrow> nat \<Rightarrow> int" where
  "flog2 p q = (let e = int (nbits p) - int (nbits q) in if pow2_le e p q then e else e - 1)"

text \<open>\<open>n * 2 ^ u\<close> as a rational.\<close>

definition scaled :: "nat \<Rightarrow> int \<Rightarrow> rat" where
  "scaled n u = (if 0 \<le> u then of_nat n * 2 ^ nat u else of_nat n / 2 ^ nat (- u))"

text \<open>Nearest integer to \<open>a / b\<close>, ties to even.\<close>

definition round_half_even :: "nat \<Rightarrow> nat \<Rightarrow> nat" where
  "round_half_even a b =
     (let n = a div b; r = a mod b in
      if 2 * r < b then n else if b < 2 * r then Suc n else if even n then n else Suc n)"

text \<open>
  The binary64 value nearest to \<open>p / q > 0\<close>: the unit in the last place is
  \<open>2 ^ u\<close> with \<open>u = max E (-1022) - 52\<close> for the binade \<open>E\<close> of \<open>p / q\<close>
  (subnormals below \<open>2 ^ -1022\<close>); a result of \<open>2 ^ 1024\<close> or more is
  \<open>Infinity\<close>.
\<close>

definition round_binary64 :: "nat \<Rightarrow> nat \<Rightarrow> jsnum" where
  "round_binary64 p q =
     (let u = max (flog2 p q) (- 1022) - 52;
          n = (if 0 \<le> u then round_half_even p (q * 2 ^ nat u)
               else round_half_even (p * 2 ^ nat (- u)) q) in
      if 0 \<le> u \<and> 2 ^ 1024 \<le> n * 2 ^ nat u then PosInf else Fin (scaled n u))"

text \<open>The Number value of \<open>M * 10 ^ k\<close> with a sign: RoundMVResult.\<close>

definition decimal_to_number :: "bool \<Rightarrow> nat \<Rightarrow> int \<Rightarrow> jsnum" where
  "decimal_to_number neg m k =
     (let r = (if m = 0 then Fin 0
               else if 0 \<le> k then round_binary64 (m * 10 ^ nat k) 1
               else round_binary64 m (10 ^ nat (- k))) in
      if neg then (case r of Fin x \<Rightarrow> Fin (- x) | PosInf \<Rightarrow> NegInf | v \<Rightarrow> v) else r)"

definition string_to_number :: "jsstr \<Rightarrow> jsnum" where
  "string_to_number s =
     (let t = js_trim s in
      if t = [] then Fin 0
      else case parse_non_decimal t of
             Some n \<Rightarrow> decimal_to_number False n 0
           | None \<Rightarrow>
               (case parse_str_decimal t of
                  None \<Rightarrow> NaN
                | Some (neg, LitInfinity) \<Rightarrow> if neg then NegInf else PosInf
                | Some (neg, LitDecimal m k) \<Rightarrow> decimal_to_number neg m k))"

subsection \<open>Number.isFinite and the less-than comparison\<close>

fun js_is_finite :: "jsnum \<Rightarrow> bool" where
  "js_is_finite (Fin x) = True"
| "js_is_finite _ = False"

text \<open>Number::lessThan: \<open>undefined\<close> (false) when either side is \<open>NaN\<close>.\<close>

fun js_less :: "jsnum \<Rightarrow> jsnum \<Rightarrow> bool" where
  "js_less NaN y = False"
| "js_less x NaN = False"
| "js_less (Fin x) (Fin y) = (x < y)"
| "js_less PosInf y = False"
| "js_less x PosInf = True"
| "js_less NegInf y = (y \<noteq> NegInf)"
| "js_less x NegInf = False"

subsection \<open>Decimal strings of non-negative integers\<close>

text \<open>Number::toString for an integral value \<open>n \<ge> 0\<close>: its decimal digits.\<close>

fun nat_to_string :: "nat \<Rightarrow> jsstr" where
  "nat_to_string n =
     (if n < 10 then [of_nat (0x30 + n)] else nat_to_string (n div 10) @ [of_nat (0x30 + n mod 10)])"

declare nat_to_string.simps [simp del]

text \<open>Number::toString for an integral value: a minus sign and the digits of the
  magnitude.\<close>

definition int_to_string :: "int \<Rightarrow> jsstr" where
  "int_to_string i = (if i < 0 then 0x2D # nat_to_string (nat (- i)) else nat_to_string (nat i))"

lemmas number_eval [js_eval] =
  string_to_number_def parse_non_decimal_def parse_str_decimal_def parse_unsigned_literal_def
  parse_unsigned_decimal_def parse_exponent_def parse_signed_integer_def parse_digits_def
  digits_value_def digit_value_def is_dec_digit_def is_radix_digit_def
  decimal_to_number_def round_binary64_def flog2_def pow2_le_def nbits.simps scaled_def
  round_half_even_def int_to_string_def nat_to_string.simps

subsection \<open>Integers below 2 ^ 53 convert exactly\<close>

text \<open>Below \<open>2 ^ 53\<close> the unit in the last place is at most 1, so rounding keeps the value.\<close>

lemma nbits_le: "n < 2 ^ k \<Longrightarrow> nbits n \<le> k"
proof (induction n arbitrary: k rule: nbits.induct)
  case (1 n)
  show ?case
  proof (cases "n = 0")
    case False
    then obtain k' where k: "k = Suc k'" using "1.prems" by (cases k) auto
    with "1.prems" have "n div 2 < 2 ^ k'" by simp
    with "1.IH" False k show ?thesis by (simp add: nbits.simps)
  qed (simp add: nbits.simps)
qed

lemma nbits_1 [simp]: "nbits (Suc 0) = 1"
  by (simp add: nbits.simps)

lemma flog2_le: "flog2 p q \<le> int (nbits p) - int (nbits q)"
  by (simp add: flog2_def Let_def)

lemma round_half_even_1 [simp]: "round_half_even a (Suc 0) = a"
  by (simp add: round_half_even_def)

lemma round_binary64_exact:
  assumes "n < 2 ^ 53"
  shows "round_binary64 n 1 = Fin (of_nat n)"
proof -
  define u where "u = max (flog2 n 1) (- 1022) - 52"
  have "flog2 n 1 \<le> 52"
    using flog2_le [of n 1] nbits_le [OF assms] by simp
  then have u: "u \<le> 0" by (simp add: u_def)
  have big: "\<not> (2::nat) ^ 1024 \<le> n"
  proof
    assume "(2::nat) ^ 1024 \<le> n"
    moreover have "(2::nat) ^ 53 \<le> 2 ^ 1024" by (rule power_increasing) simp_all
    ultimately show False using assms by simp
  qed
  show ?thesis
  proof (cases "u = 0")
    case True
    then show ?thesis using big unfolding round_binary64_def Let_def u_def [symmetric] by (simp add: scaled_def)
  next
    case False
    with u have "\<not> 0 \<le> u" by simp
    then show ?thesis unfolding round_binary64_def Let_def u_def [symmetric] by (simp add: scaled_def)
  qed
qed

lemma dec_digit_not_ws: "is_dec_digit c \<Longrightarrow> \<not> is_js_whitespace c"
  by (auto simp: is_dec_digit_def is_js_whitespace_def word_le_nat_alt)

lemma parse_unsigned_decimal_digits:
  "ds \<noteq> [] \<Longrightarrow> list_all is_dec_digit ds \<Longrightarrow> parse_unsigned_decimal ds = Some (digits_value 10 ds, 0)"
proof -
  assume "ds \<noteq> []" and d: "list_all is_dec_digit ds"
  moreover from d have tw: "takeWhile is_dec_digit ds = ds" and dw: "dropWhile is_dec_digit ds = []"
    by (simp_all add: list_all_iff)
  ultimately show ?thesis unfolding parse_unsigned_decimal_def Let_def tw dw by simp
qed

lemma parse_non_decimal_digits:
  "list_all is_dec_digit ds \<Longrightarrow> parse_non_decimal ds = None"
  by (cases ds rule: remdups_adj.cases) (auto simp: parse_non_decimal_def Let_def is_dec_digit_def)

lemma parse_unsigned_literal_digits:
  "ds \<noteq> [] \<Longrightarrow> list_all is_dec_digit ds \<Longrightarrow>
   parse_unsigned_literal ds = Some (LitDecimal (digits_value 10 ds) 0)"
  by (cases ds) (auto simp: parse_unsigned_literal_def parse_unsigned_decimal_digits is_dec_digit_def)

lemma decimal_to_number_exact:
  "m < 2 ^ 53 \<Longrightarrow> decimal_to_number neg m 0 = Fin (if neg then - of_nat m else of_nat m)"
  using round_binary64_exact [of m] by (simp add: decimal_to_number_def)

lemma parse_non_decimal_minus: "parse_non_decimal (0x2D # ds) = None"
  by (cases ds) (simp_all add: parse_non_decimal_def)

lemma string_to_number_digits:
  assumes "ds \<noteq> []" "list_all is_dec_digit ds" "digits_value 10 ds < 2 ^ 53"
    "list_all is_js_whitespace p" "list_all is_js_whitespace q"
  shows "string_to_number (p @ (if neg then [0x2D] else []) @ ds @ q) =
         Fin (if neg then - of_nat (digits_value 10 ds) else of_nat (digits_value 10 ds))"
proof -
  obtain c r where ds: "ds = c # r" using assms(1) by (cases ds) auto
  have c: "c \<noteq> 0x2B" "c \<noteq> 0x2D" "\<not> is_js_whitespace c" "\<not> is_js_whitespace (last ds)"
    using assms(1,2) ds by (auto simp: is_dec_digit_def dec_digit_not_ws list_all_iff)
  show ?thesis
  proof (cases neg)
    case True
    have "js_trim (p @ (0x2D # ds) @ q) = 0x2D # ds"
      using assms(1,4,5) c by (intro js_trim_pad) (simp_all add: is_js_whitespace_def)
    then show ?thesis using True assms(1-3)
      by (simp add: string_to_number_def parse_non_decimal_minus parse_str_decimal_def
          parse_unsigned_literal_digits decimal_to_number_exact)
  next
    case False
    have "js_trim (p @ ds @ q) = ds"
      using assms(1,4,5) c ds by (intro js_trim_pad) simp_all
    then show ?thesis using False assms(1-3) ds c
      by (simp add: string_to_number_def parse_non_decimal_digits parse_str_decimal_def
          parse_unsigned_literal_digits decimal_to_number_exact)
  qed
qed

lemma dec_digit_of: "j < 10 \<Longrightarrow> digit_value (of_nat (48 + j)) = j \<and> is_dec_digit (of_nat (48 + j))"
proof -
  assume j: "j < 10"
  then have "unat (of_nat (48 + j) :: code_unit) = 48 + j" by (simp add: unat_of_nat del: of_nat_add)
  with j show ?thesis by (simp add: digit_value_def is_dec_digit_def word_le_nat_alt)
qed

subsection \<open>Number::toString of an integer reads back\<close>

lemma digits_value_snoc: "digits_value r (cs @ [c]) = digits_value r cs * r + digit_value c"
  by (simp add: digits_value_def)

lemma nat_to_string_digits:
  "nat_to_string n \<noteq> [] \<and> list_all is_dec_digit (nat_to_string n) \<and> digits_value 10 (nat_to_string n) = n"
proof (induction n rule: nat_to_string.induct)
  case (1 n)
  show ?case
  proof (cases "n < 10")
    case True
    then show ?thesis using dec_digit_of [of n] by (simp add: nat_to_string.simps digits_value_def)
  next
    case False
    have "n mod 10 < 10" by simp
    note d = dec_digit_of [OF this]
    have "n div 10 * 10 + n mod 10 = n" by simp
    with False "1.IH" d show ?thesis by (simp add: nat_to_string.simps [of n] digits_value_snoc)
  qed
qed

lemma int_to_string_cases:
  "(0 \<le> i \<and> int_to_string i = nat_to_string (nat i)) \<or>
   (i < 0 \<and> int_to_string i = 0x2D # nat_to_string (nat (- i)))"
  by (simp add: int_to_string_def)

subsection \<open>Rounding values between one half and one\<close>

lemma nbits_mono: "p \<le> q \<Longrightarrow> nbits p \<le> nbits q"
proof (induction q arbitrary: p rule: nbits.induct)
  case (1 q)
  show ?case
  proof (cases "p = 0")
    case False
    with "1.prems" have "q \<noteq> 0" "p div 2 \<le> q div 2" by (simp_all add: div_le_mono)
    with "1.IH" False show ?thesis by (simp add: nbits.simps [of p] nbits.simps [of q])
  qed (simp add: nbits.simps)
qed

lemma nbits_double: "0 < p \<Longrightarrow> nbits (2 * p) = Suc (nbits p)"
  by (simp add: nbits.simps [of "2 * p"])

lemma flog2_half:
  assumes "0 < p" "p < q" "q \<le> 2 * p"
  shows "flog2 p q = - 1"
proof -
  have a: "nbits p \<le> nbits q" using assms(2) by (simp add: nbits_mono)
  have "nbits q \<le> nbits (2 * p)" using assms(3) by (rule nbits_mono)
  then have b: "nbits q \<le> Suc (nbits p)" using nbits_double [OF assms(1)] by simp
  have n0: "\<not> pow2_le 0 p q" using assms(2) by (simp add: pow2_le_def)
  have n1: "pow2_le (- 1) p q" using assms(3) by (simp add: pow2_le_def)
  show ?thesis
  proof (cases "nbits q = nbits p")
    case True
    then show ?thesis using n0 by (simp add: flog2_def Let_def)
  next
    case False
    with a b have "int (nbits p) - int (nbits q) = - 1" by simp
    then show ?thesis using n1 by (simp add: flog2_def Let_def)
  qed
qed

lemma round_binary64_half:
  assumes "0 < p" "p < q" "q \<le> 2 * p"
  shows "round_binary64 p q = Fin (of_nat (round_half_even (p * 2 ^ 53) q) / 2 ^ 53)"
  using flog2_half [OF assms] by (simp add: round_binary64_def scaled_def)

lemma round_half_even_top:
  fixes a b N :: nat
  assumes b: "0 < b" and lt: "a < N * b" and ev: "even N"
  shows "round_half_even a b \<le> N \<and> (round_half_even a b = N \<longleftrightarrow> (2 * N - 1) * b \<le> 2 * a)"
proof -
  define n where "n = a div b"
  define r where "r = a mod b"
  have a: "a = n * b + r" by (simp add: n_def r_def)
  have r: "r < b" using b by (simp add: r_def)
  have nN: "n < N"
  proof (rule ccontr)
    assume "\<not> n < N"
    then have "N * b \<le> n * b" by simp
    with a lt show False by simp
  qed
  have N1: "1 \<le> N" using nN by simp
  have rhe: "round_half_even a b = (if 2 * r < b then n else if b < 2 * r then Suc n else if even n then n else Suc n)"
    by (simp add: round_half_even_def n_def r_def Let_def)
  show ?thesis
  proof (cases "n = N - 1")
    case True
    then have odd: "\<not> even n" using ev N1 by (simp add: even_diff_nat)
    have "(2 * N - 1) * b \<le> 2 * a \<longleftrightarrow> b \<le> 2 * r"
    proof -
      have "(2 * N - 1) * b = 2 * (n * b) + b" using True N1 by (simp add: algebra_simps)
      then show ?thesis using a by simp
    qed
    then show ?thesis using rhe odd True N1 by auto
  next
    case False
    with nN have "Suc n < N" by simp
    moreover have "2 * a < (2 * N - 1) * b"
    proof -
      have "2 * a < 2 * (n * b) + 2 * b" using a r by simp
      also have "\<dots> = 2 * (Suc n * b)" by simp
      also have "\<dots> \<le> 2 * ((N - 1) * b)"
      proof -
        have "Suc n \<le> N - 1" using \<open>Suc n < N\<close> by simp
        then have "Suc n * b \<le> (N - 1) * b" by (rule mult_le_mono1)
        then show ?thesis by linarith
      qed
      also have "\<dots> \<le> (2 * N - 1) * b" by (simp add: algebra_simps)
      finally show ?thesis .
    qed
    ultimately show ?thesis using rhe by auto
  qed
qed

lemma digit_value_lt: "is_dec_digit c \<Longrightarrow> digit_value c < 10"
  by (auto simp: digit_value_def is_dec_digit_def word_le_nat_alt)

lemma digits_value_less: "list_all is_dec_digit ds \<Longrightarrow> digits_value 10 ds < 10 ^ length ds"
proof (induction ds rule: rev_induct)
  case (snoc c ds)
  then have "digits_value 10 ds + 1 \<le> 10 ^ length ds" "digit_value c < 10"
    by (simp_all add: digit_value_lt)
  then have "digits_value 10 ds * 10 + digit_value c < 10 ^ length ds * 10" by linarith
  then show ?case by (simp add: digits_value_snoc)
qed (simp add: digits_value_def)

lemma string_to_number_zero_point:
  assumes "ds \<noteq> []" "list_all is_dec_digit ds"
  shows "string_to_number (str ''0.'' @ ds) = decimal_to_number False (digits_value 10 ds) (- int (length ds))"
proof -
  have l: "\<not> is_js_whitespace (last ds)"
    using assms by (simp add: dec_digit_not_ws list_all_iff)
  have "js_trim ([] @ (0x30 # 0x2E # ds) @ []) = 0x30 # 0x2E # ds"
    using l assms(1) by (intro js_trim_pad) (simp_all add: is_js_whitespace_def)
  then have t: "js_trim (0x30 # 0x2E # ds) = 0x30 # 0x2E # ds" by simp
  have tw: "takeWhile is_dec_digit ds = ds" "dropWhile is_dec_digit ds = []"
    using assms(2) by (simp_all add: list_all_iff)
  have "digits_value 10 (0x30 # ds) = digits_value 10 ds"
    by (simp add: digits_value_def digit_value_def)
  moreover have "is_dec_digit 0x30" "\<not> is_dec_digit 0x2E" by (simp_all add: is_dec_digit_def)
  ultimately have "parse_unsigned_decimal (0x30 # 0x2E # ds) = Some (digits_value 10 ds, - int (length ds))"
    by (simp add: parse_unsigned_decimal_def parse_exponent_def Let_def tw)
  then show ?thesis using t
    by (simp add: string_to_number_def parse_non_decimal_def parse_str_decimal_def
        parse_unsigned_literal_def)
qed

text \<open>
  C13: \<open>Number\<close> converts a decimal integer string exactly. A non-empty string
  of decimal digits whose value is below \<open>2 ^ 53\<close>, with white space around it
  and an optional minus sign, converts to that integer (or its negation).
\<close>

theorem string_to_number_integer:
  assumes "ds \<noteq> []" "list_all is_dec_digit ds" "digits_value 10 ds < 2 ^ 53"
    "list_all is_js_whitespace p" "list_all is_js_whitespace q"
  shows "string_to_number (p @ ds @ q) = Fin (of_nat (digits_value 10 ds)) \<and>
         string_to_number (p @ 0x2D # ds @ q) = Fin (- of_nat (digits_value 10 ds))"
  using string_to_number_digits [OF assms, of False] string_to_number_digits [OF assms, of True]
  by simp

text \<open>
  C24: \<open>Number(String(i))\<close> is \<open>i\<close> for every integer below \<open>2 ^ 53\<close> in
  magnitude: the decimal string the footer's year is converted to reads back
  through StringToNumber to the same number.
\<close>

theorem int_to_string_roundtrip:
  assumes "\<bar>i\<bar> < 2 ^ 53"
  shows "string_to_number (int_to_string i) = Fin (of_int i)"
proof -
  note d = nat_to_string_digits [of "nat \<bar>i\<bar>"]
  have b: "digits_value 10 (nat_to_string (nat \<bar>i\<bar>)) < 2 ^ 53"
    using d assms by (simp add: nat_less_iff)
  show ?thesis
  proof (cases "i < 0")
    case True
    then have "int_to_string i = [] @ (if True then [0x2D] else []) @ nat_to_string (nat \<bar>i\<bar>) @ []"
      by (simp add: int_to_string_def)
    then show ?thesis using string_to_number_digits [of _ "[]" "[]" True] d b True by simp
  next
    case False
    then have "int_to_string i = [] @ (if False then [0x2D] else []) @ nat_to_string (nat \<bar>i\<bar>) @ []"
      by (simp add: int_to_string_def)
    then show ?thesis using string_to_number_digits [of _ "[]" "[]" False] d b False by simp
  qed
qed

end
