(* ===== verification/ClientForm.thy ===== *)
theory ClientForm
  imports Dom Regex JsNumber
begin

text \<open>
  The client intake form's submit handler, its pure part: the client-side
  checks (\<open>main.js\<close> lines 49--71) and the record sent to the spreadsheet
  endpoint (lines 73--85). The checks run in the source's order and stop at the
  first failure with its alert: six required fields non-empty after
  \<open>trim\<close>, then the e-mail pattern on the untrimmed value, then
  \<open>Number(numResources)\<close> finite and not below 1. The disabling of the
  button and the request are in \<open>Page\<close>.
\<close>

datatype validation_error = MissingRequired | InvalidEmail | InvalidResources

text \<open>The alert each failed check shows.\<close>

fun validation_message :: "validation_error \<Rightarrow> jsstr" where
  "validation_message MissingRequired = str ''Please fill all required fields.''"
| "validation_message InvalidEmail = str ''Please enter a valid email.''"
| "validation_message InvalidResources = str ''Please enter a valid number of resources.''"

definition client_required_fields :: "jsstr list" where
  "client_required_fields =
     [str ''companyName'', str ''contactPerson'', str ''email'', str ''phone'', str ''city'',
      str ''numResources'']"

text \<open>
  The \<open>for ... of\<close> loop over the required fields: the first field whose
  \<open>String(formData.get(field) || '').trim()\<close> is empty ends the handler.
\<close>

fun check_required :: "formdata \<Rightarrow> jsstr list \<Rightarrow> validation_error + unit" where
  "check_required fd [] = Inr ()"
| "check_required fd (f # fs) =
     (if js_trim (or_empty (fd_get fd f)) = [] then Inl MissingRequired
      else check_required fd fs)"

text \<open>\<open>Number(v)\<close> for a string-or-null: \<open>Number(null)\<close> is \<open>+0\<close>.\<close>

definition number_of :: "jsstr option \<Rightarrow> jsnum" where
  "number_of v = (case v of None \<Rightarrow> Fin 0 | Some s \<Rightarrow> string_to_number s)"

definition resources_invalid :: "jsnum \<Rightarrow> bool" where
  "resources_invalid num \<longleftrightarrow> \<not> js_is_finite num \<or> js_less num (Fin 1)"

definition validate_client :: "formdata \<Rightarrow> validation_error + unit" where
  "validate_client fd =
     (case check_required fd client_required_fields of
        Inl e \<Rightarrow> Inl e
      | Inr _ \<Rightarrow>
          if \<not> email_valid (or_empty (fd_get fd (str ''email''))) then Inl InvalidEmail
          else if resources_invalid (number_of (fd_get fd (str ''numResources'')))
          then Inl InvalidResources
          else Inr ())"

text \<open>
  The record of lines 74--85. The six required fields are sent as
  \<open>formData.get(...)\<close> returns them (\<open>None\<close> would be JSON \<open>null\<close>); the
  optional ones fall back to the empty string. The time stamp is the value of
  \<open>new Date().toISOString()\<close>, an input of the handler.
\<close>

record client_record =
  cr_timestamp :: jsstr
  cr_companyName :: "jsstr option"
  cr_contactPerson :: "jsstr option"
  cr_email :: "jsstr option"
  cr_phone :: "jsstr option"
  cr_city :: "jsstr option"
  cr_manpowerType :: jsstr
  cr_numResources :: "jsstr option"
  cr_duration :: jsstr
  cr_details :: jsstr

definition build_client_record :: "jsstr \<Rightarrow> formdata \<Rightarrow> client_record" where
  "build_client_record ts fd =
     \<lparr>cr_timestamp = ts,
      cr_companyName = fd_get fd (str ''companyName''),
      cr_contactPerson = fd_get fd (str ''contactPerson''),
      cr_email = fd_get fd (str ''email''),
      cr_phone = fd_get fd (str ''phone''),
      cr_city = fd_get fd (str ''city''),
      cr_manpowerType = or_empty (fd_get fd (str ''manpowerType'')),
      cr_numResources = fd_get fd (str ''numResources''),
      cr_duration = or_empty (fd_get fd (str ''duration'')),
      cr_details = or_empty (fd_get fd (str ''details''))\<rparr>"

lemmas client_form_defs [js_eval] =
  validate_client_def client_required_fields_def number_of_def resources_invalid_def
  build_client_record_def

subsection \<open>The checks\<close>

lemma check_required_Inr_iff:
  "check_required fd fs = Inr () \<longleftrightarrow> (\<forall>f \<in> set fs. js_trim (or_empty (fd_get fd f)) \<noteq> [])"
  by (induction fs) auto

lemma check_required_Inl:
  "check_required fd fs = Inl e \<Longrightarrow> e = MissingRequired"
  by (induction fs) (auto split: if_splits)

lemma check_required_cases:
  "check_required fd fs = Inl MissingRequired \<or> check_required fd fs = Inr ()"
  by (induction fs) auto

text \<open>A required field that is present and not blank is a string, not \<open>null\<close>.\<close>

lemma present_if_not_blank:
  "js_trim (or_empty v) \<noteq> [] \<Longrightarrow> \<exists>s. v = Some s \<and> js_trim s \<noteq> []"
  by (cases v) auto

subsection \<open>What the checks guarantee of the record sent\<close>

text \<open>The six required fields are strings with a non-blank trimmed value, the
  e-mail matches the pattern and the resource count converts to a finite number
  of at least 1.\<close>

definition client_record_ok :: "client_record \<Rightarrow> bool" where
  "client_record_ok c \<longleftrightarrow>
     (\<forall>v \<in> set [cr_companyName c, cr_contactPerson c, cr_email c, cr_phone c, cr_city c,
                cr_numResources c]. \<exists>x. v = Some x \<and> js_trim x \<noteq> []) \<and>
     email_valid (or_empty (cr_email c)) \<and> \<not> resources_invalid (number_of (cr_numResources c))"

lemma validate_client_Inr:
  "validate_client fd = Inr u \<Longrightarrow> client_record_ok (build_client_record ts fd)"
  using check_required_cases [of fd client_required_fields]
  by (auto simp: validate_client_def client_record_ok_def build_client_record_def
      check_required_Inr_iff client_required_fields_def split: if_splits dest!: present_if_not_blank)

text \<open>A blank required field stops the checks with the required-field error.\<close>

lemma validate_client_blank:
  "n \<in> set client_required_fields \<Longrightarrow> js_trim (or_empty (fd_get fd n)) = [] \<Longrightarrow>
   validate_client fd = Inl MissingRequired"
  using check_required_cases [of fd client_required_fields]
    check_required_Inr_iff [of fd client_required_fields]
  by (auto simp: validate_client_def)

subsection \<open>The resource count of a decimal integer\<close>

text \<open>
  C14: on a resource count written as a decimal integer below \<open>2 ^ 53\<close> (white
  space around it allowed), the check of lines 67--68 rejects exactly 0 and
  every negative count.
\<close>

theorem resources_check_integer:
  assumes "ds \<noteq> []" "list_all is_dec_digit ds" "digits_value 10 ds < 2 ^ 53"
    "list_all is_js_whitespace p" "list_all is_js_whitespace q"
  shows "(resources_invalid (number_of (Some (p @ ds @ q))) \<longleftrightarrow> digits_value 10 ds = 0) \<and>
         resources_invalid (number_of (Some (p @ 0x2D # ds @ q)))"
  using string_to_number_digits [OF assms, of False] string_to_number_digits [OF assms, of True]
  by (simp add: resources_invalid_def number_of_def)

text \<open>
  C16: the check \<open>num < 1\<close> of line 68 accepts counts below 1. For a count
  written \<open>0.d\<^sub>1...d\<^sub>k\<close> whose value \<open>m / 10^k\<close> is at least one half, the
  check rejects it exactly when \<open>m / 10^k < 1 - 2^-54\<close>: every value from
  \<open>1 - 2^-54\<close> up to 1 rounds to the binary64 number 1 and passes, although
  it is below 1.
\<close>

theorem below_one_accepted:
  assumes "list_all is_dec_digit ds" and "10 ^ length ds \<le> 2 * digits_value 10 ds"
  shows "resources_invalid (number_of (Some (str ''0.'' @ ds))) \<longleftrightarrow>
         2 ^ 54 * digits_value 10 ds < (2 ^ 54 - 1) * 10 ^ length ds"
proof -
  let ?m = "digits_value 10 ds" and ?q = "10 ^ length ds :: nat"
  have ne: "ds \<noteq> []" using assms(2) by (cases ds) (simp_all add: digits_value_def)
  have lt: "?m < ?q" using assms(1) by (rule digits_value_less)
  have pos: "0 < ?m" using assms(2) by (cases "?m") simp_all
  have r: "round_binary64 ?m ?q = Fin (of_nat (round_half_even (?m * 2 ^ 53) ?q) / 2 ^ 53)"
    using pos lt assms(2) by (rule round_binary64_half)
  let ?n = "round_half_even (?m * 2 ^ 53) ?q"
  have top: "?n \<le> 2 ^ 53 \<and> (?n = 2 ^ 53 \<longleftrightarrow> (2 * 2 ^ 53 - 1) * ?q \<le> 2 * (?m * 2 ^ 53))"
    by (rule round_half_even_top) (use lt in simp_all)
  have s: "string_to_number (str ''0.'' @ ds) = Fin (of_nat ?n / 2 ^ 53)"
    using string_to_number_zero_point [OF ne assms(1)] ne pos r by (simp add: decimal_to_number_def)
  have "(of_nat ?n / 2 ^ 53 < (1::rat)) \<longleftrightarrow> ?n < 2 ^ 53" by (simp add: divide_less_eq)
  then show ?thesis using s top by (auto simp: resources_invalid_def number_of_def)
qed

end
