(* ===== verification/CandidateForm.thy ===== *)
theory CandidateForm
  imports ClientForm
begin

text \<open>
  The candidate registration form's submit handler, its pure part
  (\<open>main.js\<close> lines 134--150): the only check is the e-mail pattern, applied
  only when the e-mail field is non-empty (it is not trimmed first), and every
  field of the record falls back to the empty string.
\<close>

definition validate_candidate :: "formdata \<Rightarrow> validation_error + unit" where
  "validate_candidate fd =
     (let email = or_empty (fd_get fd (str ''candidateEmail'')) in
      if email \<noteq> [] \<and> \<not> email_valid email then Inl InvalidEmail else Inr ())"

record candidate_record =
  cd_timestamp :: jsstr
  cd_fullName :: jsstr
  cd_phone :: jsstr
  cd_email :: jsstr
  cd_city :: jsstr
  cd_primarySkill :: jsstr
  cd_experienceYears :: jsstr

definition build_candidate_record :: "jsstr \<Rightarrow> formdata \<Rightarrow> candidate_record" where
  "build_candidate_record ts fd =
     \<lparr>cd_timestamp = ts,
      cd_fullName = or_empty (fd_get fd (str ''fullName'')),
      cd_phone = or_empty (fd_get fd (str ''candidatePhone'')),
      cd_email = or_empty (fd_get fd (str ''candidateEmail'')),
      cd_city = or_empty (fd_get fd (str ''candidateCity'')),
      cd_primarySkill = or_empty (fd_get fd (str ''primarySkill'')),
      cd_experienceYears = or_empty (fd_get fd (str ''experienceYears''))\<rparr>"

lemmas candidate_form_defs [js_eval] = validate_candidate_def build_candidate_record_def

lemma validate_candidate_Inl:
  "validate_candidate fd = Inl e \<Longrightarrow> e = InvalidEmail"
  by (simp add: validate_candidate_def Let_def split: if_splits)

definition candidate_record_ok :: "candidate_record \<Rightarrow> bool" where
  "candidate_record_ok c \<longleftrightarrow> cd_email c = [] \<or> email_valid (cd_email c)"

lemma validate_candidate_Inr:
  "validate_candidate fd = Inr u \<Longrightarrow> candidate_record_ok (build_candidate_record ts fd)"
  by (auto simp: validate_candidate_def candidate_record_ok_def build_candidate_record_def Let_def
      split: if_splits)

end
