(* ===== verification/Payload.thy ===== *)
theory Payload
  imports Json CandidateForm "HOL-Library.Monad_Syntax"
begin

text \<open>
  The objects \<open>data\<close> the two listeners build (\<open>main.js\<close> lines 74--85 and
  142--150) as JSON objects, properties in the order of the object literals: a
  client field read with \<open>formData.get\<close> alone is \<open>null\<close> when the form has
  no such control, the fields read with \<open>|| ''\<close> are always strings. The
  decoders are the receiving side: they read the properties by name.
\<close>

definition jopt :: "jsstr option \<Rightarrow> jval" where
  "jopt v = (case v of None \<Rightarrow> JNull | Some s \<Rightarrow> JStr s)"

definition client_object :: "client_record \<Rightarrow> jobject" where
  "client_object c =
     [(str ''timestamp'', JStr (cr_timestamp c)),
      (str ''companyName'', jopt (cr_companyName c)),
      (str ''contactPerson'', jopt (cr_contactPerson c)),
      (str ''email'', jopt (cr_email c)),
      (str ''phone'', jopt (cr_phone c)),
      (str ''city'', jopt (cr_city c)),
      (str ''manpowerType'', JStr (cr_manpowerType c)),
      (str ''numResources'', jopt (cr_numResources c)),
      (str ''duration'', JStr (cr_duration c)),
      (str ''details'', JStr (cr_details c))]"

definition candidate_object :: "candidate_record \<Rightarrow> jobject" where
  "candidate_object c =
     [(str ''timestamp'', JStr (cd_timestamp c)),
      (str ''fullName'', JStr (cd_fullName c)),
      (str ''phone'', JStr (cd_phone c)),
      (str ''email'', JStr (cd_email c)),
      (str ''city'', JStr (cd_city c)),
      (str ''primarySkill'', JStr (cd_primarySkill c)),
      (str ''experienceYears'', JStr (cd_experienceYears c))]"

definition client_keys :: "jsstr list" where
  "client_keys = map str [''timestamp'', ''companyName'', ''contactPerson'', ''email'', ''phone'',
     ''city'', ''manpowerType'', ''numResources'', ''duration'', ''details'']"

definition candidate_keys :: "jsstr list" where
  "candidate_keys = map str [''timestamp'', ''fullName'', ''phone'', ''email'', ''city'',
     ''primarySkill'', ''experienceYears'']"

subsection \<open>Reading the objects back\<close>

definition jstr_of :: "jval \<Rightarrow> jsstr option" where
  "jstr_of v = (case v of JStr s \<Rightarrow> Some s | JNull \<Rightarrow> None)"

definition jopt_of :: "jval \<Rightarrow> jsstr option option" where
  "jopt_of v = (case v of JStr s \<Rightarrow> Some (Some s) | JNull \<Rightarrow> Some None)"

definition field :: "jobject \<Rightarrow> string \<Rightarrow> jval option" where
  "field obj k = map_of obj (str k)"

definition client_of_object :: "jobject \<Rightarrow> client_record option" where
  "client_of_object obj = do {
     ts \<leftarrow> field obj ''timestamp'' \<bind> jstr_of;
     cn \<leftarrow> field obj ''companyName'' \<bind> jopt_of;
     cp \<leftarrow> field obj ''contactPerson'' \<bind> jopt_of;
     em \<leftarrow> field obj ''email'' \<bind> jopt_of;
     ph \<leftarrow> field obj ''phone'' \<bind> jopt_of;
     ci \<leftarrow> field obj ''city'' \<bind> jopt_of;
     mt \<leftarrow> field obj ''manpowerType'' \<bind> jstr_of;
     nr \<leftarrow> field obj ''numResources'' \<bind> jopt_of;
     du \<leftarrow> field obj ''duration'' \<bind> jstr_of;
     de \<leftarrow> field obj ''details'' \<bind> jstr_of;
     Some \<lparr>cr_timestamp = ts, cr_companyName = cn, cr_contactPerson = cp, cr_email = em,
           cr_phone = ph, cr_city = ci, cr_manpowerType = mt, cr_numResources = nr,
           cr_duration = du, cr_details = de\<rparr>
   }"

definition candidate_of_object :: "jobject \<Rightarrow> candidate_record option" where
  "candidate_of_object obj = do {
     ts \<leftarrow> field obj ''timestamp'' \<bind> jstr_of;
     fn \<leftarrow> field obj ''fullName'' \<bind> jstr_of;
     ph \<leftarrow> field obj ''phone'' \<bind> jstr_of;
     em \<leftarrow> field obj ''email'' \<bind> jstr_of;
     ci \<leftarrow> field obj ''city'' \<bind> jstr_of;
     sk \<leftarrow> field obj ''primarySkill'' \<bind> jstr_of;
     ey \<leftarrow> field obj ''experienceYears'' \<bind> jstr_of;
     Some \<lparr>cd_timestamp = ts, cd_fullName = fn, cd_phone = ph, cd_email = em, cd_city = ci,
           cd_primarySkill = sk, cd_experienceYears = ey\<rparr>
   }"

lemma jopt_of_jopt [simp]: "jopt_of (jopt v) = Some v"
  by (cases v) (simp_all add: jopt_def jopt_of_def)

lemma jstr_of_JStr [simp]: "jstr_of (JStr s) = Some s"
  by (simp add: jstr_of_def)

lemma client_of_object_inverse: "client_of_object (client_object c) = Some c"
  by (cases c) (simp add: client_of_object_def client_object_def field_def)

lemma candidate_of_object_inverse: "candidate_of_object (candidate_object c) = Some c"
  by (cases c) (simp add: candidate_of_object_def candidate_object_def field_def)

lemma client_object_keys [simp]: "map fst (client_object c) = client_keys"
  by (simp add: client_object_def client_keys_def)

lemma candidate_object_keys [simp]: "map fst (candidate_object c) = candidate_keys"
  by (simp add: candidate_object_def candidate_keys_def)

lemma client_keys_neq [simp]: "client_keys \<noteq> candidate_keys" "candidate_keys \<noteq> client_keys"
  by (simp_all add: client_keys_def candidate_keys_def)

end
