(* ===== verification/JsDate.thy ===== *)
theory JsDate
  imports JsNumber "HOL-Library.Monad_Syntax"
begin

text \<open>
  \<open>new Date().toISOString()\<close> (\<open>main.js\<close> lines 75 and 143) and
  \<open>new Date().getFullYear()\<close> (line 23), after ECMA-262 section 21.4.1. A time
  value is an integer count of milliseconds from 1970-01-01T00:00:00Z.
  \<open>Day(t)\<close> is \<open>floor(t / msPerDay)\<close>; \<open>DayFromYear\<close> is the spec's closed
  formula; \<open>YearFromTime\<close>, which the spec defines as the largest \<open>y\<close> with
  \<open>TimeFromYear(y) \<le> t\<close>, is computed from an estimate on the 400-year cycle
  corrected by one; the month is found by a search over the month starts of
  the year. \<open>toISOString\<close> writes \<open>YYYY-MM-DDTHH:mm:ss.sssZ\<close>, with a signed
  six-digit year outside 0..9999, and throws a RangeError (\<open>None\<close>) when
  \<open>|t| > 8.64 * 10^15\<close>. The parser is the Date Time String Format read back
  with MakeDay, MakeTime and MakeDate.
\<close>

subsection \<open>Years\<close>

definition day_from_year :: "int \<Rightarrow> int" where
  "day_from_year y = 365 * (y - 1970) + (y - 1969) div 4 - (y - 1901) div 100 + (y - 1601) div 400"

definition days_in_year :: "int \<Rightarrow> int" where
  "days_in_year y =
     (if y mod 4 \<noteq> 0 then 365 else if y mod 100 \<noteq> 0 then 366 else if y mod 400 \<noteq> 0 then 365 else 366)"

definition year_of_day :: "int \<Rightarrow> int" where
  "year_of_day d =
     (let y = 1970 + (400 * d) div 146097 in
      if day_from_year (y + 1) \<le> d then y + 1 else if d < day_from_year y then y - 1 else y)"

definition day_of :: "int \<Rightarrow> int" where
  "day_of t = t div 86400000"

definition time_from_year :: "int \<Rightarrow> int" where
  "time_from_year y = 86400000 * day_from_year y"

definition year_from_time :: "int \<Rightarrow> int" where
  "year_from_time t = year_of_day (day_of t)"

definition in_leap_year :: "int \<Rightarrow> bool" where
  "in_leap_year t \<longleftrightarrow> days_in_year (year_from_time t) = 366"

definition day_within_year :: "int \<Rightarrow> int" where
  "day_within_year t = day_of t - day_from_year (year_from_time t)"

subsection \<open>Months, dates and the time of day\<close>

definition month_start :: "bool \<Rightarrow> nat \<Rightarrow> int" where
  "month_start leap m =
     [0, 31, 59, 90, 120, 151, 181, 212, 243, 273, 304, 334, 365] ! m + (if leap \<and> 2 \<le> m then 1 else 0)"

function find_month :: "bool \<Rightarrow> int \<Rightarrow> nat \<Rightarrow> nat" where
  "find_month leap dwy m =
     (if 11 \<le> m then m else if dwy < month_start leap (Suc m) then m else find_month leap dwy (Suc m))"
  by pat_completeness auto
termination by (relation "measure (\<lambda>(leap, dwy, m). 11 - m)") auto

declare find_month.simps [simp del]

definition month_from_time :: "int \<Rightarrow> nat" where
  "month_from_time t = find_month (in_leap_year t) (day_within_year t) 0"

definition date_from_time :: "int \<Rightarrow> int" where
  "date_from_time t = day_within_year t - month_start (in_leap_year t) (month_from_time t) + 1"

definition hour_from_time :: "int \<Rightarrow> int" where
  "hour_from_time t = t div 3600000 mod 24"

definition min_from_time :: "int \<Rightarrow> int" where
  "min_from_time t = t div 60000 mod 60"

definition sec_from_time :: "int \<Rightarrow> int" where
  "sec_from_time t = t div 1000 mod 60"

definition ms_from_time :: "int \<Rightarrow> int" where
  "ms_from_time t = t mod 1000"

subsection \<open>The ISO string\<close>

fun pad_digits :: "nat \<Rightarrow> nat \<Rightarrow> jsstr" where
  "pad_digits k n = (if k = 0 then [] else of_nat (48 + n div 10 ^ (k - 1) mod 10) # pad_digits (k - 1) n)"

declare pad_digits.simps [simp del]

definition year_string :: "int \<Rightarrow> jsstr" where
  "year_string y =
     (if 0 \<le> y \<and> y \<le> 9999 then pad_digits 4 (nat y)
      else (if y < 0 then [0x2D] else [0x2B]) @ pad_digits 6 (nat \<bar>y\<bar>))"

definition to_iso_string :: "int \<Rightarrow> jsstr option" where
  "to_iso_string t =
     (if 8640000000000000 < \<bar>t\<bar> then None
      else Some (year_string (year_from_time t) @ [0x2D] @ pad_digits 2 (Suc (month_from_time t)) @
        [0x2D] @ pad_digits 2 (nat (date_from_time t)) @ [0x54] @ pad_digits 2 (nat (hour_from_time t)) @
        [0x3A] @ pad_digits 2 (nat (min_from_time t)) @ [0x3A] @ pad_digits 2 (nat (sec_from_time t)) @
        [0x2E] @ pad_digits 3 (nat (ms_from_time t)) @ [0x5A]))"

subsection \<open>Reading it back: the Date Time String Format and MakeDate\<close>

definition make_day :: "int \<Rightarrow> nat \<Rightarrow> int \<Rightarrow> int" where
  "make_day y m dt = day_from_year y + month_start (days_in_year y = 366) m + dt - 1"

definition make_time :: "int \<Rightarrow> int \<Rightarrow> int \<Rightarrow> int \<Rightarrow> int" where
  "make_time h mi s ms = h * 3600000 + mi * 60000 + s * 1000 + ms"

definition make_date :: "int \<Rightarrow> int \<Rightarrow> int" where
  "make_date day time = day * 86400000 + time"

definition read_digits :: "nat \<Rightarrow> jsstr \<Rightarrow> (int \<times> jsstr) option" where
  "read_digits k s =
     (if k \<le> length s \<and> list_all is_dec_digit (take k s)
      then Some (int (digits_value 10 (take k s)), drop k s) else None)"

definition read_year :: "jsstr \<Rightarrow> (int \<times> jsstr) option" where
  "read_year s =
     (case s of
        [] \<Rightarrow> None
      | c # r \<Rightarrow> if c = 0x2B then read_digits 6 r
                else if c = 0x2D then map_option (\<lambda>(y, r'). (- y, r')) (read_digits 6 r)
                else read_digits 4 s)"

definition expect :: "code_unit \<Rightarrow> jsstr \<Rightarrow> jsstr option" where
  "expect x s = (case s of [] \<Rightarrow> None | c # r \<Rightarrow> if c = x then Some r else None)"

definition parse_iso :: "jsstr \<Rightarrow> int option" where
  "parse_iso s = do {
     (y, r1) \<leftarrow> read_year s; r2 \<leftarrow> expect 0x2D r1;
     (mo, r3) \<leftarrow> read_digits 2 r2; r4 \<leftarrow> expect 0x2D r3;
     (dt, r5) \<leftarrow> read_digits 2 r4; r6 \<leftarrow> expect 0x54 r5;
     (h, r7) \<leftarrow> read_digits 2 r6; r8 \<leftarrow> expect 0x3A r7;
     (mi, r9) \<leftarrow> read_digits 2 r8; r10 \<leftarrow> expect 0x3A r9;
     (sec, r11) \<leftarrow> read_digits 2 r10; r12 \<leftarrow> expect 0x2E r11;
     (ms, r13) \<leftarrow> read_digits 3 r12; r14 \<leftarrow> expect 0x5A r13;
     if r14 = [] \<and> 1 \<le> mo \<and> mo \<le> 12 \<and> 1 \<le> dt \<and> dt \<le> 31 \<and> h \<le> 23 \<and> mi \<le> 59 \<and> sec \<le> 59
     then Some (make_date (make_day y (nat (mo - 1)) dt) (make_time h mi sec ms)) else None
   }"

lemmas date_eval [js_eval] = to_iso_string_def parse_iso_def read_year_def read_digits_def expect_def
  make_day_def make_time_def make_date_def year_from_time_def year_of_day_def day_of_def
  day_from_year_def month_from_time_def in_leap_year_def days_in_year_def day_within_year_def
  find_month.simps month_start_def date_from_time_def hour_from_time_def min_from_time_def
  sec_from_time_def ms_from_time_def year_string_def pad_digits.simps


subsection \<open>Integer division facts\<close>

lemma mod_div_succ: "x + 1 = ((x::int) mod k + 1) + k * (x div k)"
  using mod_mult_div_eq [of x k] by linarith

lemma div_plus1:
  fixes x k :: int
  assumes k: "0 < k"
  shows "(x + 1) div k = x div k + (if x mod k + 1 = k then 1 else 0)"
proof -
  have kn: "k \<noteq> 0" using k by simp
  have r: "0 \<le> x mod k" "x mod k < k" using k by (simp_all add: pos_mod_sign pos_mod_bound)
  have "(x + 1) div k = ((x mod k + 1) + k * (x div k)) div k"
    using mod_div_succ [of x k] by (rule arg_cong)
  also have "\<dots> = x div k + (x mod k + 1) div k" by (rule div_mult_self2 [OF kn])
  finally have dv: "(x + 1) div k = x div k + (x mod k + 1) div k" .
  show ?thesis
  proof (cases "x mod k + 1 = k")
    case True
    then have "(x mod k + 1) div k = 1" using kn by (simp only: div_self [OF kn])
    then show ?thesis using dv unfolding if_P [OF True] by linarith
  next
    case False
    with r have "0 \<le> x mod k + 1" "x mod k + 1 < k" by linarith+
    then have "(x mod k + 1) div k = 0" by (rule div_pos_pos_trivial)
    then show ?thesis using dv unfolding if_not_P [OF False] by linarith
  qed
qed

lemma mod_plus1_iff:
  fixes x k :: int
  assumes k: "0 < k"
  shows "x mod k + 1 = k \<longleftrightarrow> (x + 1) mod k = 0"
proof -
  have r: "0 \<le> x mod k" "x mod k < k" using k by (simp_all add: pos_mod_sign pos_mod_bound)
  have "(x + 1) mod k = ((x mod k + 1) + k * (x div k)) mod k"
    using mod_div_succ [of x k] by (rule arg_cong)
  also have "\<dots> = (x mod k + 1) mod k" by (rule mod_mult_self2)
  finally have md: "(x + 1) mod k = (x mod k + 1) mod k" .
  show ?thesis
  proof
    assume "x mod k + 1 = k"
    then show "(x + 1) mod k = 0" using md by simp
  next
    assume z: "(x + 1) mod k = 0"
    show "x mod k + 1 = k"
    proof (rule ccontr)
      assume "x mod k + 1 \<noteq> k"
      with r have "0 \<le> x mod k + 1" "x mod k + 1 < k" by linarith+
      then have "(x mod k + 1) mod k = x mod k + 1" by (rule mod_pos_pos_trivial)
      with md z r show False by linarith
    qed
  qed
qed

lemma div_step_year:
  fixes y c k m :: int
  assumes k: "0 < k" and e: "y - c + 1 = y + k * m"
  shows "(y - c + 1) div k = (y - c) div k + (if y mod k = 0 then 1 else 0)"
proof -
  have "(y - c) mod k + 1 = k \<longleftrightarrow> (y - c + 1) mod k = 0" by (rule mod_plus1_iff [OF k])
  also have "(y - c + 1) mod k = y mod k" unfolding e by (rule mod_mult_self2)
  finally have "(y - c) mod k + 1 = k \<longleftrightarrow> y mod k = 0" .
  then show ?thesis using div_plus1 [OF k, of "y - c"] by simp
qed

lemma mod_0_dvd_trans: "(y::int) mod b = 0 \<Longrightarrow> a dvd b \<Longrightarrow> y mod a = 0"
  by (meson dvd_eq_mod_eq_0 dvd_trans)

lemma floor_bounds:
  fixes x k :: int
  assumes "0 < k"
  shows "k * (x div k) \<le> x" and "x < k * (x div k) + k"
proof -
  have "x mod k + k * (x div k) = x" by (rule mod_mult_div_eq)
  moreover have "0 \<le> x mod k" "x mod k < k" using assms by (simp_all add: pos_mod_sign pos_mod_bound)
  ultimately show "k * (x div k) \<le> x" and "x < k * (x div k) + k" by linarith+
qed

lemma le_div_iff_mult: "0 < (k::int) \<Longrightarrow> k * a \<le> t \<longleftrightarrow> a \<le> t div k"
proof -
  assume k: "0 < k"
  note fb = floor_bounds [OF k, of t]
  show ?thesis
  proof
    assume "k * a \<le> t"
    show "a \<le> t div k"
    proof (rule ccontr)
      assume "\<not> a \<le> t div k"
      then have "t div k + 1 \<le> a" by simp
      then have "k * (t div k + 1) \<le> k * a" using k by (simp only: mult_left_mono less_imp_le)
      with fb \<open>k * a \<le> t\<close> show False by (simp add: distrib_left)
    qed
  next
    assume "a \<le> t div k"
    then have "k * a \<le> k * (t div k)" using k by (simp only: mult_left_mono less_imp_le)
    then show "k * a \<le> t" using fb(1) by (rule order_trans)
  qed
qed

subsection \<open>YearFromTime\<close>

text \<open>DayFromYear grows by DaysInYear from one year to the next.\<close>

lemma day_from_year_step: "day_from_year (y + 1) = day_from_year y + days_in_year y"
proof -
  have a: "(y - 1969 + 1) div 4 = (y - 1969) div 4 + (if y mod 4 = 0 then 1 else 0)"
    by (rule div_step_year [where m = "- 492"]) simp_all
  have b: "(y - 1901 + 1) div 100 = (y - 1901) div 100 + (if y mod 100 = 0 then 1 else 0)"
    by (rule div_step_year [where m = "- 19"]) simp_all
  have c: "(y - 1601 + 1) div 400 = (y - 1601) div 400 + (if y mod 400 = 0 then 1 else 0)"
    by (rule div_step_year [where m = "- 4"]) simp_all
  have e: "y + 1 - 1969 = y - 1969 + 1" "y + 1 - 1901 = y - 1901 + 1" "y + 1 - 1601 = y - 1601 + 1"
    by simp_all
  have d: "day_from_year (y + 1) = day_from_year y + 365 + (if y mod 4 = 0 then 1 else 0)
             - (if y mod 100 = 0 then 1 else 0) + (if y mod 400 = 0 then 1 else 0)"
    unfolding day_from_year_def e a b c by simp
  have "(4::int) dvd 100" by (rule dvdI [where k = 25]) simp
  then have m1: "y mod 100 = 0 \<Longrightarrow> y mod 4 = 0" by (rule mod_0_dvd_trans [rotated])
  have "(100::int) dvd 400" by (rule dvdI [where k = 4]) simp
  then have m2: "y mod 400 = 0 \<Longrightarrow> y mod 100 = 0" by (rule mod_0_dvd_trans [rotated])
  show ?thesis using d m1 m2 unfolding days_in_year_def by (simp split: if_splits)
qed

text \<open>\<open>400 * DayFromYear(y)\<close> stays within 600 of \<open>146097 * (y - 1970)\<close>.\<close>

lemma day_from_year_bounds:
  shows "146097 * (y - 1970) - 607 < 400 * day_from_year y"
    and "400 * day_from_year y < 146097 * (y - 1970) + 593"
  using floor_bounds [of 4 "y - 1969"] floor_bounds [of 100 "y - 1901"] floor_bounds [of 400 "y - 1601"]
  unfolding day_from_year_def by simp_all

lemma day_from_year_mono: "y \<le> z \<Longrightarrow> day_from_year y \<le> day_from_year z"
proof (induction z rule: int_ge_induct)
  case (step i)
  then show ?case using day_from_year_step [of i] by (simp add: days_in_year_def)
qed simp

lemma year_of_day_bounds:
  "day_from_year (year_of_day d) \<le> d \<and> d < day_from_year (year_of_day d + 1)"
proof -
  define y where "y = 1970 + (400 * d) div 146097"
  have f: "146097 * (y - 1970) \<le> 400 * d" "400 * d < 146097 * (y - 1970) + 146097"
    using floor_bounds [of 146097 "400 * d"] by (simp_all add: y_def)
  have lo: "day_from_year (y - 1) < d"
    using day_from_year_bounds(2) [of "y - 1"] f by (simp only: right_diff_distrib)
  have hi: "d < day_from_year (y + 2)"
    using day_from_year_bounds(1) [of "y + 2"] f by (simp only: right_diff_distrib distrib_left)
  have e: "y + 1 + 1 = y + 2" "y - 1 + 1 = y" by simp_all
  show ?thesis unfolding year_of_day_def Let_def y_def [symmetric]
    using lo hi by (simp add: e)
qed

lemma year_of_day_spec: "day_from_year y \<le> d \<longleftrightarrow> y \<le> year_of_day d"
proof
  assume le: "day_from_year y \<le> d"
  show "y \<le> year_of_day d"
  proof (rule ccontr)
    assume "\<not> y \<le> year_of_day d"
    then have "year_of_day d + 1 \<le> y" by simp
    then have "day_from_year (year_of_day d + 1) \<le> day_from_year y" by (rule day_from_year_mono)
    with le year_of_day_bounds [of d] show False by simp
  qed
next
  assume "y \<le> year_of_day d"
  then have "day_from_year y \<le> day_from_year (year_of_day d)" by (rule day_from_year_mono)
  with year_of_day_bounds [of d] show "day_from_year y \<le> d" by simp
qed

lemma day_from_year_strict: "y < z \<Longrightarrow> day_from_year y < day_from_year z"
proof -
  assume "y < z"
  then have "y + 1 \<le> z" by simp
  then have "day_from_year (y + 1) \<le> day_from_year z" by (rule day_from_year_mono)
  moreover have "day_from_year y < day_from_year (y + 1)"
    using day_from_year_step [of y] by (simp add: days_in_year_def)
  ultimately show ?thesis by simp
qed

subsection \<open>The month search\<close>

lemma find_month_spec:
  "m \<le> 11 \<Longrightarrow> month_start leap m \<le> dwy \<Longrightarrow>
   find_month leap dwy m \<le> 11 \<and> month_start leap (find_month leap dwy m) \<le> dwy \<and>
   (find_month leap dwy m = 11 \<or> dwy < month_start leap (Suc (find_month leap dwy m)))"
proof (induction leap dwy m rule: find_month.induct)
  case (1 leap dwy m)
  show ?case
  proof (cases "11 \<le> m")
    case False
    show ?thesis
    proof (cases "dwy < month_start leap (Suc m)")
      case False
      with \<open>\<not> 11 \<le> m\<close> "1.IH" [OF \<open>\<not> 11 \<le> m\<close> False] show ?thesis
        by (simp add: find_month.simps [of leap dwy m])
    qed (use 1 \<open>\<not> 11 \<le> m\<close> in \<open>simp add: find_month.simps [of leap dwy m]\<close>)
  next
    case True
    have "find_month leap dwy m = m" using True by (simp add: find_month.simps [of leap dwy m])
    with True 1 show ?thesis by simp
  qed
qed

subsection \<open>Fixed-width decimal digits\<close>

lemma pad_digits_0 [simp]: "pad_digits 0 n = []"
  by (simp add: pad_digits.simps)

lemma pad_digits_Suc: "pad_digits (Suc k) n = of_nat (48 + n div 10 ^ k mod 10) # pad_digits k n"
  by (simp add: pad_digits.simps [of "Suc k"])

lemma length_pad_digits [simp]: "length (pad_digits k n) = k"
  by (induction k) (simp_all add: pad_digits_Suc)

lemma foldl_digits:
  "foldl (\<lambda>acc c. acc * r + digit_value c) a cs =
   a * r ^ length cs + foldl (\<lambda>acc c. acc * r + digit_value c) 0 cs"
proof (induction cs arbitrary: a)
  case (Cons c cs)
  have "foldl (\<lambda>acc c. acc * r + digit_value c) a (c # cs) =
        (a * r + digit_value c) * r ^ length cs + foldl (\<lambda>acc c. acc * r + digit_value c) 0 cs"
    using Cons.IH [of "a * r + digit_value c"] by simp
  moreover have "foldl (\<lambda>acc c. acc * r + digit_value c) 0 (c # cs) =
        digit_value c * r ^ length cs + foldl (\<lambda>acc c. acc * r + digit_value c) 0 cs"
    using Cons.IH [of "digit_value c"] by simp
  ultimately show ?case by (simp add: algebra_simps)
qed simp

lemma digits_value_Cons:
  "digits_value r (c # cs) = digit_value c * r ^ length cs + digits_value r cs"
  unfolding digits_value_def using foldl_digits [of r "digit_value c" cs] by simp

lemma pad_digits_value:
  "digits_value 10 (pad_digits k n) = n mod 10 ^ k \<and> list_all is_dec_digit (pad_digits k n)"
proof (induction k)
  case 0
  then show ?case by (simp add: digits_value_def)
next
  case (Suc k)
  have "n mod 10 ^ Suc k = 10 ^ k * (n div 10 ^ k mod 10) + n mod 10 ^ k"
    using mod_mult2_eq [of n "10 ^ k" 10] by (simp add: mult.commute)
  then show ?case using Suc dec_digit_of [of "n div 10 ^ k mod 10"]
    by (simp add: pad_digits_Suc digits_value_Cons mult.commute)
qed

subsection \<open>When toISOString returns\<close>

lemma to_iso_string_in_range: "\<bar>t\<bar> \<le> 8640000000000000 \<Longrightarrow> \<exists>s. to_iso_string t = Some s"
  by (simp add: to_iso_string_def)

subsection \<open>Printing and parsing invert each other\<close>

lemma read_digits_pad:
  "n < 10 ^ k \<Longrightarrow> read_digits k (pad_digits k n @ rest) = Some (int n, rest)"
  using pad_digits_value [of k n] by (simp add: read_digits_def)

lemma expect_Cons [simp]: "expect x (x # r) = Some r"
  by (simp add: expect_def)

lemma time_split:
  "make_time (hour_from_time t) (min_from_time t) (sec_from_time t) (ms_from_time t) = t mod 86400000"
proof -
  have a: "t mod 60000 = 1000 * (t div 1000 mod 60) + t mod 1000"
    using zmod_zmult2_eq [of 60 t 1000] by simp
  have b: "t mod 3600000 = 60000 * (t div 60000 mod 60) + t mod 60000"
    using zmod_zmult2_eq [of 60 t 60000] by simp
  have c: "t mod 86400000 = 3600000 * (t div 3600000 mod 24) + t mod 3600000"
    using zmod_zmult2_eq [of 24 t 3600000] by simp
  show ?thesis unfolding make_time_def hour_from_time_def min_from_time_def sec_from_time_def
      ms_from_time_def using a b c by linarith
qed

lemma month_start_0 [simp]: "month_start leap 0 = 0"
  by (simp add: month_start_def)

lemma month_start_12: "month_start (days_in_year y = 366) 12 = days_in_year y"
  by (simp add: month_start_def days_in_year_def)

lemma month_lengths: "list_all (\<lambda>m. month_start leap (Suc m) - month_start leap m \<le> 31) [0..<12]"
  by (simp add: month_start_def upt_rec)

lemma month_length: "m \<le> 11 \<Longrightarrow> month_start leap (Suc m) - month_start leap m \<le> 31"
  using month_lengths [of leap] by (simp add: list_all_iff)

lemma day_within_year_bounds: "0 \<le> day_within_year t \<and> day_within_year t < days_in_year (year_from_time t)"
  using year_of_day_bounds [of "day_of t"] day_from_year_step [of "year_from_time t"]
  by (simp add: day_within_year_def year_from_time_def)

lemma month_date_bounds:
  "month_from_time t \<le> 11 \<and> 1 \<le> date_from_time t \<and> date_from_time t \<le> 31"
proof -
  let ?l = "in_leap_year t" and ?w = "day_within_year t" and ?m = "month_from_time t"
  have w: "0 \<le> ?w" "?w < month_start ?l 12"
    using day_within_year_bounds [of t] month_start_12 [of "year_from_time t"]
    by (simp_all add: in_leap_year_def)
  have f: "?m \<le> 11 \<and> month_start ?l ?m \<le> ?w \<and> (?m = 11 \<or> ?w < month_start ?l (Suc ?m))"
    using find_month_spec [of 0 ?l ?w] w(1) by (simp add: month_from_time_def)
  then have "?w < month_start ?l (Suc ?m)" using w(2) by (auto simp: numeral_eq_Suc)
  then show ?thesis using f month_length [of ?m ?l] by (simp add: date_from_time_def)
qed

lemma year_range:
  assumes "\<bar>t\<bar> \<le> 8640000000000000"
  shows "- 1000000 < year_from_time t \<and> year_from_time t < 1000000"
proof -
  let ?d = "day_of t" and ?y = "year_from_time t"
  have d: "86400000 * ?d \<le> t" "t < 86400000 * ?d + 86400000"
    using floor_bounds [of 86400000 t] by (simp_all add: day_of_def)
  have dd: "- 100000001 \<le> ?d" "?d \<le> 100000000" using d assms by linarith+
  have y: "day_from_year ?y \<le> ?d" "?d < day_from_year (?y + 1)"
    using year_of_day_bounds [of ?d] by (simp_all add: year_from_time_def)
  have "?y < 1000000"
    using day_from_year_bounds(1) [of ?y] y(1) dd(2) by (simp only: right_diff_distrib)
  moreover have "- 1000000 < ?y"
    using day_from_year_bounds(2) [of "?y + 1"] y(2) dd(1) by (simp only: right_diff_distrib distrib_left)
  ultimately show ?thesis by simp
qed

lemma read_year_string:
  assumes "- 1000000 < y" "y < 1000000"
  shows "read_year (year_string y @ rest) = Some (y, rest)"
proof (cases "0 \<le> y \<and> y \<le> 9999")
  case True
  define c :: code_unit where "c = of_nat (48 + nat y div 1000 mod 10)"
  have p: "pad_digits 4 (nat y) = c # pad_digits 3 (nat y)"
    by (simp add: pad_digits.simps [of 4] c_def)
  have "is_dec_digit c" using dec_digit_of [of "nat y div 1000 mod 10"] by (simp add: c_def)
  then have c: "c \<noteq> 0x2B" "c \<noteq> 0x2D" by (auto simp: is_dec_digit_def)
  have "nat y < 10 ^ 4" using True by (simp add: nat_less_iff)
  then have "read_digits 4 (pad_digits 4 (nat y) @ rest) = Some (y, rest)"
    using True read_digits_pad [of "nat y" 4 rest] by simp
  then show ?thesis using True c unfolding year_string_def read_year_def p by simp
next
  case False
  have "nat \<bar>y\<bar> < 10 ^ 6" using assms by simp
  then have r: "read_digits 6 (pad_digits 6 (nat \<bar>y\<bar>) @ rest) = Some (\<bar>y\<bar>, rest)"
    using read_digits_pad [of "nat \<bar>y\<bar>" 6 rest] by simp
  show ?thesis
  proof (cases "y < 0")
    case True
    then show ?thesis using False r unfolding year_string_def read_year_def by simp
  next
    case False
    then show ?thesis using \<open>\<not> (0 \<le> y \<and> y \<le> 9999)\<close> r unfolding year_string_def read_year_def by simp
  qed
qed

lemma fields_recompose:
  "make_date (make_day (year_from_time t) (month_from_time t) (date_from_time t))
     (make_time (hour_from_time t) (min_from_time t) (sec_from_time t) (ms_from_time t)) = t"
proof -
  have "make_day (year_from_time t) (month_from_time t) (date_from_time t) = day_of t"
    by (simp add: make_day_def date_from_time_def day_within_year_def in_leap_year_def)
  then show ?thesis unfolding time_split make_date_def day_of_def by simp
qed

lemma read_digits_field:
  "0 \<le> x \<Longrightarrow> x < 10 ^ k \<Longrightarrow> read_digits k (pad_digits k (nat x) @ rest) = Some (x, rest)"
  using read_digits_pad [of "nat x" k rest] by (simp add: nat_less_iff)

text \<open>Every string \<open>toISOString\<close> returns reads back to its time value.\<close>

lemma parse_iso_to_iso_string:
  assumes "to_iso_string t = Some s"
  shows "parse_iso s = Some t"
proof -
  have r: "\<bar>t\<bar> \<le> 8640000000000000" using assms by (simp add: to_iso_string_def split: if_splits)
  have y: "read_year (year_string (year_from_time t) @ rest) = Some (year_from_time t, rest)" for rest
    using year_range [OF r] by (simp add: read_year_string)
  have md: "month_from_time t \<le> 11 \<and> 1 \<le> date_from_time t \<and> date_from_time t \<le> 31"
    by (rule month_date_bounds)
  have mo: "read_digits 2 (pad_digits 2 (Suc (month_from_time t)) @ rest) =
      Some (int (Suc (month_from_time t)), rest)" for rest
    using md read_digits_pad [of "Suc (month_from_time t)" 2 rest] by simp
  have f: "read_digits 2 (pad_digits 2 (nat (date_from_time t)) @ rest) = Some (date_from_time t, rest)"
    "read_digits 2 (pad_digits 2 (nat (hour_from_time t)) @ rest) = Some (hour_from_time t, rest)"
    "read_digits 2 (pad_digits 2 (nat (min_from_time t)) @ rest) = Some (min_from_time t, rest)"
    "read_digits 2 (pad_digits 2 (nat (sec_from_time t)) @ rest) = Some (sec_from_time t, rest)"
    "read_digits 3 (pad_digits 3 (nat (ms_from_time t)) @ rest) = Some (ms_from_time t, rest)" for rest
    using md by (simp_all add: read_digits_field hour_from_time_def min_from_time_def sec_from_time_def
        ms_from_time_def)
  have b: "hour_from_time t \<le> 23" "min_from_time t \<le> 59" "sec_from_time t \<le> 59"
    by (simp_all add: hour_from_time_def min_from_time_def sec_from_time_def)
  have n: "nat (int (Suc (month_from_time t)) - 1) = month_from_time t" by simp
  show ?thesis
    using assms r md b
    by (auto simp: to_iso_string_def parse_iso_def y mo f n fields_recompose simp del: of_nat_Suc)
qed

text \<open>The footer's year brackets the time: \<open>getFullYear\<close> is the year that
  contains the local time value.\<close>

lemma year_from_time_bounds:
  "time_from_year (year_from_time t) \<le> t \<and> t < time_from_year (year_from_time t + 1)"
proof -
  let ?d = "t div 86400000"
  have "day_from_year (year_of_day ?d) \<le> ?d" "?d < day_from_year (year_of_day ?d + 1)"
    using year_of_day_bounds [of ?d] by simp_all
  then have "86400000 * day_from_year (year_of_day ?d) \<le> t"
    "\<not> 86400000 * day_from_year (year_of_day ?d + 1) \<le> t"
    using le_div_iff_mult [of 86400000 _ t] by simp_all
  then show ?thesis by (simp add: time_from_year_def year_from_time_def day_of_def)
qed

text \<open>
  C20: \<open>toISOString\<close> is defined exactly on the time values a Date can hold
  and loses nothing there. For a time value \<open>t\<close> the string is produced and
  reading its fields back with MakeDay, MakeTime and MakeDate gives \<open>t\<close> again
  if and only if \<open>|t| \<le> 8.64 * 10^15\<close>; outside that range it throws a
  RangeError.
\<close>

theorem iso_string_roundtrip:
  "(\<exists>s. to_iso_string t = Some s \<and> parse_iso s = Some t) \<longleftrightarrow> \<bar>t\<bar> \<le> 8640000000000000"
proof
  assume "\<exists>s. to_iso_string t = Some s \<and> parse_iso s = Some t"
  then show "\<bar>t\<bar> \<le> 8640000000000000" by (auto simp: to_iso_string_def split: if_splits)
next
  assume "\<bar>t\<bar> \<le> 8640000000000000"
  then obtain s where "to_iso_string t = Some s" using to_iso_string_in_range by blast
  then show "\<exists>s. to_iso_string t = Some s \<and> parse_iso s = Some t" using parse_iso_to_iso_string by blast
qed

text \<open>
  C21: YearFromTime computes what the spec defines, the largest year \<open>y\<close> with
  \<open>TimeFromYear(y) \<le> t\<close>: the estimate on the 400-year cycle and its
  correction by one year never miss.
\<close>

theorem year_from_time_spec: "time_from_year y \<le> t \<longleftrightarrow> y \<le> year_from_time t"
  unfolding time_from_year_def year_from_time_def day_of_def
  using le_div_iff_mult [of 86400000 "day_from_year y" t] year_of_day_spec [of y "t div 86400000"]
  by simp

subsection \<open>The shape of the string\<close>

lemma year_string_shape:
  "length (year_string y) = 4 \<and> list_all is_dec_digit (year_string y) \<or>
   length (year_string y) = 7 \<and> (hd (year_string y) = 0x2B \<or> hd (year_string y) = 0x2D) \<and>
   list_all is_dec_digit (tl (year_string y))"
  using pad_digits_value [of 4 "nat y"] pad_digits_value [of 6 "nat \<bar>y\<bar>"]
  by (simp add: year_string_def)

text \<open>
  C25: every string \<open>toISOString\<close> returns has the shape of the Date Time
  String Format: a four-digit year or a sign and six digits, then
  \<open>-MM-DDTHH:mm:ss.sssZ\<close> with every field of the stated number of decimal
  digits, so it is 24 or 27 code units long.
\<close>

theorem iso_string_format:
  assumes "to_iso_string t = Some s"
  shows "\<exists>y mo d h mi sc ms.
           s = y @ 0x2D # mo @ 0x2D # d @ 0x54 # h @ 0x3A # mi @ 0x3A # sc @ 0x2E # ms @ [0x5A] \<and>
           (length y = 4 \<and> list_all is_dec_digit y \<or>
            length y = 7 \<and> (hd y = 0x2B \<or> hd y = 0x2D) \<and> list_all is_dec_digit (tl y)) \<and>
           length mo = 2 \<and> length d = 2 \<and> length h = 2 \<and> length mi = 2 \<and> length sc = 2 \<and>
           length ms = 3 \<and> list_all is_dec_digit (mo @ d @ h @ mi @ sc @ ms)"
proof -
  let ?p = "\<lambda>k n. pad_digits k n"
  have s: "s = year_string (year_from_time t) @ 0x2D # ?p 2 (Suc (month_from_time t)) @
      0x2D # ?p 2 (nat (date_from_time t)) @ 0x54 # ?p 2 (nat (hour_from_time t)) @
      0x3A # ?p 2 (nat (min_from_time t)) @ 0x3A # ?p 2 (nat (sec_from_time t)) @
      0x2E # ?p 3 (nat (ms_from_time t)) @ [0x5A]"
    using assms by (simp add: to_iso_string_def split: if_splits)
  have p: "list_all is_dec_digit (pad_digits k n)" for k n using pad_digits_value [of k n] by simp
  have "list_all is_dec_digit (?p 2 (Suc (month_from_time t)) @ ?p 2 (nat (date_from_time t)) @
      ?p 2 (nat (hour_from_time t)) @ ?p 2 (nat (min_from_time t)) @ ?p 2 (nat (sec_from_time t)) @
      ?p 3 (nat (ms_from_time t)))"
    by (simp only: list_all_append p simp_thms)
  with s year_string_shape [of "year_from_time t"] length_pad_digits show ?thesis
    by (intro exI conjI) assumption+
qed

end
