(* ===== verification/Page.thy ===== *)
theory Page
  imports Payload JsDate
begin

text \<open>
  The page controller as a state machine (\<open>main.js\<close> lines 12--190). The
  immediately invoked function looks the elements up once (\<open>page_init\<close>); the
  listeners it registers then react to events (\<open>page_step\<close>): clicks on the
  menu button and the menu's links, submissions of the two forms, completion
  (\<open>onload\<close>) or failure (\<open>onerror\<close>) of each request, time passing, an
  adjustment of the system clock and the expiry of the 6000 ms timers that hide
  the success messages. The state holds
  what the listeners read and write: the class lists of the menu and of the
  success elements, each form's controls and submit button, the requests in
  flight with what their closures captured (the record, the button's label
  before the submission), the pending timers, and the logs of alerts shown,
  requests sent and uncaught exceptions. The browser's guard is explicit: a
  submission started by the user (click or Enter) does not happen while the
  form's submit button is disabled; one started by a script
  (\<open>form.requestSubmit()\<close>) does.
\<close>

subsection \<open>Configuration and state\<close>

definition client_form_url :: jsstr where
  "client_form_url = str ''https://script.google.com/macros/s/AKfycbyGHyJNo_ZHgGuwSJJ53hzOtvhZB4Z2sVMFRvgTA-Wl9N7yD___PpdgNvzMqJFq3uCX/exec''"

definition candidate_form_url :: jsstr where
  "candidate_form_url = str ''https://script.google.com/macros/s/AKfycbxmEqrnZgwa6X8zwl9lIuoiRoiFMSwhZIoRW3DKVmFmwbRykH7qPcYB3X_OMxC70ymQ/exec''"

datatype form_kind = ClientF | CandidateF

record form_ui =
  fu_controls :: "control list"
  fu_button :: "button option"
  fu_success :: "token_list option"

datatype payload = ClientPayload client_record | CandidatePayload candidate_record

text \<open>\<open>xhr.send(JSON.stringify(data))\<close>, lines 122 and 187: the body of a request
  is the JSON text of its record. The receiving side tells the two records apart
  by their property names.\<close>

definition payload_object :: "payload \<Rightarrow> jobject" where
  "payload_object p = (case p of ClientPayload c \<Rightarrow> client_object c | CandidatePayload c \<Rightarrow> candidate_object c)"

definition decode_body :: "jsstr \<Rightarrow> payload option" where
  "decode_body b = do {
     obj \<leftarrow> json_parse b;
     if map fst obj = client_keys then map_option ClientPayload (client_of_object obj)
     else if map fst obj = candidate_keys then map_option CandidatePayload (candidate_of_object obj)
     else None
   }"

record request =
  rq_id :: nat
  rq_form :: form_kind
  rq_url :: jsstr
  rq_payload :: payload
  rq_orig_text :: jsstr

datatype js_error = TypeError | RangeError

definition request_body :: "request \<Rightarrow> jsstr" where
  "request_body r = json_stringify (payload_object (rq_payload r))"

record page =
  pg_year :: "jsstr option"
  pg_menu :: "token_list option"
  pg_menu_links :: nat
  pg_client :: "form_ui option"
  pg_candidate :: "form_ui option"
  pg_pending :: "request list"
  pg_next_id :: nat
  pg_timers :: "(nat \<times> form_kind) list"
  pg_now :: nat
  pg_epoch :: int
  pg_alerts :: "jsstr list"
  pg_sent :: "request list"
  pg_errors :: "js_error list"

definition form_of :: "page \<Rightarrow> form_kind \<Rightarrow> form_ui option" where
  "form_of s k = (case k of ClientF \<Rightarrow> pg_client s | CandidateF \<Rightarrow> pg_candidate s)"

definition update_form :: "form_kind \<Rightarrow> (form_ui \<Rightarrow> form_ui) \<Rightarrow> page \<Rightarrow> page" where
  "update_form k g s =
     (case k of
        ClientF \<Rightarrow> s\<lparr>pg_client := map_option g (pg_client s)\<rparr>
      | CandidateF \<Rightarrow> s\<lparr>pg_candidate := map_option g (pg_candidate s)\<rparr>)"

text \<open>\<open>Date.now()\<close>: the monotonic milliseconds since the load, \<open>pg_now\<close>,
  plus \<open>pg_epoch\<close>, the wall-clock time at the load as later adjusted.\<close>

definition clock :: "page \<Rightarrow> int" where
  "clock s = pg_epoch s + int (pg_now s)"

definition alert :: "jsstr \<Rightarrow> page \<Rightarrow> page" where
  "alert m s = s\<lparr>pg_alerts := pg_alerts s @ [m]\<rparr>"

subsection \<open>Loading the page\<close>

text \<open>
  What \<open>getElementById\<close> finds at load time: each element is present or
  absent (\<open>None\<close>), a present one with the state the page needs. The menu is
  its class list and the number of links inside it; a form is its controls and
  its first \<open>button[type="submit"]\<close>.
\<close>

record document =
  doc_year :: bool
  doc_menu_button :: bool
  doc_menu :: "(token_list \<times> nat) option"
  doc_client_form :: "(control list \<times> button option) option"
  doc_client_success :: "token_list option"
  doc_candidate_form :: "(control list \<times> button option) option"
  doc_candidate_success :: "token_list option"

text \<open>
  The page loads at time value \<open>t0\<close> in a browser whose local time is \<open>tz\<close>
  milliseconds ahead of UTC. \<open>yearEl.textContent = new Date().getFullYear()\<close>
  (line 23): the year of the local time, converted to its decimal string
  (\<open>NaN\<close> when the time is outside the range TimeClip admits). The
  menu listeners exist only when both the button and the menu were found; a
  form's listener only when the form was. \<open>pg_now\<close> counts the milliseconds
  since the load and \<open>pg_epoch\<close> starts at \<open>t0\<close>, so that \<open>Date.now()\<close> is
  \<open>clock s\<close>.
\<close>

definition page_init :: "document \<Rightarrow> int \<Rightarrow> int \<Rightarrow> page" where
  "page_init d t0 tz =
     \<lparr>pg_year = (if doc_year d then Some (if 8640000000000000 < \<bar>t0\<bar> then str ''NaN''
                                           else int_to_string (year_from_time (t0 + tz)))
                else None),
      pg_menu = (if doc_menu_button d then map_option fst (doc_menu d) else None),
      pg_menu_links = (case doc_menu d of Some (_, n) \<Rightarrow> if doc_menu_button d then n else 0 | None \<Rightarrow> 0),
      pg_client = map_option (\<lambda>(cs, b). \<lparr>fu_controls = cs, fu_button = b,
                                          fu_success = doc_client_success d\<rparr>) (doc_client_form d),
      pg_candidate = map_option (\<lambda>(cs, b). \<lparr>fu_controls = cs, fu_button = b,
                                          fu_success = doc_candidate_success d\<rparr>) (doc_candidate_form d),
      pg_pending = [], pg_next_id = 0, pg_timers = [], pg_now = 0, pg_epoch = t0,
      pg_alerts = [], pg_sent = [], pg_errors = []\<rparr>"

subsection \<open>The listeners\<close>

text \<open>Lines 30--32 and 35--37.\<close>

definition menu_button_click :: "page \<Rightarrow> page" where
  "menu_button_click s = s\<lparr>pg_menu := map_option (\<lambda>cl. cl_toggle cl hidden_token) (pg_menu s)\<rparr>"

definition menu_link_click :: "nat \<Rightarrow> page \<Rightarrow> page" where
  "menu_link_click i s =
     (if i < pg_menu_links s
      then s\<lparr>pg_menu := map_option (\<lambda>cl. cl_add cl hidden_token) (pg_menu s)\<rparr> else s)"

text \<open>
  Lines 88--96 and 122 (153--161 and 187 for the candidate form): the submit
  button is looked up (reading \<open>textContent\<close> of \<open>null\<close> throws a
  TypeError), disabled and relabelled, and the request is sent; its closures
  keep the label the button had.
\<close>

definition start_request :: "form_kind \<Rightarrow> jsstr \<Rightarrow> payload \<Rightarrow> form_ui \<Rightarrow> page \<Rightarrow> js_error + page" where
  "start_request k url p f s =
     (case fu_button f of
        None \<Rightarrow> Inl TypeError
      | Some b \<Rightarrow>
          (let r = \<lparr>rq_id = pg_next_id s, rq_form = k, rq_url = url, rq_payload = p,
                    rq_orig_text = btn_text b\<rparr> in
           Inr (update_form k (\<lambda>f. f\<lparr>fu_button :=
                  Some (b\<lparr>btn_disabled := True, btn_text := str ''Submitting...''\<rparr>)\<rparr>)
                 (s\<lparr>pg_pending := pg_pending s @ [r], pg_next_id := Suc (pg_next_id s),
                    pg_sent := pg_sent s @ [r]\<rparr>))))"

text \<open>The client form's listener, lines 45--123. The time stamp of line 75 is
  \<open>new Date().toISOString()\<close> at the time of the submission.\<close>

definition client_submit :: "page \<Rightarrow> js_error + page" where
  "client_submit s =
     (case pg_client s of
        None \<Rightarrow> Inr s
      | Some f \<Rightarrow>
          (let fd = construct_form_data (fu_controls f) in
           case validate_client fd of
             Inl e \<Rightarrow> Inr (alert (validation_message e) s)
           | Inr _ \<Rightarrow>
               (case to_iso_string (clock s) of
                  None \<Rightarrow> Inl RangeError
                | Some ts \<Rightarrow>
                    start_request ClientF client_form_url (ClientPayload (build_client_record ts fd)) f s)))"

text \<open>The candidate form's listener, lines 130--188; its time stamp is line 143.\<close>

definition candidate_submit :: "page \<Rightarrow> js_error + page" where
  "candidate_submit s =
     (case pg_candidate s of
        None \<Rightarrow> Inr s
      | Some f \<Rightarrow>
          (let fd = construct_form_data (fu_controls f) in
           case validate_candidate fd of
             Inl e \<Rightarrow> Inr (alert (validation_message e) s)
           | Inr _ \<Rightarrow>
               (case to_iso_string (clock s) of
                  None \<Rightarrow> Inl RangeError
                | Some ts \<Rightarrow>
                    start_request CandidateF candidate_form_url
                      (CandidatePayload (build_candidate_record ts fd)) f s)))"

definition restore_button :: "form_kind \<Rightarrow> jsstr \<Rightarrow> page \<Rightarrow> page" where
  "restore_button k t s =
     update_form k (\<lambda>f. f\<lparr>fu_button :=
       map_option (\<lambda>b. b\<lparr>btn_disabled := False, btn_text := t\<rparr>) (fu_button f)\<rparr>) s"

definition submit_error_message :: jsstr where
  "submit_error_message = str ''There was an error submitting your form. Please try again.''"

definition network_error_message :: jsstr where
  "network_error_message = str ''Network error. Please check your connection and try again.''"

text \<open>
  \<open>xhr.onload\<close>, lines 98--113 (163--178): on status 200 or 0 the form is
  reset and, if the success element exists, it is shown and a timer to hide it
  is set for 6000 ms later; on any other status an alert; in both cases the
  button is enabled again with the label its closure kept.
\<close>

definition on_load :: "request \<Rightarrow> nat \<Rightarrow> page \<Rightarrow> page" where
  "on_load r status s =
     (let k = rq_form r;
          s1 = (if status = 200 \<or> status = 0 then
                  (let s' = update_form k (\<lambda>f. f\<lparr>fu_controls := form_reset (fu_controls f),
                              fu_success := map_option (\<lambda>cl. cl_remove cl hidden_token)
                                              (fu_success f)\<rparr>) s in
                   case form_of s k of
                     Some f \<Rightarrow> (if fu_success f \<noteq> None
                                then s'\<lparr>pg_timers := pg_timers s' @ [(pg_now s' + 6000, k)]\<rparr>
                                else s')
                   | None \<Rightarrow> s')
                else alert submit_error_message s) in
      restore_button k (rq_orig_text r) s1)"

text \<open>\<open>xhr.onerror\<close>, lines 115--120 (180--185).\<close>

definition on_error :: "request \<Rightarrow> page \<Rightarrow> page" where
  "on_error r s = restore_button (rq_form r) (rq_orig_text r) (alert network_error_message s)"

text \<open>The timer callback of line 105 (170).\<close>

definition hide_success :: "form_kind \<Rightarrow> page \<Rightarrow> page" where
  "hide_success k s =
     update_form k (\<lambda>f. f\<lparr>fu_success := map_option (\<lambda>cl. cl_add cl hidden_token) (fu_success f)\<rparr>) s"

text \<open>The user typing into a form: the \<open>i\<close>-th control gets a new value (no
  control, no change).\<close>

definition set_control :: "form_kind \<Rightarrow> nat \<Rightarrow> jsstr \<Rightarrow> page \<Rightarrow> page" where
  "set_control k i v s =
     update_form k (\<lambda>f. f\<lparr>fu_controls :=
       (if i < length (fu_controls f)
        then (fu_controls f)[i := (fu_controls f ! i)\<lparr>ctl_value := v\<rparr>] else fu_controls f)\<rparr>) s"

subsection \<open>Events\<close>

text \<open>
  \<open>Tick d\<close>: \<open>d\<close> milliseconds pass; timers and \<open>Date.now()\<close> advance
  together. \<open>ClockAdjust d\<close>: the system clock is set forward or back by
  \<open>d\<close> milliseconds (by the user or by time synchronisation); \<open>Date.now()\<close>
  jumps, while the timers, which run on the browser's monotonic clock, do not
  move.
\<close>

datatype submitter = ByUser | ByScript

datatype event =
    MenuButtonClick
  | MenuLinkClick nat
  | Input form_kind nat jsstr
  | Submit form_kind submitter
  | XhrLoad nat nat
  | XhrError nat
  | Tick nat
  | ClockAdjust int
  | TimerFire

text \<open>A user cannot submit through a disabled submit button.\<close>

definition submit_blocked :: "page \<Rightarrow> form_kind \<Rightarrow> submitter \<Rightarrow> bool" where
  "submit_blocked s k who \<longleftrightarrow>
     who = ByUser \<and>
     (case form_of s k of
        Some f \<Rightarrow> (case fu_button f of Some b \<Rightarrow> btn_disabled b | None \<Rightarrow> False)
      | None \<Rightarrow> False)"

definition submit_handler :: "form_kind \<Rightarrow> page \<Rightarrow> js_error + page" where
  "submit_handler k s = (case k of ClientF \<Rightarrow> client_submit s | CandidateF \<Rightarrow> candidate_submit s)"

definition find_pending :: "nat \<Rightarrow> page \<Rightarrow> request option" where
  "find_pending i s = find (\<lambda>r. rq_id r = i) (pg_pending s)"

definition drop_pending :: "nat \<Rightarrow> page \<Rightarrow> page" where
  "drop_pending i s = s\<lparr>pg_pending := filter (\<lambda>r. rq_id r \<noteq> i) (pg_pending s)\<rparr>"

fun page_step :: "page \<Rightarrow> event \<Rightarrow> page" where
  "page_step s MenuButtonClick = menu_button_click s"
| "page_step s (MenuLinkClick i) = menu_link_click i s"
| "page_step s (Input k i v) = set_control k i v s"
| "page_step s (Submit k who) =
     (if submit_blocked s k who then s
      else case submit_handler k s of
             Inl e \<Rightarrow> s\<lparr>pg_errors := pg_errors s @ [e]\<rparr>
           | Inr s' \<Rightarrow> s')"
| "page_step s (XhrLoad i status) =
     (case find_pending i s of None \<Rightarrow> s | Some r \<Rightarrow> on_load r status (drop_pending i s))"
| "page_step s (XhrError i) =
     (case find_pending i s of None \<Rightarrow> s | Some r \<Rightarrow> on_error r (drop_pending i s))"
| "page_step s (Tick d) = s\<lparr>pg_now := pg_now s + d\<rparr>"
| "page_step s (ClockAdjust d) = s\<lparr>pg_epoch := pg_epoch s + d\<rparr>"
| "page_step s TimerFire =
     (case pg_timers s of
        [] \<Rightarrow> s
      | (t, k) # rest \<Rightarrow> if t \<le> pg_now s then hide_success k (s\<lparr>pg_timers := rest\<rparr>) else s)"

definition run :: "page \<Rightarrow> event list \<Rightarrow> page" where
  "run s es = foldl page_step s es"

subsection \<open>Frame lemmas\<close>

text \<open>Which parts of the state each operation leaves alone.\<close>

lemma form_of_update_form [simp]:
  "form_of (update_form k g s) k' = (if k = k' then map_option g (form_of s k') else form_of s k')"
  by (cases k; cases k') (simp_all add: form_of_def update_form_def)

lemma update_form_fields [simp]:
  "pg_pending (update_form k g s) = pg_pending s"
  "pg_sent (update_form k g s) = pg_sent s"
  "pg_next_id (update_form k g s) = pg_next_id s"
  "pg_timers (update_form k g s) = pg_timers s"
  "pg_now (update_form k g s) = pg_now s"
  "pg_alerts (update_form k g s) = pg_alerts s"
  "pg_errors (update_form k g s) = pg_errors s"
  "pg_menu (update_form k g s) = pg_menu s"
  "pg_menu_links (update_form k g s) = pg_menu_links s"
  "pg_epoch (update_form k g s) = pg_epoch s"
  by (cases k; simp add: update_form_def)+

lemma update_form_field_updates [simp]:
  "update_form k g (s\<lparr>pg_pending := p\<rparr>) = (update_form k g s)\<lparr>pg_pending := p\<rparr>"
  "update_form k g (s\<lparr>pg_timers := t\<rparr>) = (update_form k g s)\<lparr>pg_timers := t\<rparr>"
  "update_form k g (s\<lparr>pg_alerts := a\<rparr>) = (update_form k g s)\<lparr>pg_alerts := a\<rparr>"
  by (cases k; simp add: update_form_def)+

lemma form_of_fields [simp]:
  "form_of (s\<lparr>pg_pending := p\<rparr>) k = form_of s k"
  "form_of (s\<lparr>pg_sent := x\<rparr>) k = form_of s k"
  "form_of (s\<lparr>pg_next_id := n\<rparr>) k = form_of s k"
  "form_of (s\<lparr>pg_timers := t\<rparr>) k = form_of s k"
  "form_of (s\<lparr>pg_now := m\<rparr>) k = form_of s k"
  "form_of (s\<lparr>pg_epoch := ep\<rparr>) k = form_of s k"
  "form_of (s\<lparr>pg_alerts := a\<rparr>) k = form_of s k"
  "form_of (s\<lparr>pg_errors := e\<rparr>) k = form_of s k"
  "form_of (s\<lparr>pg_menu := c\<rparr>) k = form_of s k"
  by (cases k; simp add: form_of_def)+

lemma alert_fields [simp]:
  "form_of (alert m s) k = form_of s k"
  "pg_pending (alert m s) = pg_pending s"
  "pg_sent (alert m s) = pg_sent s"
  "pg_next_id (alert m s) = pg_next_id s"
  "pg_timers (alert m s) = pg_timers s"
  "pg_now (alert m s) = pg_now s"
  "pg_alerts (alert m s) = pg_alerts s @ [m]"
  by (simp_all add: alert_def)

lemma restore_button_fields [simp]:
  "pg_pending (restore_button k t s) = pg_pending s"
  "pg_sent (restore_button k t s) = pg_sent s"
  "pg_next_id (restore_button k t s) = pg_next_id s"
  "pg_timers (restore_button k t s) = pg_timers s"
  "pg_now (restore_button k t s) = pg_now s"
  "pg_alerts (restore_button k t s) = pg_alerts s"
  by (simp_all add: restore_button_def)

lemma hide_success_fields [simp]:
  "pg_pending (hide_success k s) = pg_pending s"
  "pg_sent (hide_success k s) = pg_sent s"
  "pg_next_id (hide_success k s) = pg_next_id s"
  "pg_timers (hide_success k s) = pg_timers s"
  "pg_now (hide_success k s) = pg_now s"
  "pg_alerts (hide_success k s) = pg_alerts s"
  by (simp_all add: hide_success_def)

lemma on_load_sent [simp]: "pg_sent (on_load r st s) = pg_sent s"
  by (simp add: on_load_def Let_def split: option.splits)

lemma on_error_sent [simp]: "pg_sent (on_error r s) = pg_sent s"
  by (simp add: on_error_def)

subsection \<open>Requests in flight and submit buttons\<close>

definition pending_for :: "page \<Rightarrow> form_kind \<Rightarrow> request list" where
  "pending_for s k = filter (\<lambda>r. rq_form r = k) (pg_pending s)"

definition button_of :: "page \<Rightarrow> form_kind \<Rightarrow> button option" where
  "button_of s k = Option.bind (form_of s k) fu_button"

definition ids_ok :: "page \<Rightarrow> bool" where
  "ids_ok s \<longleftrightarrow> distinct (map rq_id (pg_pending s)) \<and> (\<forall>r \<in> set (pg_pending s). rq_id r < pg_next_id s)"

definition restored :: "jsstr \<Rightarrow> button \<Rightarrow> button" where
  "restored t b = b\<lparr>btn_disabled := False, btn_text := t\<rparr>"

lemma button_of_update_form_same:
  "(\<And>f. fu_button (g f) = fu_button f) \<Longrightarrow> button_of (update_form k g s) k' = button_of s k'"
  by (cases "form_of s k'") (auto simp: button_of_def)

lemma button_of_fields [simp]:
  "button_of (s\<lparr>pg_pending := p\<rparr>) k = button_of s k"
  "button_of (s\<lparr>pg_timers := t\<rparr>) k = button_of s k"
  "button_of (s\<lparr>pg_now := m\<rparr>) k = button_of s k"
  "button_of (s\<lparr>pg_epoch := ep\<rparr>) k = button_of s k"
  "button_of (s\<lparr>pg_errors := e\<rparr>) k = button_of s k"
  "button_of (s\<lparr>pg_menu := c\<rparr>) k = button_of s k"
  "button_of (alert a s) k = button_of s k"
  by (simp_all add: button_of_def)

lemma button_of_restore [simp]:
  "button_of (restore_button k t s) k' =
     (if k = k' then map_option (restored t) (button_of s k') else button_of s k')"
  by (cases "form_of s k'") (auto simp: button_of_def restore_button_def restored_def [abs_def])

lemma button_of_hide_success [simp]: "button_of (hide_success k s) k' = button_of s k'"
  by (simp add: hide_success_def button_of_update_form_same)

lemma on_load_pending [simp]: "pg_pending (on_load r st s) = pg_pending s"
  by (simp add: on_load_def Let_def split: option.splits)

lemma on_load_next_id [simp]: "pg_next_id (on_load r st s) = pg_next_id s"
  by (simp add: on_load_def Let_def split: option.splits)

lemma button_of_on_load [simp]:
  "button_of (on_load r st s) k =
     (if rq_form r = k then map_option (restored (rq_orig_text r)) (button_of s k) else button_of s k)"
  by (simp add: on_load_def Let_def button_of_update_form_same split: option.splits)

lemma on_error_simps [simp]:
  "pg_pending (on_error r s) = pg_pending s"
  "pg_next_id (on_error r s) = pg_next_id s"
  "button_of (on_error r s) k =
     (if rq_form r = k then map_option (restored (rq_orig_text r)) (button_of s k) else button_of s k)"
  by (simp_all add: on_error_def)

lemma drop_pending_simps [simp]:
  "pending_for (drop_pending i s) k = filter (\<lambda>r. rq_id r \<noteq> i) (pending_for s k)"
  "button_of (drop_pending i s) k = button_of s k"
  "pg_next_id (drop_pending i s) = pg_next_id s"
  by (simp_all add: drop_pending_def pending_for_def conj_commute)

lemma set_control_simps [simp]:
  "pg_pending (set_control k i v s) = pg_pending s"
  "pg_sent (set_control k i v s) = pg_sent s"
  "pg_next_id (set_control k i v s) = pg_next_id s"
  "pg_timers (set_control k i v s) = pg_timers s"
  "pg_now (set_control k i v s) = pg_now s"
  "pg_alerts (set_control k i v s) = pg_alerts s"
  "button_of (set_control k i v s) k' = button_of s k'"
  "pending_for (set_control k i v s) k' = pending_for s k'"
  by (simp_all add: set_control_def button_of_update_form_same pending_for_def)

lemma find_pending_Some:
  "find_pending i s = Some r \<Longrightarrow> r \<in> set (pg_pending s) \<and> rq_id r = i"
  by (auto simp: find_pending_def find_Some_iff)

lemma pending_for_fields [simp]:
  "pending_for (update_form k g s) k' = pending_for s k'"
  "pending_for (s\<lparr>pg_timers := t\<rparr>) k' = pending_for s k'"
  "pending_for (s\<lparr>pg_now := m\<rparr>) k' = pending_for s k'"
  "pending_for (s\<lparr>pg_epoch := ep\<rparr>) k' = pending_for s k'"
  "pending_for (s\<lparr>pg_errors := e\<rparr>) k' = pending_for s k'"
  "pending_for (s\<lparr>pg_menu := c\<rparr>) k' = pending_for s k'"
  "pending_for (alert a s) k' = pending_for s k'"
  "pending_for (hide_success k s) k' = pending_for s k'"
  "pending_for (on_load r st s) k' = pending_for s k'"
  "pending_for (on_error r s) k' = pending_for s k'"
  by (simp_all add: pending_for_def)

text \<open>A request started on form \<open>k\<close>.\<close>

lemma start_request_Inr:
  assumes "start_request k url p f s = Inr s'"
  shows "\<exists>b. fu_button f = Some b \<and>
           pending_for s' k = pending_for s k @
             [\<lparr>rq_id = pg_next_id s, rq_form = k, rq_url = url, rq_payload = p, rq_orig_text = btn_text b\<rparr>] \<and>
           (\<forall>k'. k' \<noteq> k \<longrightarrow> pending_for s' k' = pending_for s k' \<and> button_of s' k' = button_of s k') \<and>
           (form_of s k \<noteq> None \<longrightarrow> button_of s' k = Some (b\<lparr>btn_disabled := True, btn_text := str ''Submitting...''\<rparr>)) \<and>
           pg_pending s' = pg_pending s @
             [\<lparr>rq_id = pg_next_id s, rq_form = k, rq_url = url, rq_payload = p, rq_orig_text = btn_text b\<rparr>] \<and>
           pg_next_id s' = Suc (pg_next_id s)"
  using assms
  by (auto simp: start_request_def Let_def pending_for_def button_of_def split: option.splits)

lemma submit_handler_Inr:
  assumes "submit_handler k s = Inr s'"
  obtains (same) "\<forall>k'. pending_for s' k' = pending_for s k' \<and> button_of s' k' = button_of s k'"
      "pg_pending s' = pg_pending s" "pg_next_id s' = pg_next_id s"
  | (new) b url p where "button_of s k = Some b"
      "pending_for s' k = pending_for s k @
         [\<lparr>rq_id = pg_next_id s, rq_form = k, rq_url = url, rq_payload = p, rq_orig_text = btn_text b\<rparr>]"
      "button_of s' k = Some (b\<lparr>btn_disabled := True, btn_text := str ''Submitting...''\<rparr>)"
      "\<forall>k'. k' \<noteq> k \<longrightarrow> pending_for s' k' = pending_for s k' \<and> button_of s' k' = button_of s k'"
      "pg_pending s' = pg_pending s @
         [\<lparr>rq_id = pg_next_id s, rq_form = k, rq_url = url, rq_payload = p, rq_orig_text = btn_text b\<rparr>]"
      "pg_next_id s' = Suc (pg_next_id s)"
proof (cases k)
  case ClientF
  show ?thesis
  proof (cases "pg_client s")
    case (Some f)
    show ?thesis
    proof (cases "validate_client (construct_form_data (fu_controls f))")
      case (Inr u)
      obtain ts where ts: "to_iso_string (clock s) = Some ts"
        using assms ClientF Some Inr
        by (cases "to_iso_string (clock s)") (simp_all add: submit_handler_def client_submit_def Let_def)
      with assms ClientF Some Inr have sr: "start_request ClientF client_form_url
          (ClientPayload (build_client_record ts (construct_form_data (fu_controls f)))) f s = Inr s'"
        by (simp add: submit_handler_def client_submit_def Let_def)
      from start_request_Inr [OF sr] Some ClientF show ?thesis
        by (auto simp: button_of_def form_of_def intro: new)
    qed (use assms ClientF Some in \<open>auto simp: submit_handler_def client_submit_def Let_def intro: same\<close>)
  qed (use assms ClientF in \<open>auto simp: submit_handler_def client_submit_def intro: same\<close>)
next
  case CandidateF
  show ?thesis
  proof (cases "pg_candidate s")
    case (Some f)
    show ?thesis
    proof (cases "validate_candidate (construct_form_data (fu_controls f))")
      case (Inr u)
      obtain ts where ts: "to_iso_string (clock s) = Some ts"
        using assms CandidateF Some Inr
        by (cases "to_iso_string (clock s)") (simp_all add: submit_handler_def candidate_submit_def Let_def)
      with assms CandidateF Some Inr have sr: "start_request CandidateF candidate_form_url
          (CandidatePayload (build_candidate_record ts (construct_form_data (fu_controls f)))) f s = Inr s'"
        by (simp add: submit_handler_def candidate_submit_def Let_def)
      from start_request_Inr [OF sr] Some CandidateF show ?thesis
        by (auto simp: button_of_def form_of_def intro: new)
    qed (use assms CandidateF Some in \<open>auto simp: submit_handler_def candidate_submit_def Let_def intro: same\<close>)
  qed (use assms CandidateF in \<open>auto simp: submit_handler_def candidate_submit_def intro: same\<close>)
qed

lemma start_request_sent:
  "start_request k url p f s = Inr s' \<Longrightarrow>
   \<exists>r. pg_sent s' = pg_sent s @ [r] \<and> rq_form r = k \<and> rq_url r = url \<and> rq_payload r = p"
  by (auto simp: start_request_def Let_def split: option.splits)

text \<open>Unfolding every operation: evaluates a run on a concrete page.\<close>

lemmas page_eval [js_eval] = page_init_def submit_blocked_def submit_handler_def client_submit_def
  candidate_submit_def start_request_def form_of_def update_form_def on_load_def on_error_def
  restore_button_def alert_def find_pending_def drop_pending_def hide_success_def
  menu_button_click_def menu_link_click_def submit_error_message_def network_error_message_def
  Let_def run_def button_of_def pending_for_def set_control_def clock_def

end
