(* ===== verification/PageInvariants.thy ===== *)
theory PageInvariants
  imports Page
begin

text \<open>
  Invariants of the page state machine, by rule induction over the reachable
  states. \<open>reachable\<close> allows every event, submissions by scripts included;
  \<open>user_reachable\<close> only those a user can cause, where the browser ignores a
  submission through a disabled button. Over all runs, every request ever sent
  carries a record that passed its form's checks, addressed to its form's
  endpoint, and the ids of the requests in flight are distinct. Over user runs,
  each form's submit button is disabled exactly while one request of the form is
  in flight, never more than one is, and an enabled button shows the label it had
  when the page loaded.
\<close>

subsection \<open>Every request sent passed the checks\<close>

definition request_ok :: "request \<Rightarrow> bool" where
  "request_ok r \<longleftrightarrow>
     (case rq_form r of
        ClientF \<Rightarrow> rq_url r = client_form_url \<and> (\<exists>c. rq_payload r = ClientPayload c \<and> client_record_ok c)
      | CandidateF \<Rightarrow> rq_url r = candidate_form_url \<and> (\<exists>c. rq_payload r = CandidatePayload c \<and> candidate_record_ok c))"

lemma client_submit_sent:
  assumes "client_submit s = Inr s'"
  shows "pg_sent s' = pg_sent s \<or> (\<exists>r. pg_sent s' = pg_sent s @ [r] \<and> request_ok r)"
  using assms
  by (auto simp: client_submit_def request_ok_def Let_def split: option.splits sum.splits
      dest!: start_request_sent validate_client_Inr)

lemma candidate_submit_sent:
  assumes "candidate_submit s = Inr s'"
  shows "pg_sent s' = pg_sent s \<or> (\<exists>r. pg_sent s' = pg_sent s @ [r] \<and> request_ok r)"
  using assms
  by (auto simp: candidate_submit_def request_ok_def Let_def split: option.splits sum.splits
      dest!: start_request_sent validate_candidate_Inr)

lemma page_step_sent:
  "pg_sent (page_step s e) = pg_sent s \<or> (\<exists>r. pg_sent (page_step s e) = pg_sent s @ [r] \<and> request_ok r)"
proof (cases e)
  case (Submit k who)
  show ?thesis
  proof (cases "submit_blocked s k who")
    case False
    then show ?thesis using Submit client_submit_sent candidate_submit_sent
      by (cases k) (auto simp: submit_handler_def split: sum.splits)
  qed (simp add: Submit)
qed (auto simp: menu_button_click_def menu_link_click_def drop_pending_def split: option.splits list.splits)

inductive reachable :: "document \<Rightarrow> int \<Rightarrow> int \<Rightarrow> page \<Rightarrow> bool" for d t0 tz where
  init: "reachable d t0 tz (page_init d t0 tz)"
| step: "reachable d t0 tz s \<Longrightarrow> reachable d t0 tz (page_step s e)"

lemma reachable_run: "reachable d t0 tz s \<Longrightarrow> reachable d t0 tz (run s es)"
  by (induction es arbitrary: s) (simp_all add: run_def reachable.step)

text \<open>
  C1: validation strictly precedes dispatch. In every state the page can reach,
  whatever the events (user or script submissions, responses, timers), every
  request it has sent goes to the endpoint of its form and carries a record that
  passed that form's checks: for the client form, the six required fields are
  non-blank strings, the e-mail matches the pattern and the resource count is a
  finite number of at least 1; for the candidate form, the e-mail is empty or
  matches the pattern.
\<close>

theorem reachable_sent_ok: "reachable d t0 tz s \<Longrightarrow> \<forall>r \<in> set (pg_sent s). request_ok r"
proof (induction rule: reachable.induct)
  case init
  then show ?case by (simp add: page_init_def)
next
  case (step s e)
  then show ?case using page_step_sent [of s e] by auto
qed

subsection \<open>Request ids\<close>

lemma ids_ok_step: "ids_ok s \<Longrightarrow> ids_ok (page_step s e)"
proof (cases e)
  case (Submit k who)
  assume ok: "ids_ok s"
  show ?thesis
  proof (cases "submit_blocked s k who")
    case False
    show ?thesis
    proof (cases "submit_handler k s")
      case (Inr s')
      have fresh: "pg_next_id s \<notin> rq_id ` set (pg_pending s)"
        using ok by (auto simp: ids_ok_def)
      from Inr show ?thesis
      proof (cases rule: submit_handler_Inr)
        case same
        with ok False Submit Inr show ?thesis by (simp add: ids_ok_def)
      next
        case (new b url p)
        with ok fresh False Submit Inr show ?thesis by (auto simp: ids_ok_def less_Suc_eq)
      qed
    qed (use ok False Submit in \<open>simp add: ids_ok_def\<close>)
  qed (use ok Submit in simp)
next
  case (XhrLoad i st)
  assume ok: "ids_ok s"
  then show ?thesis using XhrLoad
    by (auto simp: ids_ok_def drop_pending_def distinct_map_filter split: option.splits)
next
  case (XhrError i)
  assume ok: "ids_ok s"
  then show ?thesis using XhrError
    by (auto simp: ids_ok_def drop_pending_def distinct_map_filter split: option.splits)
qed (auto simp: ids_ok_def menu_button_click_def menu_link_click_def split: list.splits)

subsection \<open>Submit buttons in user runs\<close>

definition button_inv :: "jsstr \<Rightarrow> page \<Rightarrow> form_kind \<Rightarrow> bool" where
  "button_inv l s k \<longleftrightarrow>
     (button_of s k = None \<longrightarrow> pending_for s k = []) \<and>
     (\<forall>b. button_of s k = Some b \<longrightarrow>
        (btn_disabled b \<longleftrightarrow> pending_for s k \<noteq> []) \<and> length (pending_for s k) \<le> 1 \<and>
        (\<forall>r \<in> set (pending_for s k). rq_orig_text r = l) \<and>
        (\<not> btn_disabled b \<longrightarrow> btn_text b = l))"

definition user_event :: "event \<Rightarrow> bool" where
  "user_event e \<longleftrightarrow> (case e of Submit k who \<Rightarrow> who = ByUser | _ \<Rightarrow> True)"

lemma button_inv_unchanged:
  "button_inv l s k \<Longrightarrow> button_of s' k = button_of s k \<Longrightarrow> pending_for s' k = pending_for s k \<Longrightarrow>
   button_inv l s' k"
  by (simp add: button_inv_def)

lemma button_inv_submit:
  assumes inv: "button_inv l s k" and nb: "\<not> submit_blocked s k' ByUser"
    and h: "submit_handler k' s = Inr s'"
  shows "button_inv l s' k"
  using h
proof (cases rule: submit_handler_Inr)
  case same
  with inv show ?thesis by (simp add: button_inv_def)
next
  case (new b url p)
  show ?thesis
  proof (cases "k = k'")
    case True
    from nb new(1) have "\<not> btn_disabled b"
      by (auto simp: submit_blocked_def button_of_def split: option.splits)
    with inv new(1) True have "pending_for s k = []" and "btn_text b = l"
      by (auto simp: button_inv_def)
    with new(2,3) True show ?thesis by (simp add: button_inv_def)
  next
    case False
    with inv new(4) show ?thesis by (simp add: button_inv_def)
  qed
qed

lemma button_inv_finish:
  assumes inv: "button_inv l s k" and ids: "ids_ok s" and r: "r \<in> set (pg_pending s)"
    and pk: "pending_for t k = filter (\<lambda>r'. rq_id r' \<noteq> rq_id r) (pending_for s k)"
    and bk: "button_of t k =
      (if rq_form r = k then map_option (restored (rq_orig_text r)) (button_of s k) else button_of s k)"
  shows "button_inv l t k"
proof (cases "rq_form r = k")
  case True
  then have rk: "r \<in> set (pending_for s k)" using r by (simp add: pending_for_def)
  obtain b where b: "button_of s k = Some b"
    using inv rk by (cases "button_of s k") (auto simp: button_inv_def)
  with inv have len: "length (pending_for s k) \<le> 1" and orig: "rq_orig_text r = l"
    using rk by (auto simp: button_inv_def)
  from len rk have "pending_for s k = [r]"
    by (cases "pending_for s k") auto
  with pk have "pending_for t k = []" by simp
  with bk b True orig show ?thesis by (simp add: button_inv_def restored_def)
next
  case False
  have "\<forall>r' \<in> set (pending_for s k). rq_id r' \<noteq> rq_id r"
  proof
    fix r' assume r': "r' \<in> set (pending_for s k)"
    then have "r' \<in> set (pg_pending s)" and "rq_form r' = k" by (auto simp: pending_for_def)
    moreover have "inj_on rq_id (set (pg_pending s))"
      using ids by (simp add: ids_ok_def distinct_map)
    ultimately show "rq_id r' \<noteq> rq_id r"
      using r False by (metis inj_on_eq_iff)
  qed
  then have "pending_for t k = pending_for s k"
    using pk by (simp add: filter_id_conv)
  with inv bk False show ?thesis by (simp add: button_inv_def)
qed

lemma button_inv_step:
  assumes inv: "button_inv l s k" and ids: "ids_ok s" and ue: "user_event e"
  shows "button_inv l (page_step s e) k"
proof (cases e)
  case (Submit k' who)
  with ue have who: "who = ByUser" by (simp add: user_event_def)
  show ?thesis
  proof (cases "submit_blocked s k' who")
    case False
    show ?thesis
    proof (cases "submit_handler k' s")
      case (Inl err)
      with False Submit inv show ?thesis
        by (simp add: button_inv_def pending_for_def)
    next
      case (Inr s')
      with False Submit who show ?thesis
        using button_inv_submit [OF inv] by simp
    qed
  qed (use Submit inv in simp)
next
  case (XhrLoad i st)
  show ?thesis
  proof (cases "find_pending i s")
    case (Some r)
    note f = find_pending_Some [OF Some]
    show ?thesis using XhrLoad Some f
      by (auto intro!: button_inv_finish [OF inv ids])
  qed (use XhrLoad inv in simp)
next
  case (XhrError i)
  show ?thesis
  proof (cases "find_pending i s")
    case (Some r)
    note f = find_pending_Some [OF Some]
    show ?thesis using XhrError Some f
      by (auto intro!: button_inv_finish [OF inv ids])
  qed (use XhrError inv in simp)
next
  case TimerFire
  with inv show ?thesis
    by (auto simp: button_inv_def split: list.splits)
qed (use inv in \<open>auto simp: button_inv_def menu_button_click_def menu_link_click_def
                      pending_for_def\<close>)

definition doc_button :: "document \<Rightarrow> form_kind \<Rightarrow> button option" where
  "doc_button d k =
     Option.bind (case k of ClientF \<Rightarrow> doc_client_form d | CandidateF \<Rightarrow> doc_candidate_form d) snd"

definition doc_label :: "document \<Rightarrow> form_kind \<Rightarrow> jsstr" where
  "doc_label d k = (case doc_button d k of Some b \<Rightarrow> btn_text b | None \<Rightarrow> [])"

definition wf_document :: "document \<Rightarrow> bool" where
  "wf_document d \<longleftrightarrow> (\<forall>k b. doc_button d k = Some b \<longrightarrow> \<not> btn_disabled b)"

lemma button_of_init: "button_of (page_init d t0 tz) k = doc_button d k"
  by (cases k; cases "doc_client_form d"; cases "doc_candidate_form d")
     (auto simp: button_of_def form_of_def page_init_def doc_button_def)

lemma init_pending [simp]: "pg_pending (page_init d t0 tz) = []"
  by (simp add: page_init_def)

lemma button_inv_init: "wf_document d \<Longrightarrow> button_inv (doc_label d k) (page_init d t0 tz) k"
  unfolding button_inv_def button_of_init
  by (auto simp: pending_for_def doc_label_def wf_document_def)

inductive user_reachable :: "document \<Rightarrow> int \<Rightarrow> int \<Rightarrow> page \<Rightarrow> bool" for d t0 tz where
  init: "user_reachable d t0 tz (page_init d t0 tz)"
| step: "user_reachable d t0 tz s \<Longrightarrow> user_event e \<Longrightarrow> user_reachable d t0 tz (page_step s e)"

lemma user_reachable_inv:
  "user_reachable d t0 tz s \<Longrightarrow> wf_document d \<Longrightarrow> ids_ok s \<and> (\<forall>k. button_inv (doc_label d k) s k)"
proof (induction rule: user_reachable.induct)
  case init
  then show ?case by (simp add: ids_ok_def button_inv_init)
next
  case (step s e)
  then show ?case by (simp add: ids_ok_step button_inv_step)
qed

text \<open>
  C2: in every state reached by user actions from a page whose submit buttons
  start enabled, a form's submit button is disabled exactly when a request of
  that form is in flight, at most one such request is in flight, and an enabled
  button shows the label it had when the page loaded.
\<close>

theorem user_submissions_button_consistent:
  assumes "user_reachable d t0 tz s" and "wf_document d" and "button_of s k = Some b"
  shows "(btn_disabled b \<longleftrightarrow> pending_for s k \<noteq> []) \<and> length (pending_for s k) \<le> 1 \<and>
         (\<not> btn_disabled b \<longrightarrow> btn_text b = doc_label d k)"
  using user_reachable_inv [OF assms(1,2)] assms(3) by (auto simp: button_inv_def)

end
