(* ===== verification/PageBehaviour.thy ===== *)
theory PageBehaviour
  imports Page
begin

text \<open>
  The functional behaviour of the listeners on each of their branches, errors
  included: the order of the client checks, the uncaught TypeError when a form
  has no submit button, the three outcomes of a request (success, failed
  status, transport failure), and the submission of an empty candidate form.
\<close>

text \<open>
  C4: the client form's checks, in the order the handler runs them: the first
  blank required field (after trimming) stops it with the required-field error;
  then an e-mail outside the shape \<open>local@domain.tld\<close> stops it with the e-mail
  error; then a resource count that is not a finite number of at least 1 stops
  it with the resource error; otherwise the data passes.
\<close>

theorem validate_client_spec:
  "validate_client fd =
     (if \<exists>n \<in> set client_required_fields. js_trim (or_empty (fd_get fd n)) = [] then Inl MissingRequired
      else if \<not> email_shape (or_empty (fd_get fd (str ''email''))) then Inl InvalidEmail
      else if resources_invalid (number_of (fd_get fd (str ''numResources''))) then Inl InvalidResources
      else Inr ())"
proof (cases "check_required fd client_required_fields")
  case (Inl e)
  then have "e = MissingRequired" by (rule check_required_Inl)
  moreover have "\<exists>n \<in> set client_required_fields. js_trim (or_empty (fd_get fd n)) = []"
    using Inl check_required_Inr_iff [of fd client_required_fields] by auto
  ultimately show ?thesis using Inl by (simp add: validate_client_def)
next
  case (Inr u)
  then have "\<forall>n \<in> set client_required_fields. js_trim (or_empty (fd_get fd n)) \<noteq> []"
    using check_required_Inr_iff [of fd client_required_fields] by simp
  with Inr show ?thesis by (simp add: validate_client_def email_valid_shape)
qed

text \<open>
  C5: if the client form has no submit button, a submission with valid data
  (at a time \<open>toISOString\<close> can print) throws a TypeError at \<open>submitButton.textContent\<close>: nothing is sent, no
  alert is shown, and the only trace is the uncaught exception.
\<close>

theorem submit_without_button:
  assumes "pg_client s = Some f" and "fu_button f = None"
    and "validate_client (construct_form_data (fu_controls f)) = Inr u"
    and "\<bar>clock s\<bar> \<le> 8640000000000000"
  shows "page_step s (Submit ClientF who) = s\<lparr>pg_errors := pg_errors s @ [TypeError]\<rparr>"
proof -
  obtain ts where "to_iso_string (clock s) = Some ts"
    using to_iso_string_in_range [OF assms(4)] by blast
  with assms show ?thesis
    by (simp add: submit_blocked_def submit_handler_def client_submit_def start_request_def
        form_of_def Let_def)
qed

text \<open>
  C26: a submission at a time \<open>toISOString\<close> cannot print throws. When the
  client form's checks pass but the clock is outside the Date range, the
  listener throws a RangeError at line 75, before it touches the button: nothing
  is sent, no alert is shown and the button stays as it was.
\<close>

theorem submit_out_of_range:
  assumes "pg_client s = Some f" and "\<not> submit_blocked s ClientF who"
    and "validate_client (construct_form_data (fu_controls f)) = Inr u"
    and "8640000000000000 < \<bar>clock s\<bar>"
  shows "page_step s (Submit ClientF who) = s\<lparr>pg_errors := pg_errors s @ [RangeError]\<rparr>"
proof -
  have "to_iso_string (clock s) = None" using assms(4) by (simp add: to_iso_string_def)
  with assms(1-3) show ?thesis by (simp add: submit_handler_def client_submit_def Let_def)
qed

text \<open>The form after a successful response: reset, success shown, button restored.\<close>

definition load_success_form :: "request \<Rightarrow> form_ui \<Rightarrow> form_ui" where
  "load_success_form r f =
     f\<lparr>fu_controls := form_reset (fu_controls f),
       fu_success := map_option (\<lambda>cl. cl_remove cl hidden_token) (fu_success f),
       fu_button := map_option (restored (rq_orig_text r)) (fu_button f)\<rparr>"

text \<open>
  C6: a response with status 200 or 0 to a request in flight resets its form,
  shows its success element, re-enables the button with the label its closure
  kept, schedules the hiding of the success element 6000 ms later (if the
  element exists), shows no alert, and removes the request from those in
  flight.
\<close>

theorem xhr_load_success:
  assumes "find_pending i s = Some r" and "form_of s (rq_form r) = Some f" and "st = 200 \<or> st = 0"
  shows "form_of (page_step s (XhrLoad i st)) (rq_form r) = Some (load_success_form r f) \<and>
         pg_pending (page_step s (XhrLoad i st)) = filter (\<lambda>q. rq_id q \<noteq> i) (pg_pending s) \<and>
         pg_timers (page_step s (XhrLoad i st)) =
           pg_timers s @ (if fu_success f = None then [] else [(pg_now s + 6000, rq_form r)]) \<and>
         pg_alerts (page_step s (XhrLoad i st)) = pg_alerts s"
  using assms
  by (cases "rq_form r")
     (auto simp: on_load_def Let_def drop_pending_def load_success_form_def restore_button_def
        restored_def [abs_def] form_of_def update_form_def)

text \<open>
  C7: a response with any other status leaves the form's controls and success
  element as they were (the form is not reset), shows the submission-error
  alert, re-enables the button with its kept label, schedules nothing, and
  removes the request from those in flight.
\<close>

theorem xhr_load_failure:
  assumes "find_pending i s = Some r" and "form_of s (rq_form r) = Some f" and "st \<noteq> 200" and "st \<noteq> 0"
  shows "form_of (page_step s (XhrLoad i st)) (rq_form r) =
           Some (f\<lparr>fu_button := map_option (restored (rq_orig_text r)) (fu_button f)\<rparr>) \<and>
         pg_pending (page_step s (XhrLoad i st)) = filter (\<lambda>q. rq_id q \<noteq> i) (pg_pending s) \<and>
         pg_timers (page_step s (XhrLoad i st)) = pg_timers s \<and>
         pg_alerts (page_step s (XhrLoad i st)) = pg_alerts s @ [submit_error_message]"
  using assms
  by (cases "rq_form r")
     (auto simp: on_load_def Let_def drop_pending_def restore_button_def alert_def
        restored_def [abs_def] form_of_def update_form_def)

text \<open>
  C8: a transport failure does the same as a failed response, with the
  network-error alert.
\<close>

theorem xhr_network_error:
  assumes "find_pending i s = Some r" and "form_of s (rq_form r) = Some f"
  shows "form_of (page_step s (XhrError i)) (rq_form r) =
           Some (f\<lparr>fu_button := map_option (restored (rq_orig_text r)) (fu_button f)\<rparr>) \<and>
         pg_pending (page_step s (XhrError i)) = filter (\<lambda>q. rq_id q \<noteq> i) (pg_pending s) \<and>
         pg_timers (page_step s (XhrError i)) = pg_timers s \<and>
         pg_alerts (page_step s (XhrError i)) = pg_alerts s @ [network_error_message]"
  using assms
  by (cases "rq_form r")
     (auto simp: on_error_def drop_pending_def restore_button_def alert_def
        restored_def [abs_def] form_of_def update_form_def)

lemma or_empty_fd_get_blank:
  "\<forall>c \<in> set cs. ctl_value c = [] \<Longrightarrow> or_empty (fd_get (construct_form_data cs) n) = []"
  by (induction cs) (auto simp: construct_form_data_def)

text \<open>
  C9: a candidate form whose controls are all empty is submitted: a user
  submission through its enabled button sends one request to the candidate
  endpoint whose record has the ISO string of the clock and empty strings in every field.
\<close>

theorem empty_candidate_form_submits:
  assumes f: "pg_candidate s = Some f" and b: "fu_button f = Some b" and en: "\<not> btn_disabled b"
    and blank: "\<forall>c \<in> set (fu_controls f). ctl_value c = []"
    and ts: "to_iso_string (clock s) = Some ts"
  shows "pg_sent (page_step s (Submit CandidateF ByUser)) = pg_sent s @
     [\<lparr>rq_id = pg_next_id s, rq_form = CandidateF, rq_url = candidate_form_url,
       rq_payload = CandidatePayload \<lparr>cd_timestamp = ts, cd_fullName = [], cd_phone = [], cd_email = [],
                                      cd_city = [], cd_primarySkill = [], cd_experienceYears = []\<rparr>,
       rq_orig_text = btn_text b\<rparr>]"
proof -
  note e = or_empty_fd_get_blank [OF blank]
  have v: "validate_candidate (construct_form_data (fu_controls f)) = Inr ()"
    by (simp add: validate_candidate_def e)
  show ?thesis
    using f b en v ts
    by (simp add: submit_blocked_def submit_handler_def candidate_submit_def start_request_def
        form_of_def update_form_def build_candidate_record_def e Let_def)
qed

text \<open>
  C15: a client submission with a blank required field sends nothing: when a
  required field of the client form is missing, empty or only white space, a
  submission the browser lets through only shows the required-field alert, and
  the page is otherwise unchanged (no request, button untouched).
\<close>

theorem blank_required_blocks:
  assumes "pg_client s = Some f" and "\<not> submit_blocked s ClientF who"
    and "n \<in> set client_required_fields"
    and "js_trim (or_empty (fd_get (construct_form_data (fu_controls f)) n)) = []"
  shows "page_step s (Submit ClientF who) = alert (validation_message MissingRequired) s"
  using validate_client_blank [OF assms(3,4)] assms(1,2)
  by (simp add: submit_handler_def client_submit_def Let_def)

text \<open>
  C19: the body of every request decodes to its record. Parsing the JSON text
  \<open>xhr.send\<close> is given (lines 122 and 187) gives back the object literal of the
  listener, and reading its properties by name gives back the record exactly:
  the client's and the candidate's records are told apart by their property
  names, every string survives the escaping, and a client field that was
  \<open>null\<close> stays \<open>null\<close>.
\<close>

theorem request_body_roundtrip: "decode_body (request_body r) = Some (rq_payload r)"
  by (cases "rq_payload r")
     (simp_all add: decode_body_def request_body_def payload_object_def json_parse_stringify
       client_of_object_inverse candidate_of_object_inverse)

subsection \<open>Overlapping submissions\<close>

text \<open>
  C3: the label restoration of lines 111--112 is wrong when submissions
  overlap. In any state where the client form has a submit button, data that
  passes the checks and no request in flight, two submissions started by a
  script (which the disabled button does not stop), followed by the responses
  to the first and then to the second request, whatever their statuses, leave
  no request in flight and the button enabled but labelled
  \<open>Submitting...\<close>: the second listener captured that label as the original.
\<close>

theorem script_submissions_stick_label:
  assumes f: "pg_client s = Some f" and b: "fu_button f = Some b"
    and v: "validate_client (construct_form_data (fu_controls f)) = Inr ()"
    and ts: "to_iso_string (clock s) = Some ts"
    and p: "pg_pending s = []"
  shows "pg_pending (run s [Submit ClientF ByScript, Submit ClientF ByScript,
                            XhrLoad (pg_next_id s) st1, XhrLoad (Suc (pg_next_id s)) st2]) = [] \<and>
         button_of (run s [Submit ClientF ByScript, Submit ClientF ByScript,
                           XhrLoad (pg_next_id s) st1, XhrLoad (Suc (pg_next_id s)) st2]) ClientF =
           Some (b\<lparr>btn_disabled := False, btn_text := str ''Submitting...''\<rparr>)"
proof -
  let ?n = "pg_next_id s"
  let ?s2 = "run s [Submit ClientF ByScript, Submit ClientF ByScript]"
  have ts': "to_iso_string (pg_epoch s + int (pg_now s)) = Some ts" using ts by (simp add: clock_def)
  have "\<exists>r1 r2. pg_pending ?s2 = [r1, r2] \<and> rq_id r1 = ?n \<and> rq_form r1 = ClientF \<and>
          rq_orig_text r1 = btn_text b \<and> rq_id r2 = Suc ?n \<and> rq_form r2 = ClientF \<and>
          rq_orig_text r2 = str ''Submitting...'' \<and>
          button_of ?s2 ClientF = Some (b\<lparr>btn_disabled := True, btn_text := str ''Submitting...''\<rparr>)"
    using f b v ts' p
    by (simp add: run_def submit_blocked_def submit_handler_def client_submit_def start_request_def
        Let_def clock_def form_of_def button_of_def update_form_def)
  then obtain r1 r2 where s2: "pg_pending ?s2 = [r1, r2]" "rq_id r1 = ?n" "rq_form r1 = ClientF"
    "rq_orig_text r1 = btn_text b" "rq_id r2 = Suc ?n" "rq_form r2 = ClientF"
    "rq_orig_text r2 = str ''Submitting...''"
    "button_of ?s2 ClientF = Some (b\<lparr>btn_disabled := True, btn_text := str ''Submitting...''\<rparr>)"
    by blast
  let ?s3 = "page_step ?s2 (XhrLoad ?n st1)"
  have s3: "?s3 = on_load r1 st1 (drop_pending ?n ?s2)" using s2 by (simp add: find_pending_def)
  have p3: "pg_pending ?s3 = [r2]" unfolding s3 using s2 by (simp add: drop_pending_def)
  have b3: "button_of ?s3 ClientF = Some (b\<lparr>btn_disabled := False, btn_text := btn_text b\<rparr>)"
    unfolding s3 using s2 by (simp add: restored_def)
  have s4: "page_step ?s3 (XhrLoad (Suc ?n) st2) = on_load r2 st2 (drop_pending (Suc ?n) ?s3)"
    using p3 s2 by (simp add: find_pending_def)
  have "run s [Submit ClientF ByScript, Submit ClientF ByScript, XhrLoad ?n st1, XhrLoad (Suc ?n) st2] =
      page_step ?s3 (XhrLoad (Suc ?n) st2)" by (simp add: run_def)
  then show ?thesis unfolding s4 using p3 b3 s2 by (simp add: drop_pending_def restored_def)
qed

end
