(* ===== verification/Timers.thy ===== *)
theory Timers
  imports PageInvariants
begin

text \<open>
  The success elements and the timers that hide them (\<open>main.js\<close> lines
  103--106 and 168--171). A response with status 200 or 0 removes \<open>hidden\<close>
  from the form's success element and sets a 6000 ms timer whose callback adds it
  back; the browser runs due timers in the order of their due times. The
  invariant \<open>timers_ok\<close>: the timers are sorted by due time, none is due later
  than 6000 ms from now, and a visible success element has a timer of its form
  pending. From it, the page hides every success element once 6000 ms pass and
  the due timers run.
\<close>

definition success_of :: "page \<Rightarrow> form_kind \<Rightarrow> token_list option" where
  "success_of s k = Option.bind (form_of s k) fu_success"

definition success_visible :: "page \<Rightarrow> form_kind \<Rightarrow> bool" where
  "success_visible s k \<longleftrightarrow> (case success_of s k of Some cl \<Rightarrow> \<not> is_hidden cl | None \<Rightarrow> False)"

definition timers_ok :: "page \<Rightarrow> bool" where
  "timers_ok s \<longleftrightarrow>
     sorted (map fst (pg_timers s)) \<and> list_all (\<lambda>(t, k). t \<le> pg_now s + 6000) (pg_timers s) \<and>
     (\<forall>k. success_visible s k \<longrightarrow> k \<in> snd ` set (pg_timers s))"

text \<open>A document whose success elements start hidden, as the page's markup has them.\<close>

definition doc_success_hidden :: "document \<Rightarrow> bool" where
  "doc_success_hidden d \<longleftrightarrow>
     pred_option is_hidden (doc_client_success d) \<and> pred_option is_hidden (doc_candidate_success d)"

subsection \<open>How each operation moves the success elements and the timers\<close>

lemma success_visible_iff: "success_visible s k \<longleftrightarrow> (\<exists>cl. success_of s k = Some cl \<and> \<not> is_hidden cl)"
  by (simp add: success_visible_def split: option.splits)

lemma success_of_update_form_same:
  "(\<And>f. fu_success (g f) = fu_success f) \<Longrightarrow> success_of (update_form k g s) k' = success_of s k'"
  by (cases "form_of s k'") (auto simp: success_of_def)

lemma success_of_fields [simp]:
  "success_of (s\<lparr>pg_pending := p\<rparr>) k = success_of s k"
  "success_of (s\<lparr>pg_next_id := n\<rparr>) k = success_of s k"
  "success_of (s\<lparr>pg_sent := x\<rparr>) k = success_of s k"
  "success_of (s\<lparr>pg_timers := t\<rparr>) k = success_of s k"
  "success_of (s\<lparr>pg_now := m\<rparr>) k = success_of s k"
  "success_of (s\<lparr>pg_epoch := ep\<rparr>) k = success_of s k"
  "success_of (s\<lparr>pg_errors := e\<rparr>) k = success_of s k"
  "success_of (s\<lparr>pg_menu := c\<rparr>) k = success_of s k"
  "success_of (alert a s) k = success_of s k"
  "success_of (drop_pending i s) k = success_of s k"
  by (simp_all add: success_of_def drop_pending_def)

lemma success_of_restore_set [simp]:
  "success_of (restore_button k' l s) k = success_of s k"
  "success_of (set_control k' i v s) k = success_of s k"
  by (simp_all add: restore_button_def set_control_def success_of_update_form_same)

lemma success_of_hide_success [simp]:
  "success_of (hide_success k s) k' =
     (if k = k' then map_option (\<lambda>cl. cl_add cl hidden_token) (success_of s k') else success_of s k')"
  by (cases "form_of s k'") (auto simp: success_of_def hide_success_def)

lemma success_of_update_form:
  "success_of (update_form k g s) k' =
     (if k = k' then Option.bind (map_option g (form_of s k')) fu_success else success_of s k')"
  by (simp add: success_of_def)

lemma on_load_timers:
  "pg_timers (on_load r st s) =
     pg_timers s @ (if (st = 200 \<or> st = 0) \<and> success_of s (rq_form r) \<noteq> None
                    then [(pg_now s + 6000, rq_form r)] else [])"
  by (cases "form_of s (rq_form r)") (auto simp: on_load_def Let_def success_of_def)

lemma on_load_now [simp]: "pg_now (on_load r st s) = pg_now s"
  by (simp add: on_load_def Let_def split: option.splits)

lemma on_load_success:
  "success_of (on_load r st s) k =
     (if rq_form r = k \<and> (st = 200 \<or> st = 0)
      then map_option (\<lambda>cl. cl_remove cl hidden_token) (success_of s k) else success_of s k)"
  by (cases "form_of s k")
     (auto simp: on_load_def Let_def success_of_update_form split: option.splits,
      auto simp: success_of_def)

lemma on_error_frame [simp]:
  "pg_timers (on_error r s) = pg_timers s" "pg_now (on_error r s) = pg_now s"
  "success_of (on_error r s) k = success_of s k"
  by (simp_all add: on_error_def)

lemma drop_pending_frame [simp]:
  "pg_timers (drop_pending i s) = pg_timers s" "pg_now (drop_pending i s) = pg_now s"
  by (simp_all add: drop_pending_def)

lemma start_request_frame:
  "start_request k url p f s = Inr s' \<Longrightarrow>
   pg_timers s' = pg_timers s \<and> pg_now s' = pg_now s \<and> success_of s' k' = success_of s k'"
proof (cases "fu_button f")
  case (Some b)
  assume "start_request k url p f s = Inr s'"
  with Some show ?thesis
    by (auto simp: start_request_def Let_def success_of_update_form_same)
qed (simp add: start_request_def)

lemma submit_handler_frame:
  "submit_handler k s = Inr s' \<Longrightarrow>
   pg_timers s' = pg_timers s \<and> pg_now s' = pg_now s \<and> success_of s' k' = success_of s k'"
  by (cases k)
     (auto simp: submit_handler_def client_submit_def candidate_submit_def Let_def
      split: option.splits sum.splits dest: start_request_frame)

subsection \<open>The invariant\<close>

lemma timers_ok_frame:
  "timers_ok s \<Longrightarrow> pg_timers t = pg_timers s \<Longrightarrow> pg_now t = pg_now s \<Longrightarrow>
   (\<And>k. success_of t k = success_of s k) \<Longrightarrow> timers_ok t"
  by (simp add: timers_ok_def success_visible_def)

lemma timers_ok_load: "timers_ok s \<Longrightarrow> timers_ok (on_load r st s)"
  by (auto simp: timers_ok_def on_load_timers on_load_success success_visible_iff sorted_append
      list_all_iff)

lemma timers_ok_fire:
  assumes ok: "timers_ok s"
  shows "timers_ok (page_step s TimerFire)"
proof (cases "pg_timers s")
  case (Cons p rest)
  obtain t k where p: "p = (t, k)" by fastforce
  show ?thesis
  proof (cases "t \<le> pg_now s")
    case True
    with Cons p ok show ?thesis by (auto simp: timers_ok_def success_visible_iff is_hidden_def)
  qed (use Cons p ok in simp)
qed (use ok in simp)

lemma timers_ok_step: "timers_ok s \<Longrightarrow> timers_ok (page_step s e)"
proof (cases e)
  case (Submit k who)
  assume ok: "timers_ok s"
  show ?thesis
  proof (cases "submit_handler k s")
    case (Inl err)
    with ok Submit show ?thesis by (auto intro: timers_ok_frame)
  next
    case (Inr s')
    with ok Submit show ?thesis by (auto intro: timers_ok_frame dest: submit_handler_frame)
  qed
next
  case (XhrLoad i st)
  assume ok: "timers_ok s"
  then have "timers_ok (drop_pending i s)" by (auto intro: timers_ok_frame)
  with ok XhrLoad show ?thesis by (simp add: timers_ok_load split: option.splits)
next
  case (XhrError i)
  assume ok: "timers_ok s"
  then have "timers_ok (drop_pending i s)" by (auto intro: timers_ok_frame)
  with XhrError show ?thesis by (auto intro: timers_ok_frame split: option.splits)
next
  case (Tick d)
  assume "timers_ok s"
  with Tick show ?thesis by (auto simp: timers_ok_def success_visible_def list_all_iff)
next
  case TimerFire
  assume "timers_ok s"
  then show ?thesis unfolding TimerFire by (rule timers_ok_fire)
qed (auto simp: menu_button_click_def menu_link_click_def intro: timers_ok_frame)

lemma success_of_init:
  "success_of (page_init d t0 tz) k =
     (case k of ClientF \<Rightarrow> Option.bind (doc_client_form d) (\<lambda>_. doc_client_success d)
              | CandidateF \<Rightarrow> Option.bind (doc_candidate_form d) (\<lambda>_. doc_candidate_success d))"
  by (cases k; cases "doc_client_form d"; cases "doc_candidate_form d")
     (auto simp: success_of_def form_of_def page_init_def)

lemma init_success_hidden:
  "doc_success_hidden d \<Longrightarrow> success_of (page_init d t0 tz) k = Some cl \<Longrightarrow> is_hidden cl"
  by (cases k) (auto simp: success_of_init doc_success_hidden_def bind_eq_Some_conv)

lemma init_timers [simp]: "pg_timers (page_init d t0 tz) = []"
  by (simp add: page_init_def)

lemma timers_ok_init: "doc_success_hidden d \<Longrightarrow> timers_ok (page_init d t0 tz)"
  by (auto simp: timers_ok_def success_visible_iff dest: init_success_hidden)

lemma reachable_timers_ok: "reachable d t0 tz s \<Longrightarrow> doc_success_hidden d \<Longrightarrow> timers_ok s"
  by (induction rule: reachable.induct) (simp_all add: timers_ok_init timers_ok_step)

subsection \<open>Running the due timers\<close>

lemma run_Cons: "run s (e # es) = run (page_step s e) es"
  by (simp add: run_def)

lemma fire_all:
  "timers_ok s \<Longrightarrow> list_all (\<lambda>(t, k). t \<le> pg_now s) (pg_timers s) \<Longrightarrow>
   pg_timers (run s (replicate (length (pg_timers s)) TimerFire)) = [] \<and>
   timers_ok (run s (replicate (length (pg_timers s)) TimerFire))"
proof (induction "pg_timers s" arbitrary: s)
  case Nil
  then show ?case by (simp add: run_def)
next
  case (Cons p rest)
  obtain t k where p: "p = (t, k)" by fastforce
  let ?s1 = "page_step s TimerFire"
  have ts: "pg_timers s = (t, k) # rest" using Cons.hyps(2) p by simp
  with Cons.prems(2) have s1: "?s1 = hide_success k (s\<lparr>pg_timers := rest\<rparr>)" by simp
  have "timers_ok ?s1" using Cons.prems(1) by (rule timers_ok_fire)
  moreover have "pg_timers ?s1 = rest" and "list_all (\<lambda>(t, k). t \<le> pg_now ?s1) rest"
    using ts Cons.prems(2) s1 by simp_all
  ultimately have "pg_timers (run ?s1 (replicate (length rest) TimerFire)) = [] \<and>
      timers_ok (run ?s1 (replicate (length rest) TimerFire))"
    using Cons.hyps(1) [of ?s1] by simp
  then show ?case using ts by (simp add: run_Cons)
qed

lemma no_timers_hidden: "timers_ok s \<Longrightarrow> pg_timers s = [] \<Longrightarrow> \<not> success_visible s k"
  by (auto simp: timers_ok_def)

text \<open>
  C11: every success message auto-hides. In every reachable state of a page whose
  success elements start hidden, once 6000 ms pass and the timers that are due
  fire, one per timer pending, no timer is left and no success element is
  visible.
\<close>

theorem success_eventually_hidden:
  assumes "reachable d t0 tz s" and "doc_success_hidden d"
  shows "let s' = run s (Tick 6000 # replicate (length (pg_timers s)) TimerFire)
         in pg_timers s' = [] \<and> (\<forall>k. \<not> success_visible s' k)"
proof -
  let ?s0 = "page_step s (Tick 6000)"
  have ok: "timers_ok s" using reachable_timers_ok [OF assms] .
  then have "timers_ok ?s0" by (rule timers_ok_step)
  moreover have "pg_timers ?s0 = pg_timers s" by simp
  moreover have "list_all (\<lambda>(t, k). t \<le> pg_now ?s0) (pg_timers ?s0)"
    using ok by (auto simp: timers_ok_def list_all_iff)
  ultimately show ?thesis
    using fire_all [of ?s0] no_timers_hidden by (simp add: run_Cons Let_def)
qed

subsection \<open>Two successes in 6000 ms\<close>

text \<open>
  C12: a success message can disappear well before 6000 ms. The timers are
  never cancelled: if the next timer due is one an earlier success of the same
  form set, due at \<open>t1\<close> less than 6000 ms from now, then a success response
  now shows the message, and when that timer fires at \<open>t1\<close> it hides the
  message, less than 6000 ms after it was shown.
\<close>

theorem success_hidden_early:
  assumes fp: "find_pending i s = Some r" and sc: "success_of s (rq_form r) \<noteq> None"
    and st: "st = 200 \<or> st = 0"
    and tm: "pg_timers s = (t1, rq_form r) # rest" and le: "pg_now s \<le> t1"
    and early: "t1 < pg_now s + 6000"
  shows "success_visible (page_step s (XhrLoad i st)) (rq_form r) \<and>
         \<not> success_visible (run (page_step s (XhrLoad i st)) [Tick (t1 - pg_now s), TimerFire]) (rq_form r) \<and>
         pg_now (run (page_step s (XhrLoad i st)) [Tick (t1 - pg_now s), TimerFire]) <
           pg_now (page_step s (XhrLoad i st)) + 6000"
proof -
  let ?k = "rq_form r" and ?s1 = "page_step s (XhrLoad i st)"
  obtain cl where cl: "success_of s ?k = Some cl" using sc by blast
  have s1: "?s1 = on_load r st (drop_pending i s)" using fp by simp
  have v: "success_of ?s1 ?k = Some (cl_remove cl hidden_token)"
    unfolding s1 using st cl by (simp add: on_load_success)
  have t: "pg_timers ?s1 = (t1, ?k) # rest @ [(pg_now s + 6000, ?k)]" "pg_now ?s1 = pg_now s"
    unfolding s1 using st cl tm by (simp_all add: on_load_timers)
  have "run ?s1 [Tick (t1 - pg_now s), TimerFire] =
      hide_success ?k (?s1\<lparr>pg_now := t1, pg_timers := rest @ [(pg_now s + 6000, ?k)]\<rparr>)"
    using t le by (simp add: run_def)
  with v show ?thesis using t le early by (simp add: success_visible_def is_hidden_def)
qed

end
