(* ===== verification/Timestamps.thy ===== *)
theory Timestamps
  imports PageInvariants
begin

text \<open>
  The time stamps the page sends. Each record carries
  \<open>new Date().toISOString()\<close> taken when its listener ran (lines 75 and 143);
  the page's clock \<open>clock s\<close> is the wall-clock time of the load, as later
  adjusted, plus the milliseconds elapsed since. In every step that sends a
  request, its time stamp is the ISO string of the clock at that moment and
  reads back to it with the Date Time String Format parser. The footer shows
  the year of the local time at the load.
\<close>

definition payload_timestamp :: "payload \<Rightarrow> jsstr" where
  "payload_timestamp p = (case p of ClientPayload c \<Rightarrow> cr_timestamp c | CandidatePayload c \<Rightarrow> cd_timestamp c)"

definition sent_time :: "request \<Rightarrow> int option" where
  "sent_time r = parse_iso (payload_timestamp (rq_payload r))"

text \<open>Request \<open>r\<close> carries the ISO string of the clock of state \<open>s\<close>, and that
  string reads back to the clock.\<close>

definition stamped :: "page \<Rightarrow> request \<Rightarrow> bool" where
  "stamped s r \<longleftrightarrow> to_iso_string (clock s) = Some (payload_timestamp (rq_payload r)) \<and> sent_time r = Some (clock s)"

subsection \<open>A submission stamps its request with the clock\<close>

lemma start_request_stamp:
  assumes "start_request k url p f s = Inr s'" and "to_iso_string (clock s) = Some ts"
    and "payload_timestamp p = ts"
  shows "\<exists>r. pg_sent s' = pg_sent s @ [r] \<and> stamped s r"
proof -
  obtain r where "pg_sent s' = pg_sent s @ [r]" "rq_payload r = p"
    using start_request_sent [OF assms(1)] by blast
  with assms(2,3) parse_iso_to_iso_string show ?thesis by (auto simp: stamped_def sent_time_def)
qed

lemma client_submit_stamp:
  assumes "client_submit s = Inr s'"
  shows "pg_sent s' = pg_sent s \<or> (\<exists>r. pg_sent s' = pg_sent s @ [r] \<and> stamped s r)"
proof (cases "\<exists>f ts. pg_client s = Some f \<and> validate_client (construct_form_data (fu_controls f)) = Inr () \<and>
                    to_iso_string (clock s) = Some ts")
  case True
  then obtain f ts where f: "pg_client s = Some f" "validate_client (construct_form_data (fu_controls f)) = Inr ()"
    and ts: "to_iso_string (clock s) = Some ts" by blast
  with assms have "start_request ClientF client_form_url
      (ClientPayload (build_client_record ts (construct_form_data (fu_controls f)))) f s = Inr s'"
    by (simp add: client_submit_def Let_def)
  from start_request_stamp [OF this ts] show ?thesis
    by (simp add: payload_timestamp_def build_client_record_def)
next
  case False
  with assms show ?thesis by (auto simp: client_submit_def Let_def split: option.splits sum.splits)
qed

lemma candidate_submit_stamp:
  assumes "candidate_submit s = Inr s'"
  shows "pg_sent s' = pg_sent s \<or> (\<exists>r. pg_sent s' = pg_sent s @ [r] \<and> stamped s r)"
proof (cases "\<exists>f ts. pg_candidate s = Some f \<and> validate_candidate (construct_form_data (fu_controls f)) = Inr () \<and>
                    to_iso_string (clock s) = Some ts")
  case True
  then obtain f ts where f: "pg_candidate s = Some f"
    "validate_candidate (construct_form_data (fu_controls f)) = Inr ()"
    and ts: "to_iso_string (clock s) = Some ts" by blast
  with assms have "start_request CandidateF candidate_form_url
      (CandidatePayload (build_candidate_record ts (construct_form_data (fu_controls f)))) f s = Inr s'"
    by (simp add: candidate_submit_def Let_def)
  from start_request_stamp [OF this ts] show ?thesis
    by (simp add: payload_timestamp_def build_candidate_record_def)
next
  case False
  with assms show ?thesis by (auto simp: candidate_submit_def Let_def split: option.splits sum.splits)
qed

lemma page_step_stamp:
  "pg_sent (page_step s e) = pg_sent s \<or>
   (\<exists>r. pg_sent (page_step s e) = pg_sent s @ [r] \<and> stamped s r)"
proof (cases e)
  case (Submit k who)
  then show ?thesis using client_submit_stamp [of s] candidate_submit_stamp [of s]
    by (cases k) (auto simp: submit_handler_def split: sum.splits)
qed (auto simp: menu_button_click_def menu_link_click_def drop_pending_def split: option.splits list.splits)

subsection \<open>The time stamp of each request\<close>

text \<open>
  C23: a request is stamped with the clock at the moment it is sent. Whatever
  the state and the event, a request the step sends carries
  \<open>toISOString\<close> of \<open>Date.now()\<close> in the state the listener ran in, not a
  time taken earlier (at the load, say), and the string reads back to that
  time; this holds however the system clock has been adjusted before.
\<close>

theorem sent_timestamp_is_clock:
  assumes "pg_sent (page_step s e) = pg_sent s @ [r]"
  shows "to_iso_string (clock s) = Some (payload_timestamp (rq_payload r)) \<and> sent_time r = Some (clock s)"
proof -
  from page_step_stamp [of s e] assms have "stamped s r" by auto
  then show ?thesis by (simp add: stamped_def)
qed

subsection \<open>The footer year\<close>

text \<open>
  C22: the footer shows the year of the local time. When the page has the
  \<open>year\<close> element, after loading at a time value \<open>t0\<close> of the Date range with local offset
  \<open>tz\<close> its text is the decimal string of the year \<open>y\<close> whose local time
  span contains the load: \<open>TimeFromYear(y) \<le> t0 + tz < TimeFromYear(y + 1)\<close>.
\<close>

theorem footer_year:
  "doc_year d \<Longrightarrow> \<bar>t0\<bar> \<le> 8640000000000000 \<Longrightarrow>
   \<exists>y. pg_year (page_init d t0 tz) = Some (int_to_string y) \<and>
       time_from_year y \<le> t0 + tz \<and> t0 + tz < time_from_year (y + 1)"
proof -
  assume "doc_year d" "\<bar>t0\<bar> \<le> 8640000000000000"
  then have "pg_year (page_init d t0 tz) = Some (int_to_string (year_from_time (t0 + tz)))"
    by (simp add: page_init_def)
  with year_from_time_bounds [of "t0 + tz"] show ?thesis by blast
qed

end
