(* ===== verification/Scenarios.thy ===== *)
theory Scenarios
  imports PageInvariants PageBehaviour Timers Timestamps
begin

text \<open>
  A concrete page to run the model on: the client form filled in with valid
  data (defaults empty), an empty candidate form, a menu with four links, both
  success messages hidden, each form with an enabled submit button. The
  witnesses of the claims evaluate runs of events on it with \<open>simp\<close>.
\<close>

definition ctl :: "string \<Rightarrow> string \<Rightarrow> control" where
  "ctl n v = \<lparr>ctl_name = str n, ctl_value = str v, ctl_default = []\<rparr>"

definition demo_client_controls :: "control list" where
  "demo_client_controls =
     [ctl ''companyName'' ''Acme Logistics'', ctl ''contactPerson'' ''Ravi'',
      ctl ''email'' ''ravi@acme.in'', ctl ''phone'' ''9876543210'', ctl ''city'' ''Pune'',
      ctl ''manpowerType'' '''', ctl ''numResources'' ''5'', ctl ''duration'' '''',
      ctl ''details'' '''']"

definition demo_candidate_controls :: "control list" where
  "demo_candidate_controls =
     [ctl ''fullName'' '''', ctl ''candidatePhone'' '''', ctl ''candidateEmail'' '''',
      ctl ''candidateCity'' '''', ctl ''primarySkill'' '''', ctl ''experienceYears'' '''']"

definition demo_doc :: document where
  "demo_doc =
     \<lparr>doc_year = True, doc_menu_button = True, doc_menu = Some ([hidden_token], 4),
      doc_client_form =
        Some (demo_client_controls, Some \<lparr>btn_disabled = False, btn_text = str ''Submit''\<rparr>),
      doc_client_success = Some [hidden_token],
      doc_candidate_form =
        Some (demo_candidate_controls, Some \<lparr>btn_disabled = False, btn_text = str ''Register''\<rparr>),
      doc_candidate_success = Some [hidden_token]\<rparr>"

text \<open>
  The page is loaded at 2026-11-09 10:00:00.123 UTC (\<open>Date.now()\<close> is
  \<open>demo_t0\<close>) in a browser whose local time zone is UTC+5:30; \<open>ts0\<close> is
  what \<open>toISOString\<close> prints at that instant.
\<close>

definition demo_t0 :: int where
  "demo_t0 = 1794218400123"

definition demo_tz :: int where
  "demo_tz = 19800000"

definition ts0 :: jsstr where
  "ts0 = str ''2026-11-09T10:00:00.123Z''"

definition nobutton_doc :: document where
  "nobutton_doc = demo_doc\<lparr>doc_client_form := Some (demo_client_controls, None)\<rparr>"

abbreviation demo_s1 :: page where
  "demo_s1 \<equiv> page_step (page_init demo_doc demo_t0 demo_tz) (Submit ClientF ByUser)"

definition refill_client :: "event list" where
  "refill_client =
     [Input ClientF 0 (str ''Acme Logistics''), Input ClientF 1 (str ''Ravi''),
      Input ClientF 2 (str ''ravi@acme.in''), Input ClientF 3 (str ''9876543210''),
      Input ClientF 4 (str ''Pune''), Input ClientF 6 (str ''5'')]"

abbreviation demo_shown :: page where
  "demo_shown \<equiv> run (page_init demo_doc demo_t0 demo_tz) [Submit ClientF ByUser, XhrLoad 0 200]"

text \<open>The client form succeeds at time 0, is filled in again at time 3000 and
  submitted; its second request is in flight.\<close>

abbreviation demo_again :: page where
  "demo_again \<equiv> run (page_init demo_doc demo_t0 demo_tz)
     ([Submit ClientF ByUser, XhrLoad 0 200, Tick 3000] @ refill_client @ [Submit ClientF ByUser])"

definition demo_fd :: "string \<Rightarrow> formdata" where
  "demo_fd x = construct_form_data (demo_client_controls[6 := ctl ''numResources'' x])"

definition blank_doc :: document where
  "blank_doc = demo_doc\<lparr>doc_client_form := Some (demo_client_controls[0 := ctl ''companyName'' ''  ''],
     Some \<lparr>btn_disabled = False, btn_text = str ''Submit''\<rparr>)\<rparr>"

text \<open>Two more load times: one beyond the Date range (\<open>new Date()\<close> is then
  an invalid date) and 2026-12-31T20:00:00Z, which is already 2027 in UTC+5:30.\<close>

definition far_t0 :: int where
  "far_t0 = 8640000000000001"

definition newyear_t0 :: int where
  "newyear_t0 = 1798747200000"

lemmas demo_eval = ctl_def demo_client_controls_def demo_candidate_controls_def demo_doc_def ts0_def demo_t0_def demo_tz_def

lemma wf_demo_doc: "wf_document demo_doc"
  by (auto simp: wf_document_def doc_button_def demo_doc_def split: form_kind.splits)

subsection \<open>Witnesses\<close>

theorem reachable_sent_ok_witness:
  "reachable demo_doc demo_t0 demo_tz (page_step (page_init demo_doc demo_t0 demo_tz) (Submit ClientF ByUser)) \<and>
   pg_sent (page_step (page_init demo_doc demo_t0 demo_tz) (Submit ClientF ByUser)) \<noteq> [] \<and>
   list_all request_ok (pg_sent (page_step (page_init demo_doc demo_t0 demo_tz) (Submit ClientF ByUser)))"
proof -
  have r: "reachable demo_doc demo_t0 demo_tz (page_step (page_init demo_doc demo_t0 demo_tz) (Submit ClientF ByUser))"
    by (rule reachable.step [OF reachable.init])
  have "pg_sent (page_step (page_init demo_doc demo_t0 demo_tz) (Submit ClientF ByUser)) \<noteq> []"
    by (simp add: demo_eval js_eval)
  with r reachable_sent_ok [OF r] show ?thesis by (simp add: list_all_iff)
qed

theorem user_submissions_button_consistent_witness:
  "user_reachable demo_doc demo_t0 demo_tz (page_step (page_init demo_doc demo_t0 demo_tz) (Submit ClientF ByUser)) \<and>
   wf_document demo_doc \<and>
   button_of (page_step (page_init demo_doc demo_t0 demo_tz) (Submit ClientF ByUser)) ClientF =
     Some \<lparr>btn_disabled = True, btn_text = str ''Submitting...''\<rparr> \<and>
   pending_for (page_step (page_init demo_doc demo_t0 demo_tz) (Submit ClientF ByUser)) ClientF \<noteq> [] \<and>
   length (pending_for (page_step (page_init demo_doc demo_t0 demo_tz) (Submit ClientF ByUser)) ClientF) \<le> 1"
proof -
  have r: "user_reachable demo_doc demo_t0 demo_tz (page_step (page_init demo_doc demo_t0 demo_tz) (Submit ClientF ByUser))"
    by (rule user_reachable.step [OF user_reachable.init]) (simp add: user_event_def)
  have b: "button_of (page_step (page_init demo_doc demo_t0 demo_tz) (Submit ClientF ByUser)) ClientF =
     Some \<lparr>btn_disabled = True, btn_text = str ''Submitting...''\<rparr>"
    by (simp add: demo_eval js_eval)
  from user_submissions_button_consistent [OF r wf_demo_doc b] r wf_demo_doc b show ?thesis
    by simp
qed

subsection \<open>Witnesses of the listener behaviour\<close>

theorem submit_without_button_witness:
  "pg_client (page_init nobutton_doc demo_t0 demo_tz) =
     Some \<lparr>fu_controls = demo_client_controls, fu_button = None, fu_success = Some [hidden_token]\<rparr> \<and>
   validate_client (construct_form_data demo_client_controls) = Inr () \<and>
   page_step (page_init nobutton_doc demo_t0 demo_tz) (Submit ClientF ByUser) =
     (page_init nobutton_doc demo_t0 demo_tz)\<lparr>pg_errors := [TypeError]\<rparr>"
proof -
  have c: "pg_client (page_init nobutton_doc demo_t0 demo_tz) =
     Some \<lparr>fu_controls = demo_client_controls, fu_button = None, fu_success = Some [hidden_token]\<rparr>"
    by (simp add: nobutton_doc_def demo_doc_def page_init_def)
  have v: "validate_client (construct_form_data demo_client_controls) = Inr ()"
    by (simp add: demo_eval js_eval)
  have "page_step (page_init nobutton_doc demo_t0 demo_tz) (Submit ClientF ByUser) =
     (page_init nobutton_doc demo_t0 demo_tz)\<lparr>pg_errors := pg_errors (page_init nobutton_doc demo_t0 demo_tz) @ [TypeError]\<rparr>"
    by (rule submit_without_button [OF c, where u = "()"]) (simp_all add: v page_init_def clock_def demo_t0_def)
  with c v show ?thesis by (simp add: page_init_def)
qed

lemma demo_s1_pending: "\<exists>r f. find_pending 0 demo_s1 = Some r \<and> rq_form r = ClientF \<and>
   form_of demo_s1 ClientF = Some f \<and> fu_success f = Some [hidden_token]"
  by (simp add: demo_eval js_eval)

theorem xhr_load_success_witness:
  "\<exists>r f. find_pending 0 demo_s1 = Some r \<and> form_of demo_s1 (rq_form r) = Some f \<and>
     form_of (page_step demo_s1 (XhrLoad 0 200)) (rq_form r) = Some (load_success_form r f) \<and>
     pg_timers (page_step demo_s1 (XhrLoad 0 200)) = [(6000, ClientF)]"
proof -
  obtain r f where r: "find_pending 0 demo_s1 = Some r" "rq_form r = ClientF"
    and f: "form_of demo_s1 ClientF = Some f" "fu_success f = Some [hidden_token]"
    using demo_s1_pending by blast
  have t: "pg_timers demo_s1 = []" "pg_now demo_s1 = 0" by (simp_all add: demo_eval js_eval)
  from xhr_load_success [OF r(1), of f 200] r f t show ?thesis by auto
qed

theorem xhr_load_failure_witness:
  "\<exists>r f. find_pending 0 demo_s1 = Some r \<and> form_of demo_s1 (rq_form r) = Some f \<and>
     form_of (page_step demo_s1 (XhrLoad 0 500)) (rq_form r) =
       Some (f\<lparr>fu_button := map_option (restored (rq_orig_text r)) (fu_button f)\<rparr>) \<and>
     pg_alerts (page_step demo_s1 (XhrLoad 0 500)) = [submit_error_message]"
proof -
  obtain r f where r: "find_pending 0 demo_s1 = Some r" "rq_form r = ClientF"
    and f: "form_of demo_s1 ClientF = Some f"
    using demo_s1_pending by blast
  have a: "pg_alerts demo_s1 = []" by (simp add: demo_eval js_eval)
  from xhr_load_failure [OF r(1), of f 500] r f a show ?thesis by auto
qed

theorem xhr_network_error_witness:
  "\<exists>r f. find_pending 0 demo_s1 = Some r \<and> form_of demo_s1 (rq_form r) = Some f \<and>
     form_of (page_step demo_s1 (XhrError 0)) (rq_form r) =
       Some (f\<lparr>fu_button := map_option (restored (rq_orig_text r)) (fu_button f)\<rparr>) \<and>
     pg_alerts (page_step demo_s1 (XhrError 0)) = [network_error_message]"
proof -
  obtain r f where r: "find_pending 0 demo_s1 = Some r" "rq_form r = ClientF"
    and f: "form_of demo_s1 ClientF = Some f"
    using demo_s1_pending by blast
  have a: "pg_alerts demo_s1 = []" by (simp add: demo_eval js_eval)
  from xhr_network_error [OF r(1), of f] r f a show ?thesis by auto
qed

theorem empty_candidate_form_submits_witness:
  "pg_candidate (page_init demo_doc demo_t0 demo_tz) =
     Some \<lparr>fu_controls = demo_candidate_controls,
           fu_button = Some \<lparr>btn_disabled = False, btn_text = str ''Register''\<rparr>,
           fu_success = Some [hidden_token]\<rparr> \<and>
   list_all (\<lambda>c. ctl_value c = []) demo_candidate_controls \<and>
   length (pg_sent (page_step (page_init demo_doc demo_t0 demo_tz) (Submit CandidateF ByUser))) = 1"
proof -
  have c: "pg_candidate (page_init demo_doc demo_t0 demo_tz) =
     Some \<lparr>fu_controls = demo_candidate_controls,
           fu_button = Some \<lparr>btn_disabled = False, btn_text = str ''Register''\<rparr>,
           fu_success = Some [hidden_token]\<rparr>"
    by (simp add: demo_doc_def page_init_def)
  have e: "\<forall>c \<in> set demo_candidate_controls. ctl_value c = []"
    by (simp add: demo_eval)
  have t: "to_iso_string (clock (page_init demo_doc demo_t0 demo_tz)) = Some ts0"
    by (simp add: demo_eval js_eval)
  have "pg_sent (page_step (page_init demo_doc demo_t0 demo_tz) (Submit CandidateF ByUser)) =
     pg_sent (page_init demo_doc demo_t0 demo_tz) @
     [\<lparr>rq_id = pg_next_id (page_init demo_doc demo_t0 demo_tz), rq_form = CandidateF, rq_url = candidate_form_url,
       rq_payload = CandidatePayload \<lparr>cd_timestamp = ts0, cd_fullName = [], cd_phone = [], cd_email = [],
                                      cd_city = [], cd_primarySkill = [], cd_experienceYears = []\<rparr>,
       rq_orig_text = str ''Register''\<rparr>]"
    using empty_candidate_form_submits [OF c, where b = "\<lparr>btn_disabled = False, btn_text = str ''Register''\<rparr>"
        and ts = ts0] e t by simp
  moreover have "pg_sent (page_init demo_doc demo_t0 demo_tz) = []" by (simp add: page_init_def)
  ultimately show ?thesis using c e by (simp add: list_all_iff)
qed

subsection \<open>Submissions by script\<close>

theorem script_submissions_stick_label_witness:
  "pg_client (page_init demo_doc demo_t0 demo_tz) =
     Some \<lparr>fu_controls = demo_client_controls,
           fu_button = Some \<lparr>btn_disabled = False, btn_text = str ''Submit''\<rparr>,
           fu_success = Some [hidden_token]\<rparr> \<and>
   validate_client (construct_form_data demo_client_controls) = Inr () \<and>
   to_iso_string (clock (page_init demo_doc demo_t0 demo_tz)) = Some ts0 \<and>
   pg_pending (page_init demo_doc demo_t0 demo_tz) = [] \<and>
   pg_next_id (page_init demo_doc demo_t0 demo_tz) = 0 \<and>
   pg_pending (run (page_init demo_doc demo_t0 demo_tz)
     [Submit ClientF ByScript, Submit ClientF ByScript, XhrLoad 0 200, XhrLoad 1 200]) = [] \<and>
   button_of (run (page_init demo_doc demo_t0 demo_tz)
     [Submit ClientF ByScript, Submit ClientF ByScript, XhrLoad 0 200, XhrLoad 1 200]) ClientF
   = Some \<lparr>btn_disabled = False, btn_text = str ''Submitting...''\<rparr>"
proof -
  let ?s = "page_init demo_doc demo_t0 demo_tz"
  have c: "pg_client ?s =
     Some \<lparr>fu_controls = demo_client_controls,
           fu_button = Some \<lparr>btn_disabled = False, btn_text = str ''Submit''\<rparr>,
           fu_success = Some [hidden_token]\<rparr>"
    by (simp add: demo_doc_def page_init_def)
  have v: "validate_client (construct_form_data demo_client_controls) = Inr ()"
    by (simp add: demo_eval js_eval)
  have t: "to_iso_string (clock ?s) = Some ts0" by (simp add: demo_eval js_eval)
  have p: "pg_pending ?s = []" "pg_next_id ?s = 0" by (simp_all add: page_init_def)
  from script_submissions_stick_label [OF c _ _ t p(1), of _ 200 200] v p(2)
  have "pg_pending (run ?s [Submit ClientF ByScript, Submit ClientF ByScript, XhrLoad 0 200, XhrLoad 1 200]) = [] \<and>
     button_of (run ?s [Submit ClientF ByScript, Submit ClientF ByScript, XhrLoad 0 200, XhrLoad 1 200]) ClientF
     = Some \<lparr>btn_disabled = False, btn_text = str ''Submitting...''\<rparr>"
    by simp
  with c v t p show ?thesis by simp
qed

subsection \<open>Witnesses of the success timers\<close>

lemma doc_success_hidden_demo: "doc_success_hidden demo_doc"
  by (simp add: doc_success_hidden_def demo_doc_def is_hidden_def cl_contains_def)

theorem success_eventually_hidden_witness:
  "reachable demo_doc demo_t0 demo_tz demo_shown \<and> doc_success_hidden demo_doc \<and>
   success_visible demo_shown ClientF \<and>
   (let s' = run demo_shown (Tick 6000 # replicate (length (pg_timers demo_shown)) TimerFire)
    in pg_timers s' = [] \<and> (\<forall>k. \<not> success_visible s' k))"
proof -
  have r: "reachable demo_doc demo_t0 demo_tz demo_shown"
    unfolding run_def foldl.simps by (intro reachable.step reachable.init)
  have v: "success_visible demo_shown ClientF"
    by (simp add: demo_eval js_eval success_visible_def success_of_def)
  from r v doc_success_hidden_demo success_eventually_hidden [OF r doc_success_hidden_demo]
  show ?thesis by blast
qed

subsection \<open>Two successes in 6000 ms\<close>

lemma demo_again_pending: "\<exists>r. find_pending 1 demo_again = Some r \<and> rq_form r = ClientF"
  by (simp add: demo_eval js_eval refill_client_def)

theorem success_hidden_early_witness:
  "\<exists>r. find_pending 1 demo_again = Some r \<and> rq_form r = ClientF \<and>
     success_of demo_again ClientF \<noteq> None \<and> pg_timers demo_again = [(6000, ClientF)] \<and>
     pg_now demo_again = 3000 \<and>
     success_visible (page_step demo_again (XhrLoad 1 200)) ClientF \<and>
     \<not> success_visible (run (page_step demo_again (XhrLoad 1 200)) [Tick 3000, TimerFire]) ClientF"
proof -
  obtain r where r: "find_pending 1 demo_again = Some r" "rq_form r = ClientF"
    using demo_again_pending by blast
  have o: "success_of demo_again ClientF \<noteq> None" "pg_timers demo_again = [(6000, ClientF)]"
    "pg_now demo_again = 3000"
    by (simp_all add: demo_eval js_eval refill_client_def success_of_def)
  from success_hidden_early [OF r(1), of 200 6000 "[]"] r o show ?thesis by auto
qed

subsection \<open>Witnesses of the number and blank-field claims\<close>

theorem string_to_number_integer_witness:
  "string_to_number (0x20 # str ''100'') = Fin 100 \<and> string_to_number (0x20 # 0x2D # str ''100'') = Fin (- 100)"
  using string_to_number_integer [of "str ''100''" "[0x20]" "[]"] by (simp add: js_eval)

theorem resources_check_integer_witness:
  "\<not> resources_invalid (number_of (Some (str ''5''))) \<and> resources_invalid (number_of (Some (0x2D # str ''5'')))"
  using resources_check_integer [of "str ''5''" "[]" "[]"] by (simp add: js_eval)

theorem blank_required_blocks_witness:
  "page_step (page_init blank_doc demo_t0 demo_tz) (Submit ClientF ByUser) =
     alert (validation_message MissingRequired) (page_init blank_doc demo_t0 demo_tz) \<and>
   pg_sent (page_step (page_init blank_doc demo_t0 demo_tz) (Submit ClientF ByUser)) = []"
proof -
  let ?s = "page_init blank_doc demo_t0 demo_tz"
  let ?f = "the (pg_client ?s)"
  have c: "pg_client ?s = Some ?f" by (simp add: page_init_def blank_doc_def demo_doc_def)
  have nb: "\<not> submit_blocked ?s ClientF ByUser"
    by (simp add: submit_blocked_def form_of_def page_init_def blank_doc_def)
  have n: "str ''companyName'' \<in> set client_required_fields" by (simp add: client_required_fields_def)
  have b: "js_trim (or_empty (fd_get (construct_form_data (fu_controls ?f)) (str ''companyName''))) = []"
    by (simp add: blank_doc_def demo_eval js_eval page_init_def)
  from blank_required_blocks [OF c nb n b] show ?thesis by (simp add: page_init_def alert_def)
qed

theorem below_one_accepted_witness:
  "list_all is_dec_digit (str ''99999999999999999'') \<and>
   10 ^ 17 \<le> 2 * digits_value 10 (str ''99999999999999999'') \<and>
   digits_value 10 (str ''99999999999999999'') < 10 ^ 17 \<and>
   \<not> resources_invalid (number_of (Some (str ''0.99999999999999999''))) \<and>
   validate_client (demo_fd ''0.99999999999999999'') = Inr () \<and>
   resources_invalid (number_of (Some (str ''0.9999999999999999'')))"
proof -
  have d: "list_all is_dec_digit (str ''99999999999999999'')"
    "digits_value 10 (str ''99999999999999999'') = 99999999999999999"
    "list_all is_dec_digit (str ''9999999999999999'')"
    "digits_value 10 (str ''9999999999999999'') = 9999999999999999"
    by (simp_all add: is_dec_digit_def digits_value_def digit_value_def)
  have l: "length (str ''99999999999999999'') = 17" "length (str ''9999999999999999'') = 16" by simp_all
  have a: "\<not> resources_invalid (number_of (Some (str ''0.99999999999999999'')))"
    using below_one_accepted [of "str ''99999999999999999''"] d l by simp
  have b: "resources_invalid (number_of (Some (str ''0.9999999999999999'')))"
    using below_one_accepted [of "str ''9999999999999999''"] d l by simp
  have v: "validate_client (demo_fd ''0.99999999999999999'') = Inr ()"
    by (simp add: demo_fd_def demo_eval js_eval)
  show ?thesis using a b v d by simp
qed

subsection \<open>Witnesses of the date claims\<close>

theorem iso_string_roundtrip_witness:
  "to_iso_string demo_t0 = Some ts0 \<and> parse_iso ts0 = Some demo_t0 \<and>
   to_iso_string 8640000000000001 = None"
proof -
  have t: "to_iso_string demo_t0 = Some ts0" by (simp add: demo_eval js_eval)
  have "\<bar>demo_t0\<bar> \<le> 8640000000000000" by (simp add: demo_t0_def)
  then obtain s where "to_iso_string demo_t0 = Some s" "parse_iso s = Some demo_t0"
    using iso_string_roundtrip [of demo_t0] by blast
  with t have "parse_iso ts0 = Some demo_t0" by simp
  moreover have "to_iso_string 8640000000000001 = None" by (simp add: to_iso_string_def)
  ultimately show ?thesis using t by simp
qed

theorem footer_year_witness:
  "doc_year demo_doc \<and> \<bar>demo_t0\<bar> \<le> 8640000000000000 \<and> pg_year (page_init demo_doc demo_t0 demo_tz) = Some (str ''2026'') \<and>
   time_from_year 2026 \<le> demo_t0 + demo_tz \<and> demo_t0 + demo_tz < time_from_year 2027"
proof -
  have d: "doc_year demo_doc" by (simp add: demo_doc_def)
  have t: "\<bar>demo_t0\<bar> \<le> 8640000000000000" by (simp add: demo_t0_def)
  have p: "pg_year (page_init demo_doc demo_t0 demo_tz) = Some (str ''2026'')"
    by (simp add: demo_eval js_eval)
  obtain y where "pg_year (page_init demo_doc demo_t0 demo_tz) = Some (int_to_string y)"
    and b: "time_from_year y \<le> demo_t0 + demo_tz" "demo_t0 + demo_tz < time_from_year (y + 1)"
    using footer_year [OF d t] by blast
  with p have "int_to_string y = str ''2026''" by simp
  then have y: "0 \<le> y" "nat_to_string (nat y) = str ''2026''"
    using int_to_string_cases [of y] by auto
  then have "nat y = digits_value 10 (str ''2026'')" using nat_to_string_digits [of "nat y"] by simp
  then have "nat y = 2026" by (simp add: js_eval)
  with y(1) have "y = 2026" by simp
  then show ?thesis using d t p b by simp
qed

theorem sent_timestamp_is_clock_witness:
  "\<exists>r. pg_sent (page_step (run (page_init demo_doc demo_t0 demo_tz) [Tick 3000, ClockAdjust (- 60000)])
          (Submit ClientF ByUser)) =
        pg_sent (run (page_init demo_doc demo_t0 demo_tz) [Tick 3000, ClockAdjust (- 60000)]) @ [r] \<and>
      payload_timestamp (rq_payload r) = str ''2026-11-09T09:59:03.123Z'' \<and>
      sent_time r = Some (demo_t0 - 57000)"
proof -
  let ?s = "run (page_init demo_doc demo_t0 demo_tz) [Tick 3000, ClockAdjust (- 60000)]"
  have "\<exists>r. pg_sent (page_step ?s (Submit ClientF ByUser)) = pg_sent ?s @ [r]"
    by (simp add: demo_eval js_eval)
  then obtain r where r: "pg_sent (page_step ?s (Submit ClientF ByUser)) = pg_sent ?s @ [r]" by blast
  have c: "clock ?s = demo_t0 - 57000" by (simp add: demo_eval js_eval)
  have i: "to_iso_string (demo_t0 - 57000) = Some (str ''2026-11-09T09:59:03.123Z'')"
    by (simp add: demo_eval js_eval)
  from sent_timestamp_is_clock [OF r] c i r show ?thesis by auto
qed

theorem int_to_string_roundtrip_witness:
  "int_to_string 2026 = str ''2026'' \<and> string_to_number (str ''2026'') = Fin 2026 \<and>
   int_to_string (- 45) = str ''-45'' \<and> string_to_number (str ''-45'') = Fin (- 45)"
proof -
  have a: "int_to_string 2026 = str ''2026''" "int_to_string (- 45) = str ''-45''"
    by (simp_all add: js_eval)
  have "string_to_number (int_to_string 2026) = Fin 2026"
    using int_to_string_roundtrip [of 2026] by simp
  moreover have "string_to_number (int_to_string (- 45)) = Fin (- 45)"
    using int_to_string_roundtrip [of "- 45"] by simp
  ultimately show ?thesis using a by simp
qed

theorem iso_string_format_witness:
  "to_iso_string demo_t0 = Some ts0 \<and>
   (\<exists>y mo d h mi sc ms.
      ts0 = y @ 0x2D # mo @ 0x2D # d @ 0x54 # h @ 0x3A # mi @ 0x3A # sc @ 0x2E # ms @ [0x5A] \<and>
      (length y = 4 \<and> list_all is_dec_digit y \<or>
       length y = 7 \<and> (hd y = 0x2B \<or> hd y = 0x2D) \<and> list_all is_dec_digit (tl y)) \<and>
      length mo = 2 \<and> length d = 2 \<and> length h = 2 \<and> length mi = 2 \<and> length sc = 2 \<and>
      length ms = 3 \<and> list_all is_dec_digit (mo @ d @ h @ mi @ sc @ ms))"
proof -
  have t: "to_iso_string demo_t0 = Some ts0" by (simp add: demo_eval js_eval)
  then show ?thesis using iso_string_format [OF t] by (rule conjI)
qed

theorem submit_out_of_range_witness:
  "pg_client (page_init demo_doc far_t0 demo_tz) =
     Some \<lparr>fu_controls = demo_client_controls,
           fu_button = Some \<lparr>btn_disabled = False, btn_text = str ''Submit''\<rparr>,
           fu_success = Some [hidden_token]\<rparr> \<and>
   validate_client (construct_form_data demo_client_controls) = Inr () \<and>
   clock (page_init demo_doc far_t0 demo_tz) = 8640000000000001 \<and>
   page_step (page_init demo_doc far_t0 demo_tz) (Submit ClientF ByUser) =
     (page_init demo_doc far_t0 demo_tz)\<lparr>pg_errors := [RangeError]\<rparr>"
proof -
  have c: "pg_client (page_init demo_doc far_t0 demo_tz) =
     Some \<lparr>fu_controls = demo_client_controls,
           fu_button = Some \<lparr>btn_disabled = False, btn_text = str ''Submit''\<rparr>,
           fu_success = Some [hidden_token]\<rparr>"
    by (simp add: demo_doc_def page_init_def)
  have v: "validate_client (construct_form_data demo_client_controls) = Inr ()"
    by (simp add: demo_eval js_eval)
  have k: "clock (page_init demo_doc far_t0 demo_tz) = 8640000000000001"
    by (simp add: clock_def page_init_def far_t0_def)
  have "page_step (page_init demo_doc far_t0 demo_tz) (Submit ClientF ByUser) =
     (page_init demo_doc far_t0 demo_tz)\<lparr>pg_errors := pg_errors (page_init demo_doc far_t0 demo_tz) @ [RangeError]\<rparr>"
    by (rule submit_out_of_range [OF c, where u = "()"])
      (simp_all add: v k submit_blocked_def form_of_def c)
  with c v k show ?thesis by (simp add: page_init_def)
qed

subsection \<open>The footer year and the time stamp around New Year\<close>

text \<open>
  The footer year and the time stamps use different clocks. A page loaded
  at 2026-12-31T20:00:00Z in UTC+5:30 shows 2027 in the footer, while a
  submission at that moment sends the time stamp
  \<open>2026-12-31T20:00:00.000Z\<close>: \<open>getFullYear\<close> reads the local time and
  \<open>toISOString\<close> UTC.
\<close>

lemma new_year_footer_utc_stamp:
  "pg_year (page_init demo_doc newyear_t0 demo_tz) = Some (str ''2027'') \<and>
   map (\<lambda>r. payload_timestamp (rq_payload r))
     (pg_sent (page_step (page_init demo_doc newyear_t0 demo_tz) (Submit ClientF ByUser))) =
   [str ''2026-12-31T20:00:00.000Z'']"
  by (simp add: demo_eval js_eval payload_timestamp_def newyear_t0_def)

end
