(* ===== verification/Spec2Isabelle.thy ===== *)
theory Spec2Isabelle
  imports Scenarios
begin

text \<open>
  \<^bold>\<open>Verification development of \<open>src/assets/js/main.js\<close>\<close>, the page
  controller of the LMGD Logistics site. At load time the script looks up its
  elements by id, writes the year into the footer, wires the mobile menu and
  registers one submit listener on each of the two intake forms. A submit
  listener reads the form through \<open>FormData\<close>, validates it (the client form:
  six required fields, an e-mail regular expression, \<open>Number(numResources) >= 1\<close>;
  the candidate form: the e-mail pattern when the e-mail is non-empty), builds
  the record (its \<open>timestamp\<close> is \<open>new Date().toISOString()\<close>), disables
  and relabels the submit button, and POSTs \<open>JSON.stringify\<close> of the record
  with an \<open>XMLHttpRequest\<close>. The request's \<open>onload\<close> resets the form, shows the
  success element and sets a 6000 ms timer to hide it (status 200 or 0), or
  alerts (any other status); \<open>onerror\<close> alerts; both re-enable the button
  with the label it had when the listener ran.

  \<^bold>\<open>Theories.\<close>
  \<^item> \<open>Prelude\<close>: JavaScript strings as lists of UTF-16 code units
    (\<open>16 word list\<close>), \<open>str\<close> for literals, the \<open>js_eval\<close> collection of the
    equations that evaluate a concrete run, and list lemmas shared below.
  \<^item> \<open>JsString\<close>: \<open>String.prototype.trim\<close> (line 52) with ECMAScript's
    WhiteSpace and LineTerminator code points; \<open>js_trim\<close> strips exactly the
    longest white space prefix and suffix.
  \<^item> \<open>Dom\<close>: DOMTokenList \<open>add\<close>/\<open>remove\<close>/\<open>toggle\<close> (lines 31, 36, 104, 105),
    the FormData entry list and \<open>get\<close> (lines 47, 52), \<open>x || ''\<close>,
    \<open>form.reset()\<close> (line 102), submit buttons.
  \<^item> \<open>Regex\<close>: the e-mail test of line 61. The pattern
    \<open>/^[^\s@]+@[^\s@]+\.[^\s@]+$/\<close> is a term of a small regular expression
    language (assertions, class atoms, greedy \<open>+\<close>); \<open>bt\<close>/\<open>greedy\<close> are the
    backtracking matcher of the ECMAScript semantics and \<open>scan\<close> the start index
    loop of RegExpBuiltinExec. C10 proves the matcher equal to the declarative
    language \<open>sem\<close>; from it the test accepts exactly the strings
    \<open>local@domain.tld\<close> with non-empty, white-space- and \<open>@\<close>-free parts
    (C17).
  \<^item> \<open>JsNumber\<close>: \<open>Number(string)\<close> of line 67, i.e. StringToNumber: trimming,
    the StringNumericLiteral grammar (decimal with fraction and exponent,
    \<open>Infinity\<close>, \<open>0x\<close>/\<open>0o\<close>/\<open>0b\<close> literals, the empty string as 0), exact
    rational value, then round-half-even to binary64 with overflow to
    infinity; \<open>Number.isFinite\<close> and \<open><\<close> on the result (line 68).
    Integers below \<open>2^53\<close> convert exactly (C13) and so do decimal strings of
    integers (C24); a count \<open>0.d...d\<close> of value at least one half passes the
    check exactly when it is at least \<open>1 - 2^-54\<close>, below 1 included (C16).
  \<^item> \<open>Json\<close>: \<open>JSON.stringify\<close> of a flat object of strings and
    \<open>null\<close> (SerializeJSONObject, QuoteJSONString of ES2019: lone surrogates
    are escaped) and a \<open>JSON.parse\<close> of the same grammar as the receiver's
    side; the text is well-formed UTF-16 with no control characters (C18).
  \<^item> \<open>JsDate\<close>: the ECMA-262 time value functions behind
    \<open>new Date().getFullYear()\<close> (line 23) and \<open>toISOString()\<close> (lines 75,
    143): DayFromYear, an executable YearFromTime proved to be the
    specification's largest year with \<open>TimeFromYear(y) \<le> t\<close> (C21), the month
    search, the zero-padded fields, the RangeError outside \<open>|t| \<le> 8.64e15\<close>;
    the Date Time String Format parser with MakeDay/MakeTime/MakeDate reads
    every string back to its time value (C20); every string has the Date Time
    String Format shape (C25).
  \<^item> \<open>ClientForm\<close>, \<open>CandidateForm\<close>: the pure part of the two listeners (lines
    47--85, 132--150): the checks as \<open>validation_error + unit\<close>, with the alert
    each error shows, and the record sent; the resource check on integer
    counts (C14) and on counts below 1 (C16).
  \<^item> \<open>Payload\<close>: the two records as the JSON objects of lines 74--85 and
    142--150 (keys in literal order, \<open>formData.get\<close> results as strings or
    \<open>null\<close>) and the receiver's decoding of them by key.
  \<^item> \<open>Page\<close>: the page as a state machine. The state \<open>page\<close> holds what the
    closures of the IIFE hold: the menu's classes, each form's controls, submit
    button and success element, the requests in flight with what their
    closures captured (record, button label), the pending timers, the clock
    (\<open>pg_epoch\<close>, the wall-clock time of the load as later adjusted, plus
    \<open>pg_now\<close>, the monotonic milliseconds since: \<open>clock\<close> is \<open>Date.now()\<close>),
    and the logs of alerts, requests sent and uncaught
    exceptions. \<open>page_init d t0 tz\<close> is lines 17--44 for a load at time value
    \<open>t0\<close> in a time zone \<open>tz\<close> ms ahead of UTC (the footer's year is
    YearFromTime of the local time, converted by Number::toString);
    \<open>page_step\<close> the listeners (menu clicks, typing into a control, a
    submission by the user or by a script, a response, a transport error, time
    passing, an adjustment of the system clock, a due timer firing); \<open>run\<close>
    folds it over an event sequence. A thrown TypeError is the \<open>Inl\<close> of
    \<open>js_error + page\<close> and is logged; the browser's refusal of a user
    submission through a disabled button is \<open>submit_blocked\<close>. A listener
    whose checks pass stamps the record with \<open>to_iso_string (clock s)\<close>, whose
    RangeError (a clock outside the Date range) is an \<open>Inl\<close> as well.
  \<^item> \<open>PageInvariants\<close>: the inductive \<open>reachable\<close> (every event) and
    \<open>user_reachable\<close> (no script submissions), and their invariants by rule
    induction: every request sent passed its form's checks (C1); request ids
    are distinct; over user runs a submit button is disabled exactly while one
    request of its form is in flight and otherwise shows its original label
    (C2).
  \<^item> \<open>PageBehaviour\<close>: each listener on each branch: the order of the client
    checks (C4), the TypeError when a form has no button (C5), the RangeError
    when the clock is outside the Date range (C26), the three outcomes of a
    request (C6--C8), the empty candidate form (C9), a blank required field
    (C15), the body sent, which the receiver decodes back to the record (C19),
    and, from any state, overlapping script submissions leaving an enabled
    button labelled \<open>Submitting...\<close> (C3).
  \<^item> \<open>Timers\<close>: the success elements and their timers. The invariant
    \<open>timers_ok\<close> (timers sorted by due time, all due within 6000 ms, a visible
    success element has a timer of its form pending) holds in every reachable
    state; from it, 6000 ms and one \<open>TimerFire\<close> per pending timer hide every
    success element (C11). The number of timer events is the length of the
    timer queue, and 6000 ms is enough because no timer is due later than
    6000 ms from now. Timers are never cancelled, so a success message shown
    while an earlier success's timer is pending is hidden by that timer, less
    than 6000 ms after it appeared (C12).
  \<^item> \<open>Timestamps\<close>: the dates the page produces. The footer shows the
    year whose local time span contains the load (C22); in every step that
    sends a request its time stamp is the ISO string of \<open>Date.now()\<close> at that
    moment and reads back to it, whatever clock adjustments came before (C23).
  \<^item> \<open>Scenarios\<close>: a concrete page (valid client data, empty candidate form,
    four menu links) on which the witnesses evaluate runs with \<open>simp\<close>: each
    claim with hypotheses applied to a state of this page, and a run loaded at
    2026-12-31T20:00:00Z in UTC+5:30 whose footer shows 2027 while its time
    stamp says 2026.

  \<^bold>\<open>Bounds.\<close> Every definition is total: the regex matcher terminates by a
  lexicographic measure on the remaining input and the pattern, the number
  parser and the rounding recurse on the input or on \<open>nat\<close> arguments, the
  JSON member parser by the length of the input, the month search by
  \<open>11 - m\<close>. There is no fuel. Elapsed time is a \<open>nat\<close> of milliseconds and
  time values are \<open>int\<close>s, as in ECMA-262; the browser's timer queue is the
  list \<open>pg_timers\<close> in due order. The demo page of \<open>Scenarios\<close> loads at
  2026-11-09T10:00:00.123Z in UTC+5:30.

  \<^bold>\<open>Not modelled.\<close> \<open>console\<close> logging (no effect on the page), request
  headers and the HTTP transport (a response is the status the \<open>XhrLoad\<close>
  event carries; the body is the JSON text \<open>request_body\<close>), the UTF-8
  encoding of \<open>xhr.send\<close> (C18 shows it replaces nothing), and the rendering of
  the page. The local time zone is a constant offset fixed at load: daylight
  saving changes during a visit are not modelled.
  The order in which the browser interleaves events is any sequence of
  \<open>event\<close>s: the invariants hold for all of them.
\<close>

end
